theory Spec2Isabelle
  imports Complex_Main "HOL-Library.Log_Nat"
begin

section \<open>Results, assertions and loops\<close>

text \<open>
  The header checks its preconditions with \<^verbatim>\<open>static_assert\<close> (rejected when the
  template is instantiated) and \<^verbatim>\<open>assert\<close> (the process aborts). Both are
  branches of the model: a member function returns \<open>Inl\<close> of the failure, or \<open>Inr\<close> of
  its value. A scalar quotient with a zero divisor has no value in the model (it is
  undefined behaviour for integers and an infinity or NaN for floating point).
\<close>

datatype error = AssertionFailure | StaticAssertionFailure | DivisionByZero

definition bindE :: "error + 'a \<Rightarrow> ('a \<Rightarrow> error + 'b) \<Rightarrow> error + 'b" where
  "bindE m k = (case m of Inl e \<Rightarrow> Inl e | Inr x \<Rightarrow> k x)"

definition c_assert :: "bool \<Rightarrow> error + unit" where
  "c_assert b = (if b then Inr () else Inl AssertionFailure)"

definition static_assert :: "bool \<Rightarrow> error + unit" where
  "static_assert b = (if b then Inr () else Inl StaticAssertionFailure)"

text \<open>
  \<^verbatim>\<open>for (int i = 0; i < n; i++) body\<close>: the iterations \<open>0, ..., n - 1\<close> in order, the state
  threaded through, stopping at the first failure.
\<close>

primrec for_loop :: "nat \<Rightarrow> (nat \<Rightarrow> 's \<Rightarrow> error + 's) \<Rightarrow> 's \<Rightarrow> error + 's" where
  "for_loop 0 body s = Inr s"
| "for_loop (Suc n) body s = bindE (for_loop n body s) (body n)"

text \<open>
  \<^verbatim>\<open>for (...) { if (!test(i)) return false; } return true;\<close> over the given indices.
\<close>

primrec all_pass :: "(nat \<Rightarrow> error + bool) \<Rightarrow> nat list \<Rightarrow> error + bool" where
  "all_pass test [] = Inr True"
| "all_pass test (i # is) =
     bindE (test i) (\<lambda>ok. if \<not> ok then Inr False else all_pass test is)"

text \<open>
  The variables of one call of a member function: the object \<^verbatim>\<open>*this\<close>, the arguments
  and the local variables. A body is a function from frames to frames, so that which
  of the three an assignment writes is part of the model.
\<close>

record ('t, 'p, 'l) frame =
  self :: 't
  args :: 'p
  locals :: 'l

section \<open>Arithmetic in \<^verbatim>\<open>double\<close>\<close>

text \<open>
  \<^verbatim>\<open>almost_equal\<close> takes its margin as a \<^verbatim>\<open>double\<close> and adds it to the elements, so
  its sums and comparisons are those of IEEE 754 binary64: a finite value is
  \<open>m * 2\<^sup>e\<close> for integers \<open>m\<close> and \<open>e\<close>, a sum is the exact sum rounded to the nearest
  value with a significand of 53 bits and an exponent of at least \<open>-1074\<close>, ties to the
  even significand, and to an infinity from \<open>2\<^sup>1\<^sup>0\<^sup>2\<^sup>4\<close> on. A comparison with a NaN is
  false. The sign of a zero, which no comparison sees, is not kept.
\<close>

datatype double = Finite int int | PlusInfinity | MinusInfinity | NaN

definition overflow :: "int \<Rightarrow> int \<Rightarrow> double" where
  "overflow m e =
     (if m > 0 \<and> bitlen m + e > 1024 then PlusInfinity
      else if m < 0 \<and> bitlen (- m) + e > 1024 then MinusInfinity
      else Finite m e)"

definition round_to_double :: "int \<Rightarrow> int \<Rightarrow> double" where
  "round_to_double M E =
     (let k = max (bitlen \<bar>M\<bar> - 53) (- 1074 - E) in
      if k \<le> 0 then overflow M E
      else
        let q = M div 2 ^ nat k; r = M mod 2 ^ nat k; half = 2 ^ nat (k - 1);
            n = (if r > half \<or> (r = half \<and> odd q) then q + 1 else q)
        in overflow n (E + k))"

definition finite_add :: "int \<Rightarrow> int \<Rightarrow> int \<Rightarrow> int \<Rightarrow> double" where
  "finite_add m1 e1 m2 e2 =
     (let E = min e1 e2
      in round_to_double (m1 * 2 ^ nat (e1 - E) + m2 * 2 ^ nat (e2 - E)) E)"

definition finite_le :: "int \<Rightarrow> int \<Rightarrow> int \<Rightarrow> int \<Rightarrow> bool" where
  "finite_le m1 e1 m2 e2 =
     (let E = min e1 e2 in m1 * 2 ^ nat (e1 - E) \<le> m2 * 2 ^ nat (e2 - E))"

fun double_add :: "double \<Rightarrow> double \<Rightarrow> double" where
  "double_add NaN _ = NaN"
| "double_add _ NaN = NaN"
| "double_add PlusInfinity MinusInfinity = NaN"
| "double_add MinusInfinity PlusInfinity = NaN"
| "double_add PlusInfinity _ = PlusInfinity"
| "double_add _ PlusInfinity = PlusInfinity"
| "double_add MinusInfinity _ = MinusInfinity"
| "double_add _ MinusInfinity = MinusInfinity"
| "double_add (Finite m1 e1) (Finite m2 e2) = finite_add m1 e1 m2 e2"

fun double_negate :: "double \<Rightarrow> double" where
  "double_negate (Finite m e) = Finite (- m) e"
| "double_negate PlusInfinity = MinusInfinity"
| "double_negate MinusInfinity = PlusInfinity"
| "double_negate NaN = NaN"

definition double_sub :: "double \<Rightarrow> double \<Rightarrow> double" where
  "double_sub a b = double_add a (double_negate b)"

fun double_le :: "double \<Rightarrow> double \<Rightarrow> bool" where
  "double_le NaN _ = False"
| "double_le _ NaN = False"
| "double_le MinusInfinity _ = True"
| "double_le _ PlusInfinity = True"
| "double_le PlusInfinity _ = False"
| "double_le _ MinusInfinity = False"
| "double_le (Finite m1 e1) (Finite m2 e2) = finite_le m1 e1 m2 e2"

definition double_ge :: "double \<Rightarrow> double \<Rightarrow> bool" where
  "double_ge a b = double_le b a"

text \<open>The conversion of an integer scalar, and \<^verbatim>\<open>DEFAULT_DELTA = .001\<close>.\<close>

definition double_of_int :: "int \<Rightarrow> double" where
  "double_of_int i = round_to_double i 0"

definition DEFAULT_DELTA :: double where
  "DEFAULT_DELTA = Finite 4611686018427388 (- 62)"

section \<open>gfx::vector\<close>

text \<open>
  \<^verbatim>\<open>std::array<scalar_type, DIMENSION> _elements\<close>: a list whose length is the template
  parameter \<^verbatim>\<open>DIMENSION\<close>. The scalar type is a type variable, and \<open>0\<close>, \<open>+\<close>, \<open>-\<close> and
  \<open>*\<close> are the operations of its type, any type with the algebraic laws a statement
  names: the integers, machine words with wrap-around, a field. What depends on the
  rounding of a \<^verbatim>\<open>double\<close>, the sums and comparisons of \<^verbatim>\<open>almost_equal\<close>, is computed in
  the \<^verbatim>\<open>double\<close> of the section above. Indices are C++ \<^verbatim>\<open>int\<close>s.
\<close>

type_synonym 'a vector = "'a list"

definition dimension :: "'a vector \<Rightarrow> nat" where
  "dimension v = length v"

definition is_index :: "nat \<Rightarrow> int \<Rightarrow> bool" where
  "is_index DIMENSION i = ((i \<ge> 0) \<and> (i < int DIMENSION))"

text \<open>\<^verbatim>\<open>operator[]\<close> read, and an assignment through the reference it returns.\<close>

definition vector_at :: "'a vector \<Rightarrow> int \<Rightarrow> error + 'a" where
  "vector_at v i = bindE (c_assert (is_index (dimension v) i)) (\<lambda>_. Inr (v ! nat i))"

definition vector_assign :: "'a vector \<Rightarrow> int \<Rightarrow> 'a \<Rightarrow> error + 'a vector" where
  "vector_assign v i x =
     bindE (c_assert (is_index (dimension v) i)) (\<lambda>_. Inr (v[nat i := x]))"

text \<open>
  \<^verbatim>\<open>return x;\<close> where \<open>x\<close> is the local variable (or the record of local variables,
  projected by the caller) of the frame a body ends in.
\<close>

definition returning :: "('f \<Rightarrow> 'r) \<Rightarrow> error + 'f \<Rightarrow> error + 'r" where
  "returning get r = bindE r (\<lambda>f. Inr (get f))"

text \<open>
  \<^verbatim>\<open>scalar_type\<close>'s own \<^verbatim>\<open>operator/\<close> is a parameter \<open>quot\<close> of the functions that divide
  (truncating for \<^verbatim>\<open>int\<close>, the quotient of a field otherwise); so is the
  rounding of \<^verbatim>\<open>sqrt\<close> back to the scalar type, \<open>sq_root\<close>.
\<close>

definition scalar_divide :: "('a \<Rightarrow> 'a \<Rightarrow> 'a) \<Rightarrow> 'a::zero \<Rightarrow> 'a \<Rightarrow> error + 'a" where
  "scalar_divide quot x y = (if y = 0 then Inl DivisionByZero else Inr (quot x y))"

text \<open>C++ integer division truncates towards zero.\<close>

definition int_quot :: "int \<Rightarrow> int \<Rightarrow> int" where
  "int_quot x y = sgn x * sgn y * (\<bar>x\<bar> div \<bar>y\<bar>)"

text \<open>\<^verbatim>\<open>fill(value)\<close> writes every element of \<^verbatim>\<open>*this\<close>.\<close>

definition vector_fill_step ::
  "nat \<Rightarrow> ('a vector, 'a, unit) frame \<Rightarrow> error + ('a vector, 'a, unit) frame" where
  "vector_fill_step i f =
     bindE (vector_assign (self f) (int i) (args f)) (\<lambda>v. Inr (f\<lparr>self := v\<rparr>))"

definition vector_fill_exec :: "'a vector \<Rightarrow> 'a \<Rightarrow> error + ('a vector, 'a, unit) frame" where
  "vector_fill_exec this val =
     for_loop (dimension this) vector_fill_step \<lparr>self = this, args = val, locals = ()\<rparr>"

definition vector_fill :: "'a vector \<Rightarrow> 'a \<Rightarrow> error + 'a vector" where
  "vector_fill this val = returning self (vector_fill_exec this val)"

text \<open>
  \<^verbatim>\<open>vector(scalar_type default_value = 0) { fill(default_value); }\<close>. The array is
  indeterminate before \<^verbatim>\<open>fill\<close> has written each of its \<^verbatim>\<open>DIMENSION\<close> slots; the model
  starts from an array of that length, whose contents \<open>vector_fill\<close> overwrites
  (lemma \<open>vector_fill_value\<close>).
\<close>

definition vector_new :: "nat \<Rightarrow> 'a \<Rightarrow> error + 'a vector" where
  "vector_new DIMENSION default_value =
     vector_fill (replicate DIMENSION default_value) default_value"

text \<open>\<^verbatim>\<open>operator==\<close>.\<close>

definition vector_op_eq :: "'a vector \<Rightarrow> 'a vector \<Rightarrow> error + bool" where
  "vector_op_eq this rhs =
     (if dimension rhs \<noteq> dimension this then Inr False
      else all_pass (\<lambda>i.
             bindE (vector_at rhs (int i)) (\<lambda>y.
             bindE (vector_at this (int i)) (\<lambda>x.
             Inr (\<not> (y \<noteq> x)))))
           [0 ..< dimension rhs])"

text \<open>\<^verbatim>\<open>operator+\<close>, binary and unary \<^verbatim>\<open>operator-\<close>: a copy of \<^verbatim>\<open>*this\<close> is overwritten.\<close>

definition vector_op_plus_step ::
  "nat \<Rightarrow> ('a::plus vector, 'a vector, 'a vector) frame
     \<Rightarrow> error + ('a vector, 'a vector, 'a vector) frame" where
  "vector_op_plus_step i f =
     bindE (vector_at (self f) (int i)) (\<lambda>x.
     bindE (vector_at (args f) (int i)) (\<lambda>y.
     bindE (vector_assign (locals f) (int i) (x + y)) (\<lambda>sum.
     Inr (f\<lparr>locals := sum\<rparr>))))"

definition vector_op_plus_exec ::
  "'a::plus vector \<Rightarrow> 'a vector \<Rightarrow> error + ('a vector, 'a vector, 'a vector) frame" where
  "vector_op_plus_exec this rhs =
     for_loop (dimension this) vector_op_plus_step \<lparr>self = this, args = rhs, locals = this\<rparr>"

definition vector_op_plus :: "'a::plus vector \<Rightarrow> 'a vector \<Rightarrow> error + 'a vector" where
  "vector_op_plus this rhs = returning locals (vector_op_plus_exec this rhs)"

definition vector_op_minus_step ::
  "nat \<Rightarrow> ('a::minus vector, 'a vector, 'a vector) frame
     \<Rightarrow> error + ('a vector, 'a vector, 'a vector) frame" where
  "vector_op_minus_step i f =
     bindE (vector_at (self f) (int i)) (\<lambda>x.
     bindE (vector_at (args f) (int i)) (\<lambda>y.
     bindE (vector_assign (locals f) (int i) (x - y)) (\<lambda>dif.
     Inr (f\<lparr>locals := dif\<rparr>))))"

definition vector_op_minus_exec ::
  "'a::minus vector \<Rightarrow> 'a vector \<Rightarrow> error + ('a vector, 'a vector, 'a vector) frame" where
  "vector_op_minus_exec this rhs =
     for_loop (dimension this) vector_op_minus_step \<lparr>self = this, args = rhs, locals = this\<rparr>"

definition vector_op_minus :: "'a::minus vector \<Rightarrow> 'a vector \<Rightarrow> error + 'a vector" where
  "vector_op_minus this rhs = returning locals (vector_op_minus_exec this rhs)"

definition vector_op_negate_step ::
  "nat \<Rightarrow> ('a::{zero,minus} vector, unit, 'a vector) frame
     \<Rightarrow> error + ('a vector, unit, 'a vector) frame" where
  "vector_op_negate_step i f =
     bindE (vector_at (self f) (int i)) (\<lambda>x.
     bindE (vector_assign (locals f) (int i) (0 - x)) (\<lambda>neg.
     Inr (f\<lparr>locals := neg\<rparr>)))"

definition vector_op_negate_exec ::
  "'a::{zero,minus} vector \<Rightarrow> error + ('a vector, unit, 'a vector) frame" where
  "vector_op_negate_exec this =
     for_loop (dimension this) vector_op_negate_step \<lparr>self = this, args = (), locals = this\<rparr>"

definition vector_op_negate :: "'a::{zero,minus} vector \<Rightarrow> error + 'a vector" where
  "vector_op_negate this = returning locals (vector_op_negate_exec this)"

text \<open>\<^verbatim>\<open>operator*(scalar_type rhs)\<close> and \<^verbatim>\<open>operator/(scalar_type rhs)\<close>.\<close>

definition vector_op_times_scalar_step ::
  "nat \<Rightarrow> ('a::times vector, 'a, 'a vector) frame \<Rightarrow> error + ('a vector, 'a, 'a vector) frame" where
  "vector_op_times_scalar_step i f =
     bindE (vector_at (self f) (int i)) (\<lambda>x.
     bindE (vector_assign (locals f) (int i) (args f * x)) (\<lambda>prod.
     Inr (f\<lparr>locals := prod\<rparr>)))"

definition vector_op_times_scalar_exec ::
  "'a::times vector \<Rightarrow> 'a \<Rightarrow> error + ('a vector, 'a, 'a vector) frame" where
  "vector_op_times_scalar_exec this rhs =
     for_loop (dimension this) vector_op_times_scalar_step
       \<lparr>self = this, args = rhs, locals = this\<rparr>"

definition vector_op_times_scalar :: "'a::times vector \<Rightarrow> 'a \<Rightarrow> error + 'a vector" where
  "vector_op_times_scalar this rhs = returning locals (vector_op_times_scalar_exec this rhs)"

definition vector_op_divide_step ::
  "('a \<Rightarrow> 'a \<Rightarrow> 'a) \<Rightarrow> nat \<Rightarrow> ('a::zero vector, 'a, 'a vector) frame
     \<Rightarrow> error + ('a vector, 'a, 'a vector) frame" where
  "vector_op_divide_step quot i f =
     bindE (vector_at (self f) (int i)) (\<lambda>x.
     bindE (scalar_divide quot x (args f)) (\<lambda>q.
     bindE (vector_assign (locals f) (int i) q) (\<lambda>quo.
     Inr (f\<lparr>locals := quo\<rparr>))))"

definition vector_op_divide_exec ::
  "('a \<Rightarrow> 'a \<Rightarrow> 'a) \<Rightarrow> 'a::zero vector \<Rightarrow> 'a \<Rightarrow> error + ('a vector, 'a, 'a vector) frame" where
  "vector_op_divide_exec quot this rhs =
     for_loop (dimension this) (vector_op_divide_step quot)
       \<lparr>self = this, args = rhs, locals = this\<rparr>"

definition vector_op_divide ::
  "('a \<Rightarrow> 'a \<Rightarrow> 'a) \<Rightarrow> 'a::zero vector \<Rightarrow> 'a \<Rightarrow> error + 'a vector" where
  "vector_op_divide quot this rhs = returning locals (vector_op_divide_exec quot this rhs)"

text \<open>\<^verbatim>\<open>operator*(const same_type& rhs)\<close>, the dot product.\<close>

definition dot_step ::
  "nat \<Rightarrow> ('a::{plus,times} vector, 'a vector, 'a) frame
     \<Rightarrow> error + ('a vector, 'a vector, 'a) frame" where
  "dot_step i f =
     bindE (vector_at (self f) (int i)) (\<lambda>x.
     bindE (vector_at (args f) (int i)) (\<lambda>y.
     Inr (f\<lparr>locals := locals f + (x * y)\<rparr>)))"

definition vector_op_times_vector_exec ::
  "'a::{zero,plus,times} vector \<Rightarrow> 'a vector \<Rightarrow> error + ('a vector, 'a vector, 'a) frame" where
  "vector_op_times_vector_exec this rhs =
     for_loop (dimension this) dot_step \<lparr>self = this, args = rhs, locals = 0\<rparr>"

definition vector_op_times_vector :: "'a::{zero,plus,times} vector \<Rightarrow> 'a vector \<Rightarrow> error + 'a" where
  "vector_op_times_vector this rhs = returning locals (vector_op_times_vector_exec this rhs)"

text \<open>
  \<^verbatim>\<open>almost_equal(rhs, delta)\<close>. In \<^verbatim>\<open>(*this)[i] <= rhs[i] + delta\<close> the scalars are
  converted to \<^verbatim>\<open>double\<close>, by \<open>to_double\<close>, and the sum and the difference are rounded.
\<close>

definition vector_almost_equal ::
  "('a \<Rightarrow> double) \<Rightarrow> 'a vector \<Rightarrow> 'a vector \<Rightarrow> double \<Rightarrow> error + bool" where
  "vector_almost_equal to_double this rhs delta =
     all_pass (\<lambda>i.
       bindE (vector_at this (int i)) (\<lambda>x.
       bindE (vector_at rhs (int i)) (\<lambda>y.
       Inr ((double_le (to_double x) (double_add (to_double y) delta))
            \<and> (double_ge (to_double x) (double_sub (to_double y) delta))))))
     [0 ..< dimension rhs]"

text \<open>\<^verbatim>\<open>magnitude_squared()\<close>, \<^verbatim>\<open>magnitude()\<close> and \<^verbatim>\<open>normalize()\<close>.\<close>

definition magnitude_squared_step ::
  "nat \<Rightarrow> ('a::{plus,times} vector, unit, 'a) frame \<Rightarrow> error + ('a vector, unit, 'a) frame" where
  "magnitude_squared_step i f =
     bindE (vector_at (self f) (int i)) (\<lambda>x.
     bindE (vector_at (self f) (int i)) (\<lambda>y.
     Inr (f\<lparr>locals := locals f + (x * y)\<rparr>)))"

definition magnitude_squared_exec ::
  "'a::{zero,plus,times} vector \<Rightarrow> error + ('a vector, unit, 'a) frame" where
  "magnitude_squared_exec this =
     for_loop (dimension this) magnitude_squared_step \<lparr>self = this, args = (), locals = 0\<rparr>"

definition magnitude_squared :: "'a::{zero,plus,times} vector \<Rightarrow> error + 'a" where
  "magnitude_squared this = returning locals (magnitude_squared_exec this)"

definition magnitude_exec ::
  "('a \<Rightarrow> 'a) \<Rightarrow> 'a::{zero,plus,times} vector \<Rightarrow> error + ('a vector, unit, 'a) frame" where
  "magnitude_exec sq_root this =
     bindE (for_loop (dimension this) magnitude_squared_step
              \<lparr>self = this, args = (), locals = 0\<rparr>) (\<lambda>f.
     Inr (f\<lparr>locals := sq_root (locals f)\<rparr>))"

definition magnitude :: "('a \<Rightarrow> 'a) \<Rightarrow> 'a::{zero,plus,times} vector \<Rightarrow> error + 'a" where
  "magnitude sq_root this = returning locals (magnitude_exec sq_root this)"

record 'a normalize_locals =
  mag :: 'a
  norm_vec :: "'a vector"

definition normalize_sum_step ::
  "nat \<Rightarrow> ('a::{plus,times} vector, unit, 'a normalize_locals) frame
     \<Rightarrow> error + ('a vector, unit, 'a normalize_locals) frame" where
  "normalize_sum_step i f =
     bindE (vector_at (self f) (int i)) (\<lambda>x.
     bindE (vector_at (self f) (int i)) (\<lambda>y.
     Inr (f\<lparr>locals := (locals f)\<lparr>mag := mag (locals f) + (x * y)\<rparr>\<rparr>)))"

definition normalize_scale_step ::
  "('a \<Rightarrow> 'a \<Rightarrow> 'a) \<Rightarrow> nat \<Rightarrow> ('a::zero vector, unit, 'a normalize_locals) frame
     \<Rightarrow> error + ('a vector, unit, 'a normalize_locals) frame" where
  "normalize_scale_step quot i f =
     bindE (vector_at (self f) (int i)) (\<lambda>x.
     bindE (scalar_divide quot x (mag (locals f))) (\<lambda>q.
     bindE (vector_assign (norm_vec (locals f)) (int i) q) (\<lambda>n.
     Inr (f\<lparr>locals := (locals f)\<lparr>norm_vec := n\<rparr>\<rparr>))))"

definition normalize_exec ::
  "('a \<Rightarrow> 'a \<Rightarrow> 'a) \<Rightarrow> ('a \<Rightarrow> 'a) \<Rightarrow> 'a::{zero,plus,times} vector
     \<Rightarrow> error + ('a vector, unit, 'a normalize_locals) frame" where
  "normalize_exec quot sq_root this =
     bindE (for_loop (dimension this) normalize_sum_step
              \<lparr>self = this, args = (), locals = \<lparr>mag = 0, norm_vec = this\<rparr>\<rparr>) (\<lambda>f.
     for_loop (dimension this) (normalize_scale_step quot)
       (f\<lparr>locals := (locals f)\<lparr>mag := sq_root (mag (locals f))\<rparr>\<rparr>))"

definition normalize ::
  "('a \<Rightarrow> 'a \<Rightarrow> 'a) \<Rightarrow> ('a \<Rightarrow> 'a) \<Rightarrow> 'a::{zero,plus,times} vector \<Rightarrow> error + 'a vector" where
  "normalize quot sq_root this = returning (\<lambda>f. norm_vec (locals f)) (normalize_exec quot sq_root this)"

text \<open>\<^verbatim>\<open>cross(rhs)\<close>: three assignments to a copy of \<^verbatim>\<open>*this\<close>, no check of the dimension.\<close>

definition cross_exec ::
  "'a::{zero,minus,times} vector \<Rightarrow> 'a vector
     \<Rightarrow> error + ('a vector, 'a vector, 'a vector) frame" where
  "cross_exec this rhs =
     (let f = \<lparr>self = this, args = rhs, locals = this\<rparr> in
      bindE (vector_at (self f) 1) (\<lambda>a1. bindE (vector_at (args f) 2) (\<lambda>b2.
      bindE (vector_at (self f) 2) (\<lambda>a2. bindE (vector_at (args f) 1) (\<lambda>b1.
      bindE (vector_assign (locals f) 0 ((a1 * b2) - (a2 * b1))) (\<lambda>c0.
      let f = f\<lparr>locals := c0\<rparr> in
      bindE (vector_at (self f) 0) (\<lambda>a0. bindE (vector_at (args f) 2) (\<lambda>b2.
      bindE (vector_at (self f) 2) (\<lambda>a2. bindE (vector_at (args f) 0) (\<lambda>b0.
      bindE (vector_assign (locals f) 1 (0 - ((a0 * b2) - (a2 * b0)))) (\<lambda>c1.
      let f = f\<lparr>locals := c1\<rparr> in
      bindE (vector_at (self f) 0) (\<lambda>a0. bindE (vector_at (args f) 1) (\<lambda>b1.
      bindE (vector_at (self f) 1) (\<lambda>a1. bindE (vector_at (args f) 0) (\<lambda>b0.
      bindE (vector_assign (locals f) 2 ((a0 * b1) - (a1 * b0))) (\<lambda>c2.
      Inr (f\<lparr>locals := c2\<rparr>)))))))))))))))))"

definition cross :: "'a::{zero,minus,times} vector \<Rightarrow> 'a vector \<Rightarrow> error + 'a vector" where
  "cross this rhs = returning locals (cross_exec this rhs)"

text \<open>
  \<^verbatim>\<open>subvector<RESULT_DIMENSION>(start_index)\<close>, \<^verbatim>\<open>shrink<RESULT_DIMENSION>()\<close> and
  \<^verbatim>\<open>grow<RESULT_DIMENSION>(default_value)\<close>. The template argument is the first
  parameter.
\<close>

definition subvector_step ::
  "nat \<Rightarrow> ('a vector, int, 'a vector) frame \<Rightarrow> error + ('a vector, int, 'a vector) frame" where
  "subvector_step i f =
     bindE (vector_at (self f) (args f + int i)) (\<lambda>x.
     bindE (vector_assign (locals f) (int i) x) (\<lambda>part.
     Inr (f\<lparr>locals := part\<rparr>)))"

definition subvector_exec ::
  "nat \<Rightarrow> 'a::zero vector \<Rightarrow> int \<Rightarrow> error + ('a vector, int, 'a vector) frame" where
  "subvector_exec RESULT_DIMENSION this start_index =
     bindE (static_assert (RESULT_DIMENSION \<le> dimension this)) (\<lambda>_.
     bindE (c_assert (is_index (dimension this) (start_index + int RESULT_DIMENSION - 1))) (\<lambda>_.
     bindE (vector_new RESULT_DIMENSION 0) (\<lambda>part.
     for_loop RESULT_DIMENSION subvector_step
       \<lparr>self = this, args = start_index, locals = part\<rparr>)))"

definition subvector :: "nat \<Rightarrow> 'a::zero vector \<Rightarrow> int \<Rightarrow> error + 'a vector" where
  "subvector RESULT_DIMENSION this start_index =
     returning locals (subvector_exec RESULT_DIMENSION this start_index)"

definition vector_shrink_step ::
  "nat \<Rightarrow> ('a vector, unit, 'a vector) frame \<Rightarrow> error + ('a vector, unit, 'a vector) frame" where
  "vector_shrink_step i f =
     bindE (vector_at (self f) (int i)) (\<lambda>x.
     bindE (vector_assign (locals f) (int i) x) (\<lambda>lower.
     Inr (f\<lparr>locals := lower\<rparr>)))"

definition vector_shrink_exec ::
  "nat \<Rightarrow> 'a::zero vector \<Rightarrow> error + ('a vector, unit, 'a vector) frame" where
  "vector_shrink_exec RESULT_DIMENSION this =
     bindE (static_assert (RESULT_DIMENSION < dimension this)) (\<lambda>_.
     bindE (vector_new RESULT_DIMENSION 0) (\<lambda>lower.
     for_loop RESULT_DIMENSION vector_shrink_step \<lparr>self = this, args = (), locals = lower\<rparr>))"

definition vector_shrink :: "nat \<Rightarrow> 'a::zero vector \<Rightarrow> error + 'a vector" where
  "vector_shrink RESULT_DIMENSION this = returning locals (vector_shrink_exec RESULT_DIMENSION this)"

definition vector_grow_step ::
  "nat \<Rightarrow> ('a vector, 'a, 'a vector) frame \<Rightarrow> error + ('a vector, 'a, 'a vector) frame" where
  "vector_grow_step i f =
     bindE (vector_at (self f) (int i)) (\<lambda>x.
     bindE (vector_assign (locals f) (int i) x) (\<lambda>higher.
     Inr (f\<lparr>locals := higher\<rparr>)))"

definition vector_grow_exec ::
  "nat \<Rightarrow> 'a vector \<Rightarrow> 'a \<Rightarrow> error + ('a vector, 'a, 'a vector) frame" where
  "vector_grow_exec RESULT_DIMENSION this default_value =
     bindE (static_assert (RESULT_DIMENSION > dimension this)) (\<lambda>_.
     bindE (vector_new RESULT_DIMENSION default_value) (\<lambda>higher.
     for_loop (dimension this) vector_grow_step
       \<lparr>self = this, args = default_value, locals = higher\<rparr>))"

definition vector_grow :: "nat \<Rightarrow> 'a vector \<Rightarrow> 'a \<Rightarrow> error + 'a vector" where
  "vector_grow RESULT_DIMENSION this default_value =
     returning locals (vector_grow_exec RESULT_DIMENSION this default_value)"

section \<open>gfx::matrix\<close>

text \<open>
  \<^verbatim>\<open>std::array<row_type, HEIGHT> _rows\<close>, each row a \<^verbatim>\<open>gfx::vector<scalar_type, WIDTH>\<close>.
  The template parameters travel with the value; an object of the class satisfies
  \<open>well_formed\<close>.
\<close>

record 'a matrix =
  height :: nat
  width :: nat
  rows :: "'a vector list"

definition well_formed :: "'a matrix \<Rightarrow> bool" where
  "well_formed m \<longleftrightarrow>
     length (rows m) = height m \<and> (\<forall>r \<in> set (rows m). dimension r = width m)"

definition is_row :: "nat \<Rightarrow> int \<Rightarrow> bool" where
  "is_row HEIGHT r = ((r \<ge> 0) \<and> (r < int HEIGHT))"

definition is_column :: "nat \<Rightarrow> int \<Rightarrow> bool" where
  "is_column WIDTH c = ((c \<ge> 0) \<and> (c < int WIDTH))"

definition is_square :: "'a matrix \<Rightarrow> bool" where
  "is_square m = (width m = height m)"

text \<open>
  \<^verbatim>\<open>operator[](int row)\<close> gives the row; \<^verbatim>\<open>m[i][j]\<close> reads through it and
  \<^verbatim>\<open>m[i][j] = x\<close> writes through the reference.
\<close>

definition matrix_row :: "'a matrix \<Rightarrow> int \<Rightarrow> error + 'a vector" where
  "matrix_row m row = bindE (c_assert (is_row (height m) row)) (\<lambda>_. Inr (rows m ! nat row))"

definition matrix_at :: "'a matrix \<Rightarrow> int \<Rightarrow> int \<Rightarrow> error + 'a" where
  "matrix_at m i j = bindE (matrix_row m i) (\<lambda>r. vector_at r j)"

definition matrix_assign :: "'a matrix \<Rightarrow> int \<Rightarrow> int \<Rightarrow> 'a \<Rightarrow> error + 'a matrix" where
  "matrix_assign m i j x =
     bindE (matrix_row m i) (\<lambda>r.
     bindE (vector_assign r j x) (\<lambda>r'.
     Inr (m\<lparr>rows := (rows m)[nat i := r']\<rparr>)))"

text \<open>The nested loops \<^verbatim>\<open>for (i < h) for (j < w) body\<close>.\<close>

definition for_loop2 :: "nat \<Rightarrow> nat \<Rightarrow> (nat \<Rightarrow> nat \<Rightarrow> 's \<Rightarrow> error + 's) \<Rightarrow> 's \<Rightarrow> error + 's" where
  "for_loop2 h w body = for_loop h (\<lambda>i. for_loop w (body i))"

text \<open>\<^verbatim>\<open>fill(value)\<close> and the constructor \<^verbatim>\<open>matrix(scalar_type default_value = 0)\<close>,
  whose rows have been default-constructed before \<^verbatim>\<open>fill\<close> runs.\<close>

definition matrix_fill_step ::
  "nat \<Rightarrow> nat \<Rightarrow> ('a matrix, 'a, unit) frame \<Rightarrow> error + ('a matrix, 'a, unit) frame" where
  "matrix_fill_step i j f =
     bindE (matrix_assign (self f) (int i) (int j) (args f)) (\<lambda>m. Inr (f\<lparr>self := m\<rparr>))"

definition matrix_fill_exec :: "'a matrix \<Rightarrow> 'a \<Rightarrow> error + ('a matrix, 'a, unit) frame" where
  "matrix_fill_exec this val =
     for_loop2 (height this) (width this) matrix_fill_step
       \<lparr>self = this, args = val, locals = ()\<rparr>"

definition matrix_fill :: "'a matrix \<Rightarrow> 'a \<Rightarrow> error + 'a matrix" where
  "matrix_fill this val = returning self (matrix_fill_exec this val)"

definition matrix_new :: "nat \<Rightarrow> nat \<Rightarrow> 'a::zero \<Rightarrow> error + 'a matrix" where
  "matrix_new HEIGHT WIDTH default_value =
     bindE (vector_new WIDTH 0) (\<lambda>row.
     matrix_fill \<lparr>height = HEIGHT, width = WIDTH, rows = replicate HEIGHT row\<rparr> default_value)"

text \<open>\<^verbatim>\<open>operator==\<close>.\<close>

definition matrix_op_eq :: "'a matrix \<Rightarrow> 'a matrix \<Rightarrow> error + bool" where
  "matrix_op_eq this rhs =
     all_pass (\<lambda>i.
       all_pass (\<lambda>j.
         bindE (matrix_at this (int i) (int j)) (\<lambda>x.
         bindE (matrix_at rhs (int i) (int j)) (\<lambda>y.
         Inr (\<not> (x \<noteq> y)))))
       [0 ..< width this])
     [0 ..< height this]"

text \<open>\<^verbatim>\<open>operator+\<close>, \<^verbatim>\<open>operator-\<close> (binary and unary), \<^verbatim>\<open>operator/\<close> and
  \<^verbatim>\<open>operator*(scalar_type rhs)\<close>.\<close>

definition matrix_op_plus_step ::
  "nat \<Rightarrow> nat \<Rightarrow> ('a::plus matrix, 'a matrix, 'a matrix) frame
     \<Rightarrow> error + ('a matrix, 'a matrix, 'a matrix) frame" where
  "matrix_op_plus_step i j f =
     bindE (matrix_at (self f) (int i) (int j)) (\<lambda>x.
     bindE (matrix_at (args f) (int i) (int j)) (\<lambda>y.
     bindE (matrix_assign (locals f) (int i) (int j) (x + y)) (\<lambda>sum.
     Inr (f\<lparr>locals := sum\<rparr>))))"

definition matrix_op_plus_exec ::
  "'a::plus matrix \<Rightarrow> 'a matrix \<Rightarrow> error + ('a matrix, 'a matrix, 'a matrix) frame" where
  "matrix_op_plus_exec this rhs =
     for_loop2 (height this) (width this) matrix_op_plus_step
       \<lparr>self = this, args = rhs, locals = this\<rparr>"

definition matrix_op_plus :: "'a::plus matrix \<Rightarrow> 'a matrix \<Rightarrow> error + 'a matrix" where
  "matrix_op_plus this rhs = returning locals (matrix_op_plus_exec this rhs)"

definition matrix_op_minus_step ::
  "nat \<Rightarrow> nat \<Rightarrow> ('a::minus matrix, 'a matrix, 'a matrix) frame
     \<Rightarrow> error + ('a matrix, 'a matrix, 'a matrix) frame" where
  "matrix_op_minus_step i j f =
     bindE (matrix_at (self f) (int i) (int j)) (\<lambda>x.
     bindE (matrix_at (args f) (int i) (int j)) (\<lambda>y.
     bindE (matrix_assign (locals f) (int i) (int j) (x - y)) (\<lambda>dif.
     Inr (f\<lparr>locals := dif\<rparr>))))"

definition matrix_op_minus_exec ::
  "'a::minus matrix \<Rightarrow> 'a matrix \<Rightarrow> error + ('a matrix, 'a matrix, 'a matrix) frame" where
  "matrix_op_minus_exec this rhs =
     for_loop2 (height this) (width this) matrix_op_minus_step
       \<lparr>self = this, args = rhs, locals = this\<rparr>"

definition matrix_op_minus :: "'a::minus matrix \<Rightarrow> 'a matrix \<Rightarrow> error + 'a matrix" where
  "matrix_op_minus this rhs = returning locals (matrix_op_minus_exec this rhs)"

definition matrix_op_negate_step ::
  "nat \<Rightarrow> nat \<Rightarrow> ('a::{zero,minus} matrix, unit, 'a matrix) frame
     \<Rightarrow> error + ('a matrix, unit, 'a matrix) frame" where
  "matrix_op_negate_step i j f =
     bindE (matrix_at (self f) (int i) (int j)) (\<lambda>x.
     bindE (matrix_assign (locals f) (int i) (int j) (0 - x)) (\<lambda>neg.
     Inr (f\<lparr>locals := neg\<rparr>)))"

definition matrix_op_negate_exec ::
  "'a::{zero,minus} matrix \<Rightarrow> error + ('a matrix, unit, 'a matrix) frame" where
  "matrix_op_negate_exec this =
     for_loop2 (height this) (width this) matrix_op_negate_step
       \<lparr>self = this, args = (), locals = this\<rparr>"

definition matrix_op_negate :: "'a::{zero,minus} matrix \<Rightarrow> error + 'a matrix" where
  "matrix_op_negate this = returning locals (matrix_op_negate_exec this)"

definition matrix_op_divide_step ::
  "('a \<Rightarrow> 'a \<Rightarrow> 'a) \<Rightarrow> nat \<Rightarrow> nat \<Rightarrow> ('a::zero matrix, 'a, 'a matrix) frame
     \<Rightarrow> error + ('a matrix, 'a, 'a matrix) frame" where
  "matrix_op_divide_step quot i j f =
     bindE (matrix_at (self f) (int i) (int j)) (\<lambda>x.
     bindE (scalar_divide quot x (args f)) (\<lambda>q.
     bindE (matrix_assign (locals f) (int i) (int j) q) (\<lambda>quo.
     Inr (f\<lparr>locals := quo\<rparr>))))"

definition matrix_op_divide_exec ::
  "('a \<Rightarrow> 'a \<Rightarrow> 'a) \<Rightarrow> 'a::zero matrix \<Rightarrow> 'a \<Rightarrow> error + ('a matrix, 'a, 'a matrix) frame" where
  "matrix_op_divide_exec quot this rhs =
     for_loop2 (height this) (width this) (matrix_op_divide_step quot)
       \<lparr>self = this, args = rhs, locals = this\<rparr>"

definition matrix_op_divide ::
  "('a \<Rightarrow> 'a \<Rightarrow> 'a) \<Rightarrow> 'a::zero matrix \<Rightarrow> 'a \<Rightarrow> error + 'a matrix" where
  "matrix_op_divide quot this rhs = returning locals (matrix_op_divide_exec quot this rhs)"

definition matrix_op_times_scalar_step ::
  "nat \<Rightarrow> nat \<Rightarrow> ('a::times matrix, 'a, 'a matrix) frame
     \<Rightarrow> error + ('a matrix, 'a, 'a matrix) frame" where
  "matrix_op_times_scalar_step i j f =
     bindE (matrix_at (self f) (int i) (int j)) (\<lambda>x.
     bindE (matrix_assign (locals f) (int i) (int j) (x * args f)) (\<lambda>prod.
     Inr (f\<lparr>locals := prod\<rparr>)))"

definition matrix_op_times_scalar_exec ::
  "'a::times matrix \<Rightarrow> 'a \<Rightarrow> error + ('a matrix, 'a, 'a matrix) frame" where
  "matrix_op_times_scalar_exec this rhs =
     for_loop2 (height this) (width this) matrix_op_times_scalar_step
       \<lparr>self = this, args = rhs, locals = this\<rparr>"

definition matrix_op_times_scalar :: "'a::times matrix \<Rightarrow> 'a \<Rightarrow> error + 'a matrix" where
  "matrix_op_times_scalar this rhs = returning locals (matrix_op_times_scalar_exec this rhs)"

text \<open>
  \<^verbatim>\<open>operator*(const gfx::matrix<scalar_type, WIDTH, RESULT_WIDTH>& rhs)\<close>. The type of
  the parameter makes a right operand of another height a compile-time error.
\<close>

record 'a times_locals =
  crossed :: "'a matrix"
  crossval :: 'a

definition matrix_op_times_matrix_inner ::
  "nat \<Rightarrow> nat \<Rightarrow> nat \<Rightarrow> ('a::{plus,times} matrix, 'a matrix, 'a times_locals) frame
     \<Rightarrow> error + ('a matrix, 'a matrix, 'a times_locals) frame" where
  "matrix_op_times_matrix_inner i j k f =
     bindE (matrix_at (self f) (int i) (int k)) (\<lambda>x.
     bindE (matrix_at (args f) (int k) (int j)) (\<lambda>y.
     Inr (f\<lparr>locals := (locals f)\<lparr>crossval := crossval (locals f) + (x * y)\<rparr>\<rparr>)))"

definition matrix_op_times_matrix_step ::
  "nat \<Rightarrow> nat \<Rightarrow> ('a::{zero,plus,times} matrix, 'a matrix, 'a times_locals) frame
     \<Rightarrow> error + ('a matrix, 'a matrix, 'a times_locals) frame" where
  "matrix_op_times_matrix_step i j f =
     bindE (for_loop (width (self f)) (matrix_op_times_matrix_inner i j)
              (f\<lparr>locals := (locals f)\<lparr>crossval := 0\<rparr>\<rparr>)) (\<lambda>f.
     bindE (matrix_assign (crossed (locals f)) (int i) (int j) (crossval (locals f))) (\<lambda>c.
     Inr (f\<lparr>locals := (locals f)\<lparr>crossed := c\<rparr>\<rparr>)))"

definition matrix_op_times_matrix_exec ::
  "'a::{zero,plus,times} matrix \<Rightarrow> 'a matrix
     \<Rightarrow> error + ('a matrix, 'a matrix, 'a times_locals) frame" where
  "matrix_op_times_matrix_exec this rhs =
     bindE (static_assert (height rhs = width this)) (\<lambda>_.
     bindE (matrix_new (height this) (width rhs) 0) (\<lambda>c.
     for_loop2 (height this) (width rhs) matrix_op_times_matrix_step
       \<lparr>self = this, args = rhs, locals = \<lparr>crossed = c, crossval = 0\<rparr>\<rparr>))"

definition matrix_op_times_matrix ::
  "'a::{zero,plus,times} matrix \<Rightarrow> 'a matrix \<Rightarrow> error + 'a matrix" where
  "matrix_op_times_matrix this rhs =
     returning (\<lambda>f. crossed (locals f)) (matrix_op_times_matrix_exec this rhs)"

text \<open>
  \<^verbatim>\<open>submatrix<RESULT_HEIGHT, RESULT_WIDTH>(top, left)\<close>,
  \<^verbatim>\<open>shrink<RESULT_HEIGHT, RESULT_WIDTH>()\<close> and
  \<^verbatim>\<open>grow<RESULT_HEIGHT, RESULT_WIDTH>(default_value)\<close>.
\<close>

definition submatrix_step ::
  "nat \<Rightarrow> nat \<Rightarrow> ('a matrix, int \<times> int, 'a matrix) frame
     \<Rightarrow> error + ('a matrix, int \<times> int, 'a matrix) frame" where
  "submatrix_step i j f =
     (case args f of (top_row, left_column) \<Rightarrow>
        bindE (matrix_at (self f) (int i + top_row) (int j + left_column)) (\<lambda>x.
        bindE (matrix_assign (locals f) (int i) (int j) x) (\<lambda>sub.
        Inr (f\<lparr>locals := sub\<rparr>))))"

definition submatrix_exec ::
  "nat \<Rightarrow> nat \<Rightarrow> 'a::zero matrix \<Rightarrow> int \<Rightarrow> int
     \<Rightarrow> error + ('a matrix, int \<times> int, 'a matrix) frame" where
  "submatrix_exec RESULT_HEIGHT RESULT_WIDTH this top_row left_column =
     bindE (static_assert (RESULT_HEIGHT > 0)) (\<lambda>_.
     bindE (static_assert (RESULT_WIDTH > 0)) (\<lambda>_.
     bindE (static_assert (RESULT_HEIGHT \<le> height this)) (\<lambda>_.
     bindE (static_assert (RESULT_WIDTH \<le> width this)) (\<lambda>_.
     bindE (matrix_new RESULT_HEIGHT RESULT_WIDTH 0) (\<lambda>sub.
     for_loop2 RESULT_HEIGHT RESULT_WIDTH submatrix_step
       \<lparr>self = this, args = (top_row, left_column), locals = sub\<rparr>)))))"

definition submatrix :: "nat \<Rightarrow> nat \<Rightarrow> 'a::zero matrix \<Rightarrow> int \<Rightarrow> int \<Rightarrow> error + 'a matrix" where
  "submatrix RESULT_HEIGHT RESULT_WIDTH this top_row left_column =
     returning locals (submatrix_exec RESULT_HEIGHT RESULT_WIDTH this top_row left_column)"

definition matrix_shrink_step ::
  "nat \<Rightarrow> nat \<Rightarrow> ('a matrix, unit, 'a matrix) frame
     \<Rightarrow> error + ('a matrix, unit, 'a matrix) frame" where
  "matrix_shrink_step i j f =
     bindE (matrix_at (self f) (int i) (int j)) (\<lambda>x.
     bindE (matrix_assign (locals f) (int i) (int j) x) (\<lambda>sub.
     Inr (f\<lparr>locals := sub\<rparr>)))"

definition matrix_shrink_exec ::
  "nat \<Rightarrow> nat \<Rightarrow> 'a::zero matrix \<Rightarrow> error + ('a matrix, unit, 'a matrix) frame" where
  "matrix_shrink_exec RESULT_HEIGHT RESULT_WIDTH this =
     bindE (static_assert (RESULT_HEIGHT \<le> height this)) (\<lambda>_.
     bindE (static_assert (RESULT_WIDTH \<le> width this)) (\<lambda>_.
     bindE (static_assert ((RESULT_WIDTH < width this) \<or> (RESULT_HEIGHT < height this))) (\<lambda>_.
     bindE (matrix_new RESULT_HEIGHT RESULT_WIDTH 0) (\<lambda>sub.
     for_loop2 RESULT_HEIGHT RESULT_WIDTH matrix_shrink_step
       \<lparr>self = this, args = (), locals = sub\<rparr>))))"

definition matrix_shrink :: "nat \<Rightarrow> nat \<Rightarrow> 'a::zero matrix \<Rightarrow> error + 'a matrix" where
  "matrix_shrink RESULT_HEIGHT RESULT_WIDTH this =
     returning locals (matrix_shrink_exec RESULT_HEIGHT RESULT_WIDTH this)"

definition matrix_grow_step ::
  "nat \<Rightarrow> nat \<Rightarrow> ('a matrix, 'a, 'a matrix) frame \<Rightarrow> error + ('a matrix, 'a, 'a matrix) frame" where
  "matrix_grow_step i j f =
     bindE (matrix_at (self f) (int i) (int j)) (\<lambda>x.
     bindE (matrix_assign (locals f) (int i) (int j) x) (\<lambda>growth.
     Inr (f\<lparr>locals := growth\<rparr>)))"

definition matrix_grow_exec ::
  "nat \<Rightarrow> nat \<Rightarrow> 'a::zero matrix \<Rightarrow> 'a \<Rightarrow> error + ('a matrix, 'a, 'a matrix) frame" where
  "matrix_grow_exec RESULT_HEIGHT RESULT_WIDTH this default_value =
     bindE (static_assert (RESULT_HEIGHT \<ge> height this)) (\<lambda>_.
     bindE (static_assert (RESULT_WIDTH \<ge> width this)) (\<lambda>_.
     bindE (static_assert ((RESULT_HEIGHT > height this) \<or> (RESULT_WIDTH > width this))) (\<lambda>_.
     bindE (matrix_new RESULT_HEIGHT RESULT_WIDTH default_value) (\<lambda>growth.
     for_loop2 (height this) (width this) matrix_grow_step
       \<lparr>self = this, args = default_value, locals = growth\<rparr>))))"

definition matrix_grow :: "nat \<Rightarrow> nat \<Rightarrow> 'a::zero matrix \<Rightarrow> 'a \<Rightarrow> error + 'a matrix" where
  "matrix_grow RESULT_HEIGHT RESULT_WIDTH this default_value =
     returning locals (matrix_grow_exec RESULT_HEIGHT RESULT_WIDTH this default_value)"

text \<open>\<^verbatim>\<open>almost_equal(rhs, delta)\<close>: the rows are compared with the vectors' test.\<close>

definition matrix_almost_equal ::
  "('a \<Rightarrow> double) \<Rightarrow> 'a matrix \<Rightarrow> 'a matrix \<Rightarrow> double \<Rightarrow> error + bool" where
  "matrix_almost_equal to_double this rhs delta =
     all_pass (\<lambda>i.
       bindE (matrix_row rhs (int i)) (\<lambda>r.
       vector_almost_equal to_double (rows this ! i) r delta))
     [0 ..< height this]"

text \<open>
  \<^verbatim>\<open>column_matrix(column)\<close> and \<^verbatim>\<open>column_vector(column)\<close>. The inner loop is
  \<^verbatim>\<open>for (int j = 0; j <= column; j++)\<close>, of \<open>column + 1\<close> iterations (none when
  \<open>column\<close> is negative), and only acts when \<^verbatim>\<open>j == column\<close>.
\<close>

definition column_matrix_step ::
  "nat \<Rightarrow> nat \<Rightarrow> ('a matrix, int, 'a matrix) frame \<Rightarrow> error + ('a matrix, int, 'a matrix) frame" where
  "column_matrix_step i j f =
     (if int j = args f then
        bindE (matrix_at (self f) (int i) (int j)) (\<lambda>x.
        bindE (matrix_assign (locals f) (int i) (int j) x) (\<lambda>col.
        Inr (f\<lparr>locals := col\<rparr>)))
      else Inr f)"

definition column_matrix_exec ::
  "'a::zero matrix \<Rightarrow> int \<Rightarrow> error + ('a matrix, int, 'a matrix) frame" where
  "column_matrix_exec this column =
     bindE (matrix_new (height this) 1 0) (\<lambda>col.
     for_loop2 (height this) (nat (column + 1)) column_matrix_step
       \<lparr>self = this, args = column, locals = col\<rparr>)"

definition column_matrix :: "'a::zero matrix \<Rightarrow> int \<Rightarrow> error + 'a matrix" where
  "column_matrix this column = returning locals (column_matrix_exec this column)"

definition column_vector_step ::
  "nat \<Rightarrow> nat \<Rightarrow> ('a matrix, int, 'a vector) frame \<Rightarrow> error + ('a matrix, int, 'a vector) frame" where
  "column_vector_step i j f =
     (if int j = args f then
        bindE (matrix_at (self f) (int i) (int j)) (\<lambda>x.
        bindE (vector_assign (locals f) (int i) x) (\<lambda>col.
        Inr (f\<lparr>locals := col\<rparr>)))
      else Inr f)"

definition column_vector_exec ::
  "'a::zero matrix \<Rightarrow> int \<Rightarrow> error + ('a matrix, int, 'a vector) frame" where
  "column_vector_exec this column =
     bindE (vector_new (height this) 0) (\<lambda>col.
     for_loop2 (height this) (nat (column + 1)) column_vector_step
       \<lparr>self = this, args = column, locals = col\<rparr>)"

definition column_vector :: "'a::zero matrix \<Rightarrow> int \<Rightarrow> error + 'a vector" where
  "column_vector this column = returning locals (column_vector_exec this column)"

text \<open>
  \<^verbatim>\<open>row_matrix(row)\<close> and \<^verbatim>\<open>row_vector(row)\<close>. The outer loop is
  \<^verbatim>\<open>for (int i = 0; i <= row; i++)\<close>. Only \<^verbatim>\<open>row_matrix\<close> starts with
  \<^verbatim>\<open>assert(is_row(row))\<close>.
\<close>

definition row_matrix_step ::
  "nat \<Rightarrow> nat \<Rightarrow> ('a matrix, int, 'a matrix) frame \<Rightarrow> error + ('a matrix, int, 'a matrix) frame" where
  "row_matrix_step i j f =
     (if int i = args f then
        bindE (matrix_at (self f) (int i) (int j)) (\<lambda>x.
        bindE (matrix_assign (locals f) 0 (int j) x) (\<lambda>rowmat.
        Inr (f\<lparr>locals := rowmat\<rparr>)))
      else Inr f)"

definition row_matrix_exec ::
  "'a::zero matrix \<Rightarrow> int \<Rightarrow> error + ('a matrix, int, 'a matrix) frame" where
  "row_matrix_exec this row =
     bindE (c_assert (is_row (height this) row)) (\<lambda>_.
     bindE (matrix_new 1 (width this) 0) (\<lambda>rowmat.
     for_loop2 (nat (row + 1)) (width this) row_matrix_step
       \<lparr>self = this, args = row, locals = rowmat\<rparr>))"

definition row_matrix :: "'a::zero matrix \<Rightarrow> int \<Rightarrow> error + 'a matrix" where
  "row_matrix this row = returning locals (row_matrix_exec this row)"

definition row_vector_step ::
  "nat \<Rightarrow> nat \<Rightarrow> ('a matrix, int, 'a vector) frame \<Rightarrow> error + ('a matrix, int, 'a vector) frame" where
  "row_vector_step i j f =
     (if int i = args f then
        bindE (matrix_at (self f) (int i) (int j)) (\<lambda>x.
        bindE (vector_assign (locals f) (int j) x) (\<lambda>rowvec.
        Inr (f\<lparr>locals := rowvec\<rparr>)))
      else Inr f)"

definition row_vector_exec ::
  "'a::zero matrix \<Rightarrow> int \<Rightarrow> error + ('a matrix, int, 'a vector) frame" where
  "row_vector_exec this row =
     bindE (vector_new (width this) 0) (\<lambda>rowvec.
     for_loop2 (nat (row + 1)) (width this) row_vector_step
       \<lparr>self = this, args = row, locals = rowvec\<rparr>)"

definition row_vector :: "'a::zero matrix \<Rightarrow> int \<Rightarrow> error + 'a vector" where
  "row_vector this row = returning locals (row_vector_exec this row)"

text \<open>\<^verbatim>\<open>transpose()\<close>.\<close>

definition transpose_step ::
  "nat \<Rightarrow> nat \<Rightarrow> ('a matrix, unit, 'a matrix) frame \<Rightarrow> error + ('a matrix, unit, 'a matrix) frame" where
  "transpose_step i j f =
     bindE (matrix_at (self f) (int i) (int j)) (\<lambda>x.
     bindE (matrix_assign (locals f) (int j) (int i) x) (\<lambda>t.
     Inr (f\<lparr>locals := t\<rparr>)))"

definition transpose_exec :: "'a::zero matrix \<Rightarrow> error + ('a matrix, unit, 'a matrix) frame" where
  "transpose_exec this =
     bindE (matrix_new (width this) (height this) 0) (\<lambda>t.
     for_loop2 (height this) (width this) transpose_step
       \<lparr>self = this, args = (), locals = t\<rparr>)"

definition matrix_transpose :: "'a::zero matrix \<Rightarrow> error + 'a matrix" where
  "matrix_transpose this = returning locals (transpose_exec this)"

text \<open>
  \<^verbatim>\<open>determinant()\<close>. The products of two and of three elements are read left to
  right; \<open>det\<close> is the local variable of the frame.
\<close>

definition product2 :: "'a::times matrix \<Rightarrow> int \<times> int \<Rightarrow> int \<times> int \<Rightarrow> error + 'a" where
  "product2 m p q =
     bindE (matrix_at m (fst p) (snd p)) (\<lambda>x.
     bindE (matrix_at m (fst q) (snd q)) (\<lambda>y.
     Inr (x * y)))"

definition product3 ::
  "'a::times matrix \<Rightarrow> int \<times> int \<Rightarrow> int \<times> int \<Rightarrow> int \<times> int \<Rightarrow> error + 'a" where
  "product3 m p q r =
     bindE (matrix_at m (fst p) (snd p)) (\<lambda>x.
     bindE (matrix_at m (fst q) (snd q)) (\<lambda>y.
     bindE (matrix_at m (fst r) (snd r)) (\<lambda>z.
     Inr (x * y * z))))"

definition determinant_2x2 ::
  "('a::{plus,minus,times} matrix, unit, 'a) frame \<Rightarrow> error + ('a matrix, unit, 'a) frame" where
  "determinant_2x2 f =
     bindE (product2 (self f) (0, 0) (1, 1)) (\<lambda>p.
     bindE (product2 (self f) (1, 0) (0, 1)) (\<lambda>q.
     Inr (f\<lparr>locals := locals f + (p - q)\<rparr>)))"

definition determinant_add ::
  "int \<times> int \<Rightarrow> int \<times> int \<Rightarrow> int \<times> int \<Rightarrow> ('a::{plus,times} matrix, unit, 'a) frame
     \<Rightarrow> error + ('a matrix, unit, 'a) frame" where
  "determinant_add p q r f =
     bindE (product3 (self f) p q r) (\<lambda>t. Inr (f\<lparr>locals := locals f + t\<rparr>))"

definition determinant_sub ::
  "int \<times> int \<Rightarrow> int \<times> int \<Rightarrow> int \<times> int \<Rightarrow> ('a::{minus,times} matrix, unit, 'a) frame
     \<Rightarrow> error + ('a matrix, unit, 'a) frame" where
  "determinant_sub p q r f =
     bindE (product3 (self f) p q r) (\<lambda>t. Inr (f\<lparr>locals := locals f - t\<rparr>))"

definition determinant_3x3 ::
  "('a::{plus,minus,times} matrix, unit, 'a) frame \<Rightarrow> error + ('a matrix, unit, 'a) frame" where
  "determinant_3x3 f =
     bindE (determinant_add (0, 0) (1, 1) (2, 2) f) (\<lambda>f.
     bindE (determinant_add (0, 1) (1, 2) (2, 0) f) (\<lambda>f.
     bindE (determinant_add (0, 2) (1, 0) (2, 1) f) (\<lambda>f.
     bindE (determinant_sub (0, 2) (1, 1) (2, 0) f) (\<lambda>f.
     bindE (determinant_sub (0, 1) (1, 0) (2, 2) f) (\<lambda>f.
     determinant_sub (0, 0) (1, 2) (2, 1) f)))))"

definition determinant_exec ::
  "'a::{zero,plus,minus,times} matrix \<Rightarrow> error + ('a matrix, unit, 'a) frame" where
  "determinant_exec this =
     bindE (static_assert (is_square this)) (\<lambda>_.
     bindE (static_assert ((width this = 2) \<or> (width this = 3))) (\<lambda>_.
     bindE (if width this = 2 then determinant_2x2 \<lparr>self = this, args = (), locals = 0\<rparr>
            else Inr \<lparr>self = this, args = (), locals = 0\<rparr>) (\<lambda>f.
     if width this = 3 then determinant_3x3 f else Inr f)))"

definition determinant :: "'a::{zero,plus,minus,times} matrix \<Rightarrow> error + 'a" where
  "determinant this = returning locals (determinant_exec this)"

text \<open>
  \<^verbatim>\<open>solve(b)\<close>, Cramer's rule. \<open>solve_put i j k\<close> is \<^verbatim>\<open>cramer[i][j] = b[k]\<close>,
  \<open>solve_component i\<close> is \<^verbatim>\<open>cramsol[i] = cramer.determinant()/det\<close> and \<open>solve_reset\<close>
  is \<^verbatim>\<open>cramer = (*this)\<close>. After the static assertions the height is 2 or 3, so the
  end of the function body is not reached.
\<close>

record 'a solve_locals =
  det :: 'a
  cramsol :: "'a vector"
  cramer :: "'a matrix"

definition solve_put ::
  "int \<Rightarrow> int \<Rightarrow> int \<Rightarrow> ('a matrix, 'a vector, 'a solve_locals) frame
     \<Rightarrow> error + ('a matrix, 'a vector, 'a solve_locals) frame" where
  "solve_put i j k f =
     bindE (vector_at (args f) k) (\<lambda>x.
     bindE (matrix_assign (cramer (locals f)) i j x) (\<lambda>c.
     Inr (f\<lparr>locals := (locals f)\<lparr>cramer := c\<rparr>\<rparr>)))"

definition solve_component ::
  "('a \<Rightarrow> 'a \<Rightarrow> 'a) \<Rightarrow> int
     \<Rightarrow> ('a::{zero,plus,minus,times} matrix, 'a vector, 'a solve_locals) frame
     \<Rightarrow> error + ('a matrix, 'a vector, 'a solve_locals) frame" where
  "solve_component quot i f =
     bindE (determinant (cramer (locals f))) (\<lambda>d.
     bindE (scalar_divide quot d (det (locals f))) (\<lambda>q.
     bindE (vector_assign (cramsol (locals f)) i q) (\<lambda>s.
     Inr (f\<lparr>locals := (locals f)\<lparr>cramsol := s\<rparr>\<rparr>))))"

definition solve_reset ::
  "('a matrix, 'a vector, 'a solve_locals) frame
     \<Rightarrow> error + ('a matrix, 'a vector, 'a solve_locals) frame" where
  "solve_reset f = Inr (f\<lparr>locals := (locals f)\<lparr>cramer := self f\<rparr>\<rparr>)"

definition solve_start ::
  "'a::{zero,plus,minus,times} matrix \<Rightarrow> 'a vector
     \<Rightarrow> error + ('a matrix, 'a vector, 'a solve_locals) frame" where
  "solve_start this b =
     bindE (determinant this) (\<lambda>d.
     bindE (vector_new (height this) 0) (\<lambda>s.
     Inr \<lparr>self = this, args = b, locals = \<lparr>det = d, cramsol = s, cramer = this\<rparr>\<rparr>))"

definition solve_2x2 ::
  "('a \<Rightarrow> 'a \<Rightarrow> 'a) \<Rightarrow> 'a::{zero,plus,minus,times} matrix \<Rightarrow> 'a vector
     \<Rightarrow> error + ('a matrix, 'a vector, 'a solve_locals) frame" where
  "solve_2x2 quot this b =
     bindE (solve_start this b) (\<lambda>f.
     bindE (solve_put 0 0 0 f) (\<lambda>f.
     bindE (solve_put 1 0 1 f) (\<lambda>f.
     bindE (solve_component quot 0 f) (\<lambda>f.
     bindE (solve_reset f) (\<lambda>f.
     bindE (solve_put 0 1 0 f) (\<lambda>f.
     bindE (solve_put 1 1 1 f) (\<lambda>f.
     solve_component quot 1 f)))))))"

definition solve_3x3_step ::
  "('a \<Rightarrow> 'a \<Rightarrow> 'a) \<Rightarrow> nat
     \<Rightarrow> ('a::{zero,plus,minus,times} matrix, 'a vector, 'a solve_locals) frame
     \<Rightarrow> error + ('a matrix, 'a vector, 'a solve_locals) frame" where
  "solve_3x3_step quot i f =
     bindE (for_loop 3 (\<lambda>j. solve_put (int j) (int i) (int j)) f) (\<lambda>f.
     bindE (solve_component quot (int i) f) (\<lambda>f.
     solve_reset f))"

definition solve_3x3 ::
  "('a \<Rightarrow> 'a \<Rightarrow> 'a) \<Rightarrow> 'a::{zero,plus,minus,times} matrix \<Rightarrow> 'a vector
     \<Rightarrow> error + ('a matrix, 'a vector, 'a solve_locals) frame" where
  "solve_3x3 quot this b =
     bindE (solve_start this b) (\<lambda>f.
     for_loop 3 (solve_3x3_step quot) f)"

definition solve_exec ::
  "('a \<Rightarrow> 'a \<Rightarrow> 'a) \<Rightarrow> 'a::{zero,plus,minus,times} matrix \<Rightarrow> 'a vector
     \<Rightarrow> error + ('a matrix, 'a vector, 'a solve_locals) frame" where
  "solve_exec quot this b =
     bindE (static_assert (is_square this)) (\<lambda>_.
     bindE (static_assert ((width this = 2) \<or> (width this = 3))) (\<lambda>_.
     if height this = 2 then solve_2x2 quot this b
     else if height this = 3 then solve_3x3 quot this b
     else Inl StaticAssertionFailure))"

definition solve ::
  "('a \<Rightarrow> 'a \<Rightarrow> 'a) \<Rightarrow> 'a::{zero,plus,minus,times} matrix \<Rightarrow> 'a vector \<Rightarrow> error + 'a vector" where
  "solve quot this b = returning (\<lambda>f. cramsol (locals f)) (solve_exec quot this b)"

text \<open>
  \<^verbatim>\<open>operator=\<close> of both classes copies the storage of \<^verbatim>\<open>rhs\<close> into \<^verbatim>\<open>*this\<close>.
\<close>

definition vector_op_assign_exec ::
  "'a vector \<Rightarrow> 'a vector \<Rightarrow> error + ('a vector, 'a vector, unit) frame" where
  "vector_op_assign_exec this rhs = Inr (\<lparr>self = this, args = rhs, locals = ()\<rparr>\<lparr>self := rhs\<rparr>)"

definition matrix_op_assign_exec ::
  "'a matrix \<Rightarrow> 'a matrix \<Rightarrow> error + ('a matrix, 'a matrix, unit) frame" where
  "matrix_op_assign_exec this rhs =
     Inr (\<lparr>self = this, args = rhs, locals = ()\<rparr>\<lparr>self := this\<lparr>rows := rows rhs\<rparr>\<rparr>)"

section \<open>Notions of the specification\<close>

text \<open>The element \<open>a\<^sub>i\<^sub>j\<close> of a matrix, as the specification writes it.\<close>

definition entry :: "'a matrix \<Rightarrow> nat \<Rightarrow> nat \<Rightarrow> 'a" where
  "entry m i j = rows m ! i ! j"

text \<open>
  The specification's \<open>A\<^sub>i\<close>: a copy of \<open>A\<close> in which column \<open>i\<close>, and only column \<open>i\<close>,
  is replaced by \<open>b\<close>.
\<close>

definition replace_column :: "'a matrix \<Rightarrow> nat \<Rightarrow> 'a vector \<Rightarrow> 'a matrix" where
  "replace_column A i b = A\<lparr>rows := map2 (\<lambda>r x. r[i := x]) (rows A) b\<rparr>"

text \<open>
  The real number a finite \<^verbatim>\<open>double\<close> stands for, the finite values of the format, and
  a result that is finite and equal to a given real number (a sum that was not rounded).
\<close>

definition pow2 :: "int \<Rightarrow> real" where
  "pow2 e = 2 powi e"

fun double_value :: "double \<Rightarrow> real" where
  "double_value (Finite m e) = of_int m * pow2 e"
| "double_value _ = 0"

fun is_finite :: "double \<Rightarrow> bool" where
  "is_finite (Finite m e) = (\<bar>m\<bar> < 2 ^ 53 \<and> - 1074 \<le> e \<and> bitlen \<bar>m\<bar> + e \<le> 1024)"
| "is_finite _ = False"

fun is_exactly :: "double \<Rightarrow> real \<Rightarrow> bool" where
  "is_exactly (Finite m e) r = (of_int m * pow2 e = r)"
| "is_exactly _ r = False"

text \<open>
  A call leaves its operands unchanged: in the frame it ends in, if it returns, \<^verbatim>\<open>*this\<close>
  and the arguments are the ones it was called with.
\<close>

definition leaves_operands :: "'t \<Rightarrow> 'p \<Rightarrow> error + ('t, 'p, 'l) frame \<Rightarrow> bool" where
  "leaves_operands this a r =
     (case r of Inl e \<Rightarrow> True | Inr f \<Rightarrow> self f = this \<and> args f = a)"

text \<open>A body, or a part of one, that writes neither \<^verbatim>\<open>*this\<close> nor an argument.\<close>

definition keeps :: "(('t, 'p, 'l) frame \<Rightarrow> error + ('t, 'p, 'l) frame) \<Rightarrow> bool" where
  "keeps body \<longleftrightarrow> (\<forall>f g. body f = Inr g \<longrightarrow> self g = self f \<and> args g = args f)"

section \<open>Basic facts\<close>

lemma bindE_Inl [simp]: "bindE (Inl e) k = Inl e"
  by (simp add: bindE_def)

lemma bindE_Inr [simp]: "bindE (Inr x) k = k x"
  by (simp add: bindE_def)

lemma bindE_eq_Inr: "bindE m k = Inr y \<longleftrightarrow> (\<exists>x. m = Inr x \<and> k x = Inr y)"
  by (cases m) simp_all

lemma c_assert_simps [simp]: "c_assert True = Inr ()" "c_assert False = Inl AssertionFailure"
  by (simp_all add: c_assert_def)

lemma static_assert_simps [simp]:
  "static_assert True = Inr ()" "static_assert False = Inl StaticAssertionFailure"
  by (simp_all add: static_assert_def)

lemma returning_Inl [simp]: "returning g (Inl e) = Inl e"
  by (simp add: returning_def)

lemma returning_Inr [simp]: "returning g (Inr f) = Inr (g f)"
  by (simp add: returning_def)

lemma returning_eq_Inr: "returning g r = Inr y \<longleftrightarrow> (\<exists>f. r = Inr f \<and> g f = y)"
  by (cases r) auto

lemma vector_at_inside [simp]:
  "0 \<le> i \<Longrightarrow> i < int (length v) \<Longrightarrow> vector_at v i = Inr (v ! nat i)"
  by (simp add: vector_at_def is_index_def dimension_def)

lemma vector_at_outside:
  "i < 0 \<or> int (length v) \<le> i \<Longrightarrow> vector_at v i = Inl AssertionFailure"
  by (auto simp add: vector_at_def is_index_def dimension_def)

lemma vector_assign_inside [simp]:
  "0 \<le> i \<Longrightarrow> i < int (length v) \<Longrightarrow> vector_assign v i x = Inr (v[nat i := x])"
  by (simp add: vector_assign_def is_index_def dimension_def)

lemma vector_assign_outside:
  "i < 0 \<or> int (length v) \<le> i \<Longrightarrow> vector_assign v i x = Inl AssertionFailure"
  by (auto simp add: vector_assign_def is_index_def dimension_def)

lemma matrix_row_inside [simp]:
  "0 \<le> i \<Longrightarrow> i < int (height m) \<Longrightarrow> matrix_row m i = Inr (rows m ! nat i)"
  by (simp add: matrix_row_def is_row_def)

lemma matrix_row_outside:
  "i < 0 \<or> int (height m) \<le> i \<Longrightarrow> matrix_row m i = Inl AssertionFailure"
  by (auto simp add: matrix_row_def is_row_def)

lemma matrix_at_inside [simp]:
  "0 \<le> i \<Longrightarrow> i < int (height m) \<Longrightarrow> 0 \<le> j \<Longrightarrow> j < int (length (rows m ! nat i))
     \<Longrightarrow> matrix_at m i j = Inr (rows m ! nat i ! nat j)"
  by (simp add: matrix_at_def)

lemma matrix_assign_inside [simp]:
  "0 \<le> i \<Longrightarrow> i < int (height m) \<Longrightarrow> 0 \<le> j \<Longrightarrow> j < int (length (rows m ! nat i))
     \<Longrightarrow> matrix_assign m i j x
         = Inr (m\<lparr>rows := (rows m)[nat i := (rows m ! nat i)[nat j := x]]\<rparr>)"
  by (simp add: matrix_assign_def)

text \<open>Loops: a relation between two loops, an invariant, and the first failing iteration.\<close>

lemma for_loop_rel:
  assumes "R s t"
    and "\<And>i s t. i < n \<Longrightarrow> R s t \<Longrightarrow> rel_sum (=) R (body1 i s) (body2 i t)"
  shows "rel_sum (=) R (for_loop n body1 s) (for_loop n body2 t)"
  using assms
proof (induction n)
  case 0
  then show ?case by simp
next
  case (Suc n)
  then have "rel_sum (=) R (for_loop n body1 s) (for_loop n body2 t)"
    by simp
  then show ?case
    using Suc.prems(2) [of n]
    by (cases "for_loop n body1 s"; cases "for_loop n body2 t") simp_all
qed

lemma for_loop_invariant:
  assumes "I 0 s"
    and "\<And>i s. i < n \<Longrightarrow> I i s \<Longrightarrow> \<exists>s'. body i s = Inr s' \<and> I (Suc i) s'"
  shows "\<exists>s'. for_loop n body s = Inr s' \<and> I n s'"
  using assms(2)
proof (induction n)
  case 0
  then show ?case using assms(1) by simp
next
  case (Suc n)
  then obtain u where u: "for_loop n body s = Inr u" "I n u"
    by (metis less_Suc_eq)
  with Suc.prems [of n u] show ?case by simp
qed

lemma for_loop_preserves:
  assumes "for_loop n body s = Inr s'" and "P s"
    and "\<And>i s s'. i < n \<Longrightarrow> P s \<Longrightarrow> body i s = Inr s' \<Longrightarrow> P s'"
  shows "P s'"
  using assms
proof (induction n arbitrary: s')
  case 0
  then show ?case by simp
next
  case (Suc n)
  from Suc.prems(1) obtain u where u: "for_loop n body s = Inr u" "body n u = Inr s'"
    by (auto simp add: bindE_eq_Inr)
  have "P u"
    using u(1) Suc.prems(2)
  proof (rule Suc.IH)
    fix i s s'
    assume "i < n" "P s" "body i s = Inr s'"
    then show "P s'" using Suc.prems(3) [of i s s'] by simp
  qed
  then show ?case using Suc.prems(3) [of n u s'] u(2) by simp
qed

lemma for_loop_fails:
  assumes "k < n" and "for_loop k body s = Inr u" and "body k u = Inl e"
  shows "for_loop n body s = Inl e"
proof -
  have "for_loop (Suc k + d) body s = Inl e" for d
    by (induction d) (simp_all add: assms)
  from this [of "n - Suc k"] assms(1) show ?thesis by simp
qed

lemma for_loop_skips:
  assumes "\<And>i. i < n \<Longrightarrow> body i s = Inr s"
  shows "for_loop n body s = Inr s"
  using assms by (induction n) simp_all

section \<open>The dot product of a vector with itself\<close>

lemma magnitude_squared_value:
  "magnitude_squared v = Inr (foldl (\<lambda>s x. s + x * x) 0 v)"
proof -
  define I where "I i f \<longleftrightarrow>
      f = \<lparr>self = v, args = (), locals = foldl (\<lambda>s x. s + x * x) 0 (take i v)\<rparr>"
    for i and f :: "('a vector, unit, 'a) frame"
  have "\<exists>f'. for_loop (length v) magnitude_squared_step \<lparr>self = v, args = (), locals = 0\<rparr>
      = Inr f' \<and> I (length v) f'"
  proof (rule for_loop_invariant)
    show "I 0 \<lparr>self = v, args = (), locals = 0\<rparr>"
      by (simp add: I_def)
  next
    fix i f
    assume "i < length v" "I i f"
    then show "\<exists>f'. magnitude_squared_step i f = Inr f' \<and> I (Suc i) f'"
      by (simp add: I_def magnitude_squared_step_def take_Suc_conv_app_nth)
  qed
  then show ?thesis
    by (auto simp add: I_def magnitude_squared_def magnitude_squared_exec_def dimension_def)
qed

text \<open>
  C10. For every vector \<open>v\<close>, of any dimension and over any scalar type with a zero, an
  addition and a multiplication, \<^verbatim>\<open>v * v\<close> and \<^verbatim>\<open>v.magnitude_squared()\<close> are the same
  value: the two loops accumulate the same products in the same order, and both return
  the sum of the squares, accumulated from the left.
\<close>

theorem dot_self_is_magnitude_squared:
  "vector_op_times_vector v v = magnitude_squared v
   \<and> magnitude_squared v = Inr (foldl (\<lambda>s x. s + x * x) 0 v)"
proof
  define R :: "('a vector, 'a vector, 'a) frame \<Rightarrow> ('a vector, unit, 'a) frame \<Rightarrow> bool"
    where "R f g \<longleftrightarrow> self f = self g \<and> args f = self g \<and> locals f = locals g" for f g
  have step: "rel_sum (=) R (dot_step i f) (magnitude_squared_step i g)" if "R f g" for i f g
  proof (cases "vector_at (self g) (int i)")
    case (Inl e)
    with that show ?thesis
      by (simp add: R_def dot_step_def magnitude_squared_step_def)
  next
    case (Inr x)
    with that show ?thesis
      by (simp add: R_def dot_step_def magnitude_squared_step_def)
  qed
  have "rel_sum (=) R (vector_op_times_vector_exec v v) (magnitude_squared_exec v)"
    unfolding vector_op_times_vector_exec_def magnitude_squared_exec_def
    by (rule for_loop_rel) (simp_all add: R_def step)
  then show "vector_op_times_vector v v = magnitude_squared v"
    by (cases "vector_op_times_vector_exec v v"; cases "magnitude_squared_exec v")
      (simp_all add: vector_op_times_vector_def magnitude_squared_def returning_def R_def)
next
  show "magnitude_squared v = Inr (foldl (\<lambda>s x. s + x * x) 0 v)"
    by (rule magnitude_squared_value)
qed

section \<open>Matrices of height and width 2 and 3\<close>

lemma list2: "length xs = 2 \<Longrightarrow> xs = [xs ! 0, xs ! 1]"
  by (cases xs; cases "tl xs") auto

lemma list3: "length xs = 3 \<Longrightarrow> xs = [xs ! 0, xs ! 1, xs ! 2]"
  by (cases xs; cases "tl xs"; cases "tl (tl xs)") auto

lemma square2:
  assumes "well_formed m" "height m = 2" "width m = 2"
  shows "m = \<lparr>height = 2, width = 2,
     rows = [[entry m 0 0, entry m 0 1], [entry m 1 0, entry m 1 1]]\<rparr>"
proof -
  have r: "rows m = [rows m ! 0, rows m ! 1]"
    by (rule list2) (use assms in \<open>simp add: well_formed_def\<close>)
  then have "rows m ! 0 \<in> set (rows m)" "rows m ! 1 \<in> set (rows m)"
    by (metis list.set_intros(1), metis list.set_intros(1,2))
  then have "length (rows m ! 0) = 2" "length (rows m ! 1) = 2"
    using assms by (simp_all add: well_formed_def dimension_def)
  then have "rows m ! 0 = [entry m 0 0, entry m 0 1]" "rows m ! 1 = [entry m 1 0, entry m 1 1]"
    unfolding entry_def by (blast intro: list2)+
  with r have "rows m = [[entry m 0 0, entry m 0 1], [entry m 1 0, entry m 1 1]]"
    by simp
  with assms(2,3) show ?thesis
    by (cases m) simp
qed

lemma square3:
  assumes "well_formed m" "height m = 3" "width m = 3"
  shows "m = \<lparr>height = 3, width = 3,
     rows = [[entry m 0 0, entry m 0 1, entry m 0 2], [entry m 1 0, entry m 1 1, entry m 1 2],
             [entry m 2 0, entry m 2 1, entry m 2 2]]\<rparr>"
proof -
  have r: "rows m = [rows m ! 0, rows m ! 1, rows m ! 2]"
    by (rule list3) (use assms in \<open>simp add: well_formed_def\<close>)
  then have "rows m ! 0 \<in> set (rows m)" "rows m ! 1 \<in> set (rows m)" "rows m ! 2 \<in> set (rows m)"
    by (metis list.set_intros(1), metis list.set_intros(1,2), metis list.set_intros(1,2))
  then have "length (rows m ! 0) = 3" "length (rows m ! 1) = 3" "length (rows m ! 2) = 3"
    using assms by (simp_all add: well_formed_def dimension_def)
  then have "rows m ! 0 = [entry m 0 0, entry m 0 1, entry m 0 2]"
    "rows m ! 1 = [entry m 1 0, entry m 1 1, entry m 1 2]"
    "rows m ! 2 = [entry m 2 0, entry m 2 1, entry m 2 2]"
    unfolding entry_def by (blast intro: list3)+
  with r have "rows m = [[entry m 0 0, entry m 0 1, entry m 0 2],
     [entry m 1 0, entry m 1 1, entry m 1 2], [entry m 2 0, entry m 2 1, entry m 2 2]]"
    by simp
  with assms(2,3) show ?thesis
    by (cases m) simp
qed

lemma determinant_2x2_value:
  "determinant \<lparr>height = 2, width = 2, rows = [[a00, a01], [a10, a11]]\<rparr>
     = Inr (0 + (a00 * a11 - a10 * a01))"
  by (simp add: determinant_def determinant_exec_def determinant_2x2_def product2_def is_square_def)

lemma determinant_3x3_value:
  "determinant \<lparr>height = 3, width = 3,
       rows = [[a00, a01, a02], [a10, a11, a12], [a20, a21, a22]]\<rparr>
     = Inr (0 + a00 * a11 * a22 + a01 * a12 * a20 + a02 * a10 * a21
            - a02 * a11 * a20 - a01 * a10 * a22 - a00 * a12 * a21)"
  by (simp add: determinant_def determinant_exec_def determinant_3x3_def determinant_add_def
      determinant_sub_def product3_def is_square_def)

section \<open>The determinant\<close>

text \<open>
  C2. For every 2x2 matrix \<^verbatim>\<open>determinant()\<close> returns \<open>a00*a11 - a10*a01\<close>, and for every
  3x3 matrix it returns \<open>a00*a11*a22 + a01*a12*a20 + a02*a10*a21 - a02*a11*a20 -
  a01*a10*a22 - a00*a12*a21\<close>, in every ring of scalars; the matrix \<open>{4,6, 3,8}\<close> has
  determinant 14 and \<open>{6,1,1, 4,-2,5, 2,8,7}\<close> has determinant -306.
\<close>

theorem determinant_formula:
  fixes m :: "'a::ring matrix"
  shows "(well_formed m \<and> height m = 2 \<and> width m = 2 \<longrightarrow>
      determinant m = Inr (entry m 0 0 * entry m 1 1 - entry m 1 0 * entry m 0 1))
   \<and> (well_formed m \<and> height m = 3 \<and> width m = 3 \<longrightarrow>
      determinant m = Inr (entry m 0 0 * entry m 1 1 * entry m 2 2
                         + entry m 0 1 * entry m 1 2 * entry m 2 0
                         + entry m 0 2 * entry m 1 0 * entry m 2 1
                         - entry m 0 2 * entry m 1 1 * entry m 2 0
                         - entry m 0 1 * entry m 1 0 * entry m 2 2
                         - entry m 0 0 * entry m 1 2 * entry m 2 1))
   \<and> determinant \<lparr>height = 2, width = 2, rows = [[4, 6], [3, 8::int]]\<rparr> = Inr 14
   \<and> determinant \<lparr>height = 3, width = 3, rows = [[6, 1, 1], [4, - 2, 5], [2, 8, 7::int]]\<rparr>
       = Inr (- 306)"
proof (intro conjI impI)
  assume "well_formed m \<and> height m = 2 \<and> width m = 2"
  then have "m = \<lparr>height = 2, width = 2,
     rows = [[entry m 0 0, entry m 0 1], [entry m 1 0, entry m 1 1]]\<rparr>"
    by (intro square2) simp_all
  then have "determinant m = Inr (0 + (entry m 0 0 * entry m 1 1 - entry m 1 0 * entry m 0 1))"
    by (metis determinant_2x2_value)
  then show "determinant m = Inr (entry m 0 0 * entry m 1 1 - entry m 1 0 * entry m 0 1)"
    by simp
next
  assume "well_formed m \<and> height m = 3 \<and> width m = 3"
  then have "m = \<lparr>height = 3, width = 3,
     rows = [[entry m 0 0, entry m 0 1, entry m 0 2], [entry m 1 0, entry m 1 1, entry m 1 2],
             [entry m 2 0, entry m 2 1, entry m 2 2]]\<rparr>"
    by (intro square3) simp_all
  then have "determinant m = Inr (0 + entry m 0 0 * entry m 1 1 * entry m 2 2
                         + entry m 0 1 * entry m 1 2 * entry m 2 0
                         + entry m 0 2 * entry m 1 0 * entry m 2 1
                         - entry m 0 2 * entry m 1 1 * entry m 2 0
                         - entry m 0 1 * entry m 1 0 * entry m 2 2
                         - entry m 0 0 * entry m 1 2 * entry m 2 1)"
    by (metis determinant_3x3_value)
  then show "determinant m = Inr (entry m 0 0 * entry m 1 1 * entry m 2 2
                         + entry m 0 1 * entry m 1 2 * entry m 2 0
                         + entry m 0 2 * entry m 1 0 * entry m 2 1
                         - entry m 0 2 * entry m 1 1 * entry m 2 0
                         - entry m 0 1 * entry m 1 0 * entry m 2 2
                         - entry m 0 0 * entry m 1 2 * entry m 2 1)"
    by simp
next
  show "determinant \<lparr>height = 2, width = 2, rows = [[4, 6], [3, 8::int]]\<rparr> = Inr 14"
    by (simp add: determinant_2x2_value)
next
  show "determinant \<lparr>height = 3, width = 3, rows = [[6, 1, 1], [4, - 2, 5], [2, 8, 7::int]]\<rparr>
       = Inr (- 306)"
    by (simp add: determinant_3x3_value)
qed

theorem determinant_formula_witness:
  "well_formed \<lparr>height = 2, width = 2, rows = [[4, 6], [3, 8::int]]\<rparr>
   \<and> determinant \<lparr>height = 2, width = 2, rows = [[4, 6], [3, 8::int]]\<rparr> = Inr (4 * 8 - 3 * 6)
   \<and> well_formed \<lparr>height = 3, width = 3, rows = [[6, 1, 1], [4, - 2, 5], [2, 8, 7::int]]\<rparr>
   \<and> determinant \<lparr>height = 3, width = 3, rows = [[6, 1, 1], [4, - 2, 5], [2, 8, 7::int]]\<rparr>
       = Inr (6 * (- 2) * 7 + 1 * 5 * 2 + 1 * 4 * 8 - 1 * (- 2) * 2 - 1 * 4 * 7 - 6 * 5 * 8)"
  using determinant_formula [of "\<lparr>height = 2, width = 2, rows = [[4, 6], [3, 8::int]]\<rparr>"]
    determinant_formula [of "\<lparr>height = 3, width = 3, rows = [[6, 1, 1], [4, - 2, 5], [2, 8, 7::int]]\<rparr>"]
  by (simp add: well_formed_def dimension_def entry_def)

section \<open>The cross product\<close>

lemma cross_value:
  "cross [a0, a1, a2] [b0, b1, b2]
     = Inr [a1 * b2 - a2 * b1, 0 - (a0 * b2 - a2 * b0), a0 * b1 - a1 * b0]"
  by (simp add: cross_def cross_exec_def Let_def)

lemma cross_longer:
  "cross (a0 # a1 # a2 # ar) (b0 # b1 # b2 # br)
     = Inr ((a1 * b2 - a2 * b1) # (0 - (a0 * b2 - a2 * b0)) # (a0 * b1 - a1 * b0) # ar)"
  by (simp add: cross_def cross_exec_def Let_def)

lemma negate3:
  "vector_op_negate [x, y, z] = Inr [0 - x, 0 - y, 0 - z]"
  by (simp add: vector_op_negate_def vector_op_negate_exec_def vector_op_negate_step_def
      dimension_def)

lemma eq3:
  "vector_op_eq [x, y, z] [x', y', z'] = Inr (x = x' \<and> y = y' \<and> z = z')"
  by (auto simp add: vector_op_eq_def dimension_def upt_rec [of 0] upt_rec [of 1] upt_rec [of 2]
       upt_rec [of "Suc 0"] upt_rec [of "Suc (Suc 0)"] upt_rec [of "Suc (Suc (Suc 0))"])

text \<open>
  C5. For 3-element vectors \<open>a\<close> and \<open>b\<close> over a commutative ring, \<^verbatim>\<open>a.cross(b)\<close> is
  \<open>(a1*b2 - a2*b1, a2*b0 - a0*b2, a0*b1 - a1*b0)\<close>, and \<^verbatim>\<open>a.cross(b) == -(b.cross(a))\<close>
  evaluates to true.
\<close>

theorem cross_product:
  fixes a b :: "'a::comm_ring vector"
  shows "dimension a = 3 \<and> dimension b = 3 \<longrightarrow>
     cross a b = Inr [a ! 1 * b ! 2 - a ! 2 * b ! 1,
                      a ! 2 * b ! 0 - a ! 0 * b ! 2,
                      a ! 0 * b ! 1 - a ! 1 * b ! 0]
     \<and> (\<exists>c d n. cross a b = Inr c \<and> cross b a = Inr d \<and> vector_op_negate d = Inr n
           \<and> vector_op_eq c n = Inr True)"
proof
  assume "dimension a = 3 \<and> dimension b = 3"
  then have a: "a = [a ! 0, a ! 1, a ! 2]" and b: "b = [b ! 0, b ! 1, b ! 2]"
    by (intro list3; simp add: dimension_def)+
  have ab: "cross a b = Inr [a ! 1 * b ! 2 - a ! 2 * b ! 1, a ! 2 * b ! 0 - a ! 0 * b ! 2,
       a ! 0 * b ! 1 - a ! 1 * b ! 0]"
    by (subst a, subst b, subst cross_value) simp
  have ba: "cross b a = Inr [b ! 1 * a ! 2 - b ! 2 * a ! 1, b ! 2 * a ! 0 - b ! 0 * a ! 2,
       b ! 0 * a ! 1 - b ! 1 * a ! 0]"
    by (subst b, subst a, subst cross_value) simp
  have "vector_op_eq [a ! 1 * b ! 2 - a ! 2 * b ! 1, a ! 2 * b ! 0 - a ! 0 * b ! 2,
       a ! 0 * b ! 1 - a ! 1 * b ! 0]
      [0 - (b ! 1 * a ! 2 - b ! 2 * a ! 1), 0 - (b ! 2 * a ! 0 - b ! 0 * a ! 2),
       0 - (b ! 0 * a ! 1 - b ! 1 * a ! 0)] = Inr True"
    by (simp add: eq3 mult.commute)
  with ab ba negate3 show "cross a b = Inr [a ! 1 * b ! 2 - a ! 2 * b ! 1,
                      a ! 2 * b ! 0 - a ! 0 * b ! 2,
                      a ! 0 * b ! 1 - a ! 1 * b ! 0]
     \<and> (\<exists>c d n. cross a b = Inr c \<and> cross b a = Inr d \<and> vector_op_negate d = Inr n
           \<and> vector_op_eq c n = Inr True)"
    by blast
qed

theorem cross_product_witness:
  "dimension [3, - 3, 1::int] = 3 \<and> dimension [4, 9, 2::int] = 3
   \<and> cross [3, - 3, 1::int] [4, 9, 2] = Inr [- 15, - 2, 39]
   \<and> cross [4, 9, 2::int] [3, - 3, 1] = Inr [15, 2, - 39]"
  using cross_product [of "[3, - 3, 1::int]" "[4, 9, 2]"] cross_product [of "[4, 9, 2::int]" "[3, - 3, 1]"]
  by (simp add: dimension_def)

text \<open>
  C7. \<^verbatim>\<open>cross\<close> has no static assertion on the dimension. On two 4-element vectors
  it is instantiated, runs and returns a vector (the first three elements are the cross
  product of the first three, the fourth is copied from \<^verbatim>\<open>*this\<close>); on two 2-element
  vectors it is instantiated as well and fails only at run time, in the assertion of
  \<^verbatim>\<open>operator[]\<close>.
\<close>

theorem cross_of_four_dimensions:
  "cross [1, 2, 3, 4::int] [5, 6, 7, 8] = Inr [- 4, 8, - 4, 4]
   \<and> cross [1, 2::int] [5, 6] = Inl AssertionFailure"
  by (simp add: cross_longer cross_def cross_exec_def vector_at_outside)

section \<open>What \<^verbatim>\<open>fill\<close> and the constructors produce\<close>

lemma overwrite_next:
  assumes "i < length xs"
  shows "(replicate i d @ drop i xs)[i := d] = replicate (Suc i) d @ drop (Suc i) xs"
proof -
  have "drop i xs = xs ! i # drop (Suc i) xs"
    using assms by (simp add: Cons_nth_drop_Suc)
  then have "(replicate i d @ drop i xs)[i := d] = replicate i d @ d # drop (Suc i) xs"
    by (simp add: list_update_append)
  then show ?thesis
    by (simp add: replicate_append_same)
qed

lemma vector_fill_exec_value:
  "vector_fill_exec xs d = Inr \<lparr>self = replicate (length xs) d, args = d, locals = ()\<rparr>"
proof -
  define I where "I i f \<longleftrightarrow> f = \<lparr>self = replicate i d @ drop i xs, args = d, locals = ()\<rparr>"
    for i and f :: "('a vector, 'a, unit) frame"
  have "\<exists>f'. for_loop (length xs) vector_fill_step \<lparr>self = xs, args = d, locals = ()\<rparr> = Inr f'
      \<and> I (length xs) f'"
  proof (rule for_loop_invariant)
    show "I 0 \<lparr>self = xs, args = d, locals = ()\<rparr>"
      by (simp add: I_def)
  next
    fix i f
    assume "i < length xs" "I i f"
    then show "\<exists>f'. vector_fill_step i f = Inr f' \<and> I (Suc i) f'"
      by (simp add: I_def vector_fill_step_def overwrite_next del: replicate_Suc)
  qed
  then show ?thesis
    by (simp add: I_def vector_fill_exec_def dimension_def)
qed

lemma vector_fill_value: "vector_fill xs d = Inr (replicate (length xs) d)"
  by (simp add: vector_fill_def vector_fill_exec_value)

lemma vector_new_value [simp]: "vector_new n d = Inr (replicate n d)"
  by (simp add: vector_new_def vector_fill_value)

lemma matrix_fill_row:
  assumes "i < height m" "length (rows m ! i) = w" "length (rows m) = height m"
  shows "for_loop w (matrix_fill_step i) \<lparr>self = m, args = d, locals = ()\<rparr>
     = Inr \<lparr>self = m\<lparr>rows := (rows m)[i := replicate w d]\<rparr>, args = d, locals = ()\<rparr>"
proof -
  define I where "I j f \<longleftrightarrow>
      f = \<lparr>self = m\<lparr>rows := (rows m)[i := replicate j d @ drop j (rows m ! i)]\<rparr>,
           args = d, locals = ()\<rparr>"
    for j and f :: "('a matrix, 'a, unit) frame"
  have "\<exists>f'. for_loop w (matrix_fill_step i) \<lparr>self = m, args = d, locals = ()\<rparr> = Inr f'
      \<and> I w f'"
  proof (rule for_loop_invariant)
    show "I 0 \<lparr>self = m, args = d, locals = ()\<rparr>"
      by (simp add: I_def)
  next
    fix j f
    assume "j < w" "I j f"
    then show "\<exists>f'. matrix_fill_step i j f = Inr f' \<and> I (Suc j) f'"
      using assms by (simp add: I_def matrix_fill_step_def overwrite_next del: replicate_Suc)
  qed
  then show ?thesis
    using assms by (simp add: I_def)
qed

lemma matrix_fill_exec_value:
  assumes "well_formed m"
  shows "matrix_fill_exec m d
     = Inr \<lparr>self = m\<lparr>rows := replicate (height m) (replicate (width m) d)\<rparr>,
            args = d, locals = ()\<rparr>"
proof -
  define I where "I i f \<longleftrightarrow>
      f = \<lparr>self = m\<lparr>rows := replicate i (replicate (width m) d) @ drop i (rows m)\<rparr>,
           args = d, locals = ()\<rparr>"
    for i and f :: "('a matrix, 'a, unit) frame"
  have len: "length (rows m) = height m" and row: "\<And>i. i < height m \<Longrightarrow> length (rows m ! i) = width m"
    using assms by (simp_all add: well_formed_def dimension_def)
  have "\<exists>f'. for_loop (height m) (\<lambda>i. for_loop (width m) (matrix_fill_step i))
          \<lparr>self = m, args = d, locals = ()\<rparr> = Inr f' \<and> I (height m) f'"
  proof (rule for_loop_invariant)
    show "I 0 \<lparr>self = m, args = d, locals = ()\<rparr>"
      by (simp add: I_def)
  next
    fix i f
    assume i: "i < height m" and "I i f"
    then have f: "f = \<lparr>self = m\<lparr>rows := replicate i (replicate (width m) d) @ drop i (rows m)\<rparr>,
           args = d, locals = ()\<rparr>"
      by (simp add: I_def)
    let ?m = "m\<lparr>rows := replicate i (replicate (width m) d) @ drop i (rows m)\<rparr>"
    have "for_loop (width m) (matrix_fill_step i) \<lparr>self = ?m, args = d, locals = ()\<rparr>
       = Inr \<lparr>self = ?m\<lparr>rows := (rows ?m)[i := replicate (width m) d]\<rparr>, args = d, locals = ()\<rparr>"
      by (rule matrix_fill_row) (use i len row in \<open>simp_all add: nth_append\<close>)
    then show "\<exists>f'. for_loop (width m) (matrix_fill_step i) f = Inr f' \<and> I (Suc i) f'"
      using i len by (simp add: f I_def overwrite_next del: replicate_Suc)
  qed
  then show ?thesis
    using len by (simp add: I_def matrix_fill_exec_def for_loop2_def)
qed

lemma matrix_new_value [simp]:
  "matrix_new h w d = Inr \<lparr>height = h, width = w, rows = replicate h (replicate w d)\<rparr>"
  by (simp add: matrix_new_def matrix_fill_def matrix_fill_exec_value well_formed_def dimension_def)

section \<open>Cramer's rule\<close>

lemma for_loop_3:
  "for_loop 3 body s = bindE (bindE (body 0 s) (body 1)) (body 2)"
  by (simp add: numeral_3_eq_3 numeral_2_eq_2)

lemma replicate_2: "replicate 2 x = [x, x]"
  by (simp add: numeral_2_eq_2)

lemma replicate_3: "replicate 3 x = [x, x, x]"
  by (simp add: numeral_3_eq_3)

lemma solve_2x2_value:
  assumes "0 + (a00 * a11 - a10 * a01) \<noteq> 0"
  shows "solve quot \<lparr>height = 2, width = 2, rows = [[a00, a01], [a10, a11]]\<rparr> [b0, b1]
     = Inr [quot (0 + (b0 * a11 - b1 * a01)) (0 + (a00 * a11 - a10 * a01)),
            quot (0 + (a00 * b1 - a10 * b0)) (0 + (a00 * a11 - a10 * a01))]"
  using assms
  by (simp add: solve_def solve_exec_def solve_2x2_def solve_start_def solve_put_def
      solve_component_def solve_reset_def scalar_divide_def determinant_2x2_value is_square_def replicate_2)

lemma solve_3x3_value:
  assumes "0 + a00 * a11 * a22 + a01 * a12 * a20 + a02 * a10 * a21
            - a02 * a11 * a20 - a01 * a10 * a22 - a00 * a12 * a21 \<noteq> 0"
  shows "solve quot \<lparr>height = 3, width = 3,
       rows = [[a00, a01, a02], [a10, a11, a12], [a20, a21, a22]]\<rparr> [b0, b1, b2]
     = Inr [quot (0 + b0 * a11 * a22 + a01 * a12 * b2 + a02 * b1 * a21
                  - a02 * a11 * b2 - a01 * b1 * a22 - b0 * a12 * a21)
                 (0 + a00 * a11 * a22 + a01 * a12 * a20 + a02 * a10 * a21
                  - a02 * a11 * a20 - a01 * a10 * a22 - a00 * a12 * a21),
            quot (0 + a00 * b1 * a22 + b0 * a12 * a20 + a02 * a10 * b2
                  - a02 * b1 * a20 - b0 * a10 * a22 - a00 * a12 * b2)
                 (0 + a00 * a11 * a22 + a01 * a12 * a20 + a02 * a10 * a21
                  - a02 * a11 * a20 - a01 * a10 * a22 - a00 * a12 * a21),
            quot (0 + a00 * a11 * b2 + a01 * b1 * a20 + b0 * a10 * a21
                  - b0 * a11 * a20 - a01 * a10 * b2 - a00 * b1 * a21)
                 (0 + a00 * a11 * a22 + a01 * a12 * a20 + a02 * a10 * a21
                  - a02 * a11 * a20 - a01 * a10 * a22 - a00 * a12 * a21)]"
  using assms
  by (simp add: solve_def solve_exec_def solve_3x3_def solve_3x3_step_def solve_start_def
      solve_put_def solve_component_def solve_reset_def scalar_divide_def
      determinant_3x3_value is_square_def for_loop_3 replicate_3)

lemma cramer_2x2:
  assumes A: "A = \<lparr>height = 2, width = 2, rows = [[a00, a01], [a10, a11]]\<rparr>"
    and b: "b = [b0, b1]"
    and d: "determinant A = Inr d" "d \<noteq> 0"
  shows "\<exists>x. solve quot A b = Inr x \<and> dimension x = 2 \<and>
     (\<forall>i<2. \<exists>di. determinant (replace_column A i b) = Inr di \<and> x ! i = quot di d)"
proof -
  have d_eq: "d = 0 + (a00 * a11 - a10 * a01)"
    using d(1) by (simp add: A determinant_2x2_value)
  then have "solve quot A b = Inr [quot (0 + (b0 * a11 - b1 * a01)) d,
      quot (0 + (a00 * b1 - a10 * b0)) d]"
    using d(2) by (simp add: A b solve_2x2_value)
  moreover have "determinant (replace_column A 0 b) = Inr (0 + (b0 * a11 - b1 * a01))"
    by (simp add: A b replace_column_def determinant_2x2_value)
  moreover have "determinant (replace_column A 1 b) = Inr (0 + (a00 * b1 - a10 * b0))"
    by (simp add: A b replace_column_def determinant_2x2_value)
  ultimately show ?thesis
    by (auto simp add: dimension_def less_2_cases_iff)
qed

lemma cramer_3x3:
  assumes A: "A = \<lparr>height = 3, width = 3,
       rows = [[a00, a01, a02], [a10, a11, a12], [a20, a21, a22]]\<rparr>"
    and b: "b = [b0, b1, b2]"
    and d: "determinant A = Inr d" "d \<noteq> 0"
  shows "\<exists>x. solve quot A b = Inr x \<and> dimension x = 3 \<and>
     (\<forall>i<3. \<exists>di. determinant (replace_column A i b) = Inr di \<and> x ! i = quot di d)"
proof -
  have d_eq: "d = 0 + a00 * a11 * a22 + a01 * a12 * a20 + a02 * a10 * a21
            - a02 * a11 * a20 - a01 * a10 * a22 - a00 * a12 * a21"
    using d(1) by (simp add: A determinant_3x3_value)
  then have "solve quot A b =
      Inr [quot (0 + b0 * a11 * a22 + a01 * a12 * b2 + a02 * b1 * a21
                  - a02 * a11 * b2 - a01 * b1 * a22 - b0 * a12 * a21) d,
           quot (0 + a00 * b1 * a22 + b0 * a12 * a20 + a02 * a10 * b2
                  - a02 * b1 * a20 - b0 * a10 * a22 - a00 * a12 * b2) d,
           quot (0 + a00 * a11 * b2 + a01 * b1 * a20 + b0 * a10 * a21
                  - b0 * a11 * a20 - a01 * a10 * b2 - a00 * b1 * a21) d]"
    using d(2) by (simp add: A b solve_3x3_value)
  moreover have "determinant (replace_column A 0 b) =
      Inr (0 + b0 * a11 * a22 + a01 * a12 * b2 + a02 * b1 * a21
                  - a02 * a11 * b2 - a01 * b1 * a22 - b0 * a12 * a21)"
    by (simp add: A b replace_column_def determinant_3x3_value)
  moreover have "determinant (replace_column A 1 b) =
      Inr (0 + a00 * b1 * a22 + b0 * a12 * a20 + a02 * a10 * b2
                  - a02 * b1 * a20 - b0 * a10 * a22 - a00 * a12 * b2)"
    by (simp add: A b replace_column_def determinant_3x3_value)
  moreover have "determinant (replace_column A 2 b) =
      Inr (0 + a00 * a11 * b2 + a01 * b1 * a20 + b0 * a10 * a21
                  - b0 * a11 * a20 - a01 * a10 * b2 - a00 * b1 * a21)"
    by (simp add: A b replace_column_def determinant_3x3_value)
  moreover have "i = 0 \<or> i = 1 \<or> i = 2" if "i < 3" for i :: nat
    using that by arith
  ultimately show ?thesis
    by (fastforce simp add: dimension_def)
qed

text \<open>
  C1. For a square 2x2 or 3x3 matrix \<open>A\<close> whose determinant \<open>d\<close> is not 0 and a vector
  \<open>b\<close> of the same height, \<^verbatim>\<open>solve(b)\<close> returns a vector \<open>x\<close> of that height with
  \<open>x[i] = det(A\<^sub>i) / d\<close>, where \<open>A\<^sub>i\<close> is the original \<open>A\<close> with column \<open>i\<close> alone replaced
  by \<open>b\<close>, for every division \<open>quot\<close> of the scalar type. The matrix
  \<open>{1,2,3, 3,1,-3, -3,4,7}\<close> with \<open>b = (-5,4,-7)\<close> gives \<open>(-1,1,-2)\<close>.
\<close>

theorem solve_cramer:
  fixes A :: "'a::{zero,plus,minus,times} matrix"
  shows "(well_formed A \<and> is_square A \<and> (height A = 2 \<or> height A = 3)
          \<and> dimension b = height A \<and> determinant A = Inr d \<and> d \<noteq> 0 \<longrightarrow>
      (\<exists>x. solve quot A b = Inr x \<and> dimension x = height A \<and>
         (\<forall>i<height A. \<exists>di. determinant (replace_column A i b) = Inr di
                           \<and> x ! i = quot di d)))
   \<and> solve int_quot \<lparr>height = 3, width = 3, rows = [[1, 2, 3], [3, 1, - 3], [- 3, 4, 7]]\<rparr>
         [- 5, 4, - 7] = Inr [- 1, 1, - 2]"
proof (intro conjI impI)
  assume h: "well_formed A \<and> is_square A \<and> (height A = 2 \<or> height A = 3)
          \<and> dimension b = height A \<and> determinant A = Inr d \<and> d \<noteq> 0"
  then consider "height A = 2" "width A = 2" | "height A = 3" "width A = 3"
    by (auto simp add: is_square_def)
  then show "\<exists>x. solve quot A b = Inr x \<and> dimension x = height A \<and>
         (\<forall>i<height A. \<exists>di. determinant (replace_column A i b) = Inr di
                           \<and> x ! i = quot di d)"
  proof cases
    case 1
    have A: "A = \<lparr>height = 2, width = 2,
        rows = [[entry A 0 0, entry A 0 1], [entry A 1 0, entry A 1 1]]\<rparr>"
      by (intro square2) (use h 1 in simp_all)
    have b: "b = [b ! 0, b ! 1]"
      by (intro list2) (use h 1 in \<open>simp add: dimension_def\<close>)
    from h have "determinant A = Inr d" "d \<noteq> 0"
      by simp_all
    with A b have "\<exists>x. solve quot A b = Inr x \<and> dimension x = 2 \<and>
        (\<forall>i<2. \<exists>di. determinant (replace_column A i b) = Inr di \<and> x ! i = quot di d)"
      by (rule cramer_2x2)
    then show ?thesis
      by (simp only: 1)
  next
    case 2
    have A: "A = \<lparr>height = 3, width = 3,
        rows = [[entry A 0 0, entry A 0 1, entry A 0 2], [entry A 1 0, entry A 1 1, entry A 1 2],
                [entry A 2 0, entry A 2 1, entry A 2 2]]\<rparr>"
      by (intro square3) (use h 2 in simp_all)
    have b: "b = [b ! 0, b ! 1, b ! 2]"
      by (intro list3) (use h 2 in \<open>simp add: dimension_def\<close>)
    from h have "determinant A = Inr d" "d \<noteq> 0"
      by simp_all
    with A b have "\<exists>x. solve quot A b = Inr x \<and> dimension x = 3 \<and>
        (\<forall>i<3. \<exists>di. determinant (replace_column A i b) = Inr di \<and> x ! i = quot di d)"
      by (rule cramer_3x3)
    then show ?thesis
      by (simp only: 2)
  qed
next
  show "solve int_quot \<lparr>height = 3, width = 3, rows = [[1, 2, 3], [3, 1, - 3], [- 3, 4, 7]]\<rparr>
         [- 5, 4, - 7] = Inr [- 1, 1, - 2]"
    by (simp add: solve_3x3_value int_quot_def)
qed

theorem solve_cramer_witness:
  "well_formed \<lparr>height = 2, width = 2, rows = [[4, - 3], [6, 5::int]]\<rparr>
   \<and> is_square \<lparr>height = 2, width = 2, rows = [[4, - 3], [6, 5::int]]\<rparr>
   \<and> dimension [11, 7::int] = 2
   \<and> determinant \<lparr>height = 2, width = 2, rows = [[4, - 3], [6, 5::int]]\<rparr> = Inr 38
   \<and> (\<exists>x. solve int_quot \<lparr>height = 2, width = 2, rows = [[4, - 3], [6, 5::int]]\<rparr> [11, 7] = Inr x
        \<and> dimension x = 2
        \<and> (\<forall>i<2. \<exists>di. determinant
               (replace_column \<lparr>height = 2, width = 2, rows = [[4, - 3], [6, 5::int]]\<rparr> i [11, 7])
               = Inr di \<and> x ! i = int_quot di 38))"
  using solve_cramer [of "\<lparr>height = 2, width = 2, rows = [[4, - 3], [6, 5::int]]\<rparr>"
      "[11, 7]" 38 int_quot]
  by (simp add: well_formed_def is_square_def dimension_def determinant_2x2_value)

section \<open>Extracting a column or a row\<close>

lemma for_loop2_empty [simp]: "for_loop2 0 w body s = Inr s"
  by (simp add: for_loop2_def)

lemma well_formed_row:
  "well_formed m \<Longrightarrow> i < height m \<Longrightarrow> length (rows m ! i) = width m"
  by (simp add: well_formed_def dimension_def)

lemma well_formed_rows: "well_formed m \<Longrightarrow> length (rows m) = height m"
  by (simp add: well_formed_def)

lemma write_next:
  assumes "length xs = i" "i < n"
  shows "(xs @ replicate (n - i) d)[i := x] = (xs @ [x]) @ replicate (n - Suc i) d"
proof -
  have "replicate (n - i) d = d # replicate (n - Suc i) d"
    using assms(2) by (simp add: Suc_diff_Suc flip: replicate_Suc)
  then show ?thesis
    using assms(1) by (simp add: list_update_append)
qed

lemma below_nat: "j < nat c \<Longrightarrow> int j \<noteq> c"
  by arith

text \<open>The loop \<^verbatim>\<open>for (j = 0; j <= c; j++) if (j == c) ...\<close> runs its body once, at \<open>c\<close>.\<close>

lemma for_loop_only_last:
  assumes "0 \<le> c" and "\<And>j. j < nat c \<Longrightarrow> body j s = Inr s"
  shows "for_loop (nat (c + 1)) body s = body (nat c) s"
proof -
  have "nat (c + 1) = Suc (nat c)"
    using assms(1) by simp
  then show ?thesis
    by (simp add: for_loop_skips assms(2))
qed

lemma column_vector_value:
  assumes wf: "well_formed M" and c: "0 \<le> c" "c < int (width M)"
  shows "column_vector M c = Inr (map (\<lambda>r. r ! nat c) (rows M))"
proof -
  define I where "I i f \<longleftrightarrow> f = \<lparr>self = M, args = c,
      locals = map (\<lambda>r. r ! nat c) (take i (rows M)) @ replicate (height M - i) 0\<rparr>"
    for i and f :: "('a matrix, int, 'a vector) frame"
  have "\<exists>f'. for_loop (height M) (\<lambda>i. for_loop (nat (c + 1)) (column_vector_step i))
          \<lparr>self = M, args = c, locals = replicate (height M) 0\<rparr> = Inr f' \<and> I (height M) f'"
  proof (rule for_loop_invariant)
    show "I 0 \<lparr>self = M, args = c, locals = replicate (height M) 0\<rparr>"
      by (simp add: I_def)
  next
    fix i f
    assume i: "i < height M" and "I i f"
    then have f: "f = \<lparr>self = M, args = c,
        locals = map (\<lambda>r. r ! nat c) (take i (rows M)) @ replicate (height M - i) 0\<rparr>"
      by (simp add: I_def)
    have "for_loop (nat (c + 1)) (column_vector_step i) f = column_vector_step i (nat c) f"
      using c(1) by (rule for_loop_only_last) (simp add: column_vector_step_def f below_nat)
    also have "\<dots> = Inr (f\<lparr>locals := (locals f)[i := rows M ! i ! nat c]\<rparr>)"
      using i c wf by (simp add: column_vector_step_def f well_formed_row well_formed_rows)
    finally show "\<exists>f'. for_loop (nat (c + 1)) (column_vector_step i) f = Inr f' \<and> I (Suc i) f'"
      using i wf by (simp add: f I_def write_next well_formed_rows take_Suc_conv_app_nth)
  qed
  then show ?thesis
    using wf by (simp add: I_def column_vector_def column_vector_exec_def for_loop2_def
        well_formed_rows)
qed

lemma column_matrix_first_column:
  assumes wf: "well_formed M" and w: "0 < width M"
  shows "column_matrix M 0
     = Inr \<lparr>height = height M, width = 1, rows = map (\<lambda>r. [r ! 0]) (rows M)\<rparr>"
proof -
  define I where "I i f \<longleftrightarrow> f = \<lparr>self = M, args = 0,
      locals = \<lparr>height = height M, width = 1,
        rows = map (\<lambda>r. [r ! 0]) (take i (rows M)) @ replicate (height M - i) [0]\<rparr>\<rparr>"
    for i and f :: "('a matrix, int, 'a matrix) frame"
  have "\<exists>f'. for_loop (height M) (\<lambda>i. for_loop (nat (0 + 1)) (column_matrix_step i))
          \<lparr>self = M, args = 0,
           locals = \<lparr>height = height M, width = 1, rows = replicate (height M) [0]\<rparr>\<rparr> = Inr f'
        \<and> I (height M) f'"
  proof (rule for_loop_invariant)
    show "I 0 \<lparr>self = M, args = 0,
           locals = \<lparr>height = height M, width = 1, rows = replicate (height M) [0]\<rparr>\<rparr>"
      by (simp add: I_def)
  next
    fix i f
    assume i: "i < height M" and "I i f"
    then have f: "f = \<lparr>self = M, args = 0,
      locals = \<lparr>height = height M, width = 1,
        rows = map (\<lambda>r. [r ! 0]) (take i (rows M)) @ replicate (height M - i) [0]\<rparr>\<rparr>"
      by (simp add: I_def)
    have "column_matrix_step i 0 f
        = Inr (f\<lparr>locals := (locals f)\<lparr>rows := (rows (locals f))[i := [rows M ! i ! 0]]\<rparr>\<rparr>)"
      using i w wf
      by (simp add: column_matrix_step_def f well_formed_row well_formed_rows nth_append)
    then show "\<exists>f'. for_loop (nat (0 + 1)) (column_matrix_step i) f = Inr f' \<and> I (Suc i) f'"
      using i wf by (simp add: f I_def write_next well_formed_rows take_Suc_conv_app_nth)
  qed
  then show ?thesis
    using wf by (simp add: I_def column_matrix_def column_matrix_exec_def for_loop2_def
        well_formed_rows)
qed

lemma column_matrix_aborts:
  assumes wf: "well_formed M" and h: "0 < height M" and c: "1 \<le> c" "c < int (width M)"
  shows "column_matrix M c = Inl AssertionFailure"
proof -
  let ?f = "\<lparr>self = M, args = c,
      locals = \<lparr>height = height M, width = 1, rows = replicate (height M) (replicate 1 0)\<rparr>\<rparr>"
  have "for_loop (nat (c + 1)) (column_matrix_step 0) ?f = column_matrix_step 0 (nat c) ?f"
    by (rule for_loop_only_last) (use c in \<open>simp_all add: column_matrix_step_def below_nat\<close>)
  also have "\<dots> = Inl AssertionFailure"
    using wf h c
    by (simp add: column_matrix_step_def well_formed_row matrix_assign_def vector_assign_outside)
  finally have "for_loop (height M) (\<lambda>i. for_loop (nat (c + 1)) (column_matrix_step i)) ?f
      = Inl AssertionFailure"
    using h for_loop_fails [of 0 "height M"
        "\<lambda>i. for_loop (nat (c + 1)) (column_matrix_step i)" ?f ?f AssertionFailure]
    by simp
  then show ?thesis
    by (simp add: column_matrix_def column_matrix_exec_def for_loop2_def)
qed

text \<open>
  C3. \<^verbatim>\<open>column_vector(c)\<close> returns the column for every \<open>c\<close> in \<open>[0, W)\<close> (lemma
  \<open>column_vector_value\<close>). \<^verbatim>\<open>column_matrix(c)\<close> does so for \<open>c = 0\<close> only (lemma
  \<open>column_matrix_first_column\<close>): it writes \<^verbatim>\<open>col[i][j]\<close> with \<open>j = c\<close> into a matrix
  of width 1, so that for every other column of a matrix with at least one row the
  assertion of \<^verbatim>\<open>operator[]\<close> fails (lemma \<open>column_matrix_aborts\<close>). On the second
  column of \<open>{1,2, 3,4}\<close>:
\<close>

theorem column_matrix_of_second_column:
  "column_matrix \<lparr>height = 2, width = 2, rows = [[1, 2], [3, 4::int]]\<rparr> 1
     = Inl AssertionFailure
   \<and> column_vector \<lparr>height = 2, width = 2, rows = [[1, 2], [3, 4::int]]\<rparr> 1 = Inr [2, 4]"
  by (simp add: column_matrix_aborts column_vector_value well_formed_def dimension_def)

lemma row_vector_of_negative_row:
  assumes "row < 0"
  shows "row_vector M row = Inr (replicate (width M) 0)"
  using assms by (simp add: row_vector_def row_vector_exec_def)

lemma row_matrix_outside:
  assumes "row < 0 \<or> int (height M) \<le> row"
  shows "row_matrix M row = Inl AssertionFailure"
  using assms by (auto simp add: row_matrix_def row_matrix_exec_def is_row_def)

lemma row_vector_above:
  assumes "int (height M) \<le> row" "0 < width M"
  shows "row_vector M row = Inl AssertionFailure"
proof -
  let ?f = "\<lparr>self = M, args = row, locals = replicate (width M) 0\<rparr>"
  have skip: "for_loop (width M) (row_vector_step i) ?f = Inr ?f" if "i < nat row" for i
    using that by (intro for_loop_skips) (simp add: row_vector_step_def below_nat)
  have "row_vector_step (nat row) 0 ?f = Inl AssertionFailure"
    using assms by (simp add: row_vector_step_def matrix_at_def matrix_row_outside)
  then have "for_loop (width M) (row_vector_step (nat row)) ?f = Inl AssertionFailure"
    using assms(2) for_loop_fails [of 0 "width M" "row_vector_step (nat row)" ?f ?f AssertionFailure]
    by simp
  moreover have "for_loop (nat row) (\<lambda>i. for_loop (width M) (row_vector_step i)) ?f = Inr ?f"
    by (intro for_loop_skips skip)
  ultimately have "for_loop (nat (row + 1)) (\<lambda>i. for_loop (width M) (row_vector_step i)) ?f
      = Inl AssertionFailure"
    using assms for_loop_fails [of "nat row" "nat (row + 1)"
        "\<lambda>i. for_loop (width M) (row_vector_step i)" ?f ?f AssertionFailure]
    by simp
  then show ?thesis
    by (simp add: row_vector_def row_vector_exec_def for_loop2_def)
qed

text \<open>
  C6. \<^verbatim>\<open>row_matrix\<close> and the indexing of a matrix fail on every row index outside
  \<open>[0, H)\<close>, and \<^verbatim>\<open>row_vector\<close> fails on an index \<open>\<ge> H\<close> of a matrix with a column. But
  \<^verbatim>\<open>row_vector\<close> has no assertion of its own, and on a negative index its loop
  \<^verbatim>\<open>for (i = 0; i <= row; i++)\<close> does not run: it returns the zero vector. On row
  \<open>-1\<close> of \<open>{1,2, 3,4}\<close>:
\<close>

theorem row_vector_of_row_minus_one:
  "row_vector \<lparr>height = 2, width = 2, rows = [[1, 2], [3, 4::int]]\<rparr> (- 1) = Inr [0, 0]
   \<and> row_matrix \<lparr>height = 2, width = 2, rows = [[1, 2], [3, 4::int]]\<rparr> (- 1)
       = Inl AssertionFailure
   \<and> matrix_row \<lparr>height = 2, width = 2, rows = [[1, 2], [3, 4::int]]\<rparr> (- 1)
       = Inl AssertionFailure"
  by (simp add: row_vector_of_negative_row row_matrix_outside matrix_row_outside replicate_2)

section \<open>Shrinking and the top left submatrix\<close>

lemma for_loop2_rel:
  assumes "R s t"
    and "\<And>i j s t. i < h \<Longrightarrow> j < w \<Longrightarrow> R s t \<Longrightarrow> rel_sum (=) R (body1 i j s) (body2 i j t)"
  shows "rel_sum (=) R (for_loop2 h w body1 s) (for_loop2 h w body2 t)"
  unfolding for_loop2_def
  by (intro for_loop_rel assms)

lemma for_loop_numeral:
  "for_loop (numeral k) body s
     = bindE (for_loop (pred_numeral k) body s) (body (pred_numeral k))"
  by (simp add: numeral_eq_Suc)

lemma matrix_shrink_row:
  assumes wf: "well_formed M" and i: "i < h" "h \<le> height M" and w: "w \<le> width M"
    and L: "length (rows L) = h" "height L = h" "rows L ! i = replicate w 0"
  shows "for_loop w (matrix_shrink_step i) \<lparr>self = M, args = (), locals = L\<rparr>
     = Inr \<lparr>self = M, args = (), locals = L\<lparr>rows := (rows L)[i := take w (rows M ! i)]\<rparr>\<rparr>"
proof -
  define I where "I j f \<longleftrightarrow> f = \<lparr>self = M, args = (),
      locals = L\<lparr>rows := (rows L)[i := take j (rows M ! i) @ replicate (w - j) 0]\<rparr>\<rparr>"
    for j and f :: "('a matrix, unit, 'a matrix) frame"
  have len: "length (rows M ! i) = width M"
    using wf i by (simp add: well_formed_row)
  have "\<exists>f'. for_loop w (matrix_shrink_step i) \<lparr>self = M, args = (), locals = L\<rparr> = Inr f'
      \<and> I w f'"
  proof (rule for_loop_invariant)
    have "(rows L)[i := replicate w 0] = rows L"
      using L by (metis list_update_id)
    then show "I 0 \<lparr>self = M, args = (), locals = L\<rparr>"
      by (simp add: I_def)
  next
    fix j f
    assume j: "j < w" and "I j f"
    then have f: "f = \<lparr>self = M, args = (),
      locals = L\<lparr>rows := (rows L)[i := take j (rows M ! i) @ replicate (w - j) 0]\<rparr>\<rparr>"
      by (simp add: I_def)
    have "(take j (rows M ! i) @ replicate (w - j) 0)[j := rows M ! i ! j]
        = take (Suc j) (rows M ! i) @ replicate (w - Suc j) 0"
      using j w len by (simp add: write_next take_Suc_conv_app_nth)
    then show "\<exists>f'. matrix_shrink_step i j f = Inr f' \<and> I (Suc j) f'"
      using i j w L len by (simp add: f I_def matrix_shrink_step_def)
  qed
  then show ?thesis
    by (simp add: I_def)
qed

lemma matrix_shrink_value:
  assumes wf: "well_formed M" and h: "h \<le> height M" and w: "w \<le> width M"
    and strict: "w < width M \<or> h < height M"
  shows "matrix_shrink h w M
     = Inr \<lparr>height = h, width = w, rows = map (take w) (take h (rows M))\<rparr>"
proof -
  define I where "I i f \<longleftrightarrow> f = \<lparr>self = M, args = (),
      locals = \<lparr>height = h, width = w,
        rows = map (take w) (take i (rows M)) @ replicate (h - i) (replicate w 0)\<rparr>\<rparr>"
    for i and f :: "('a matrix, unit, 'a matrix) frame"
  have "\<exists>f'. for_loop h (\<lambda>i. for_loop w (matrix_shrink_step i))
        \<lparr>self = M, args = (),
         locals = \<lparr>height = h, width = w, rows = replicate h (replicate w 0)\<rparr>\<rparr> = Inr f'
      \<and> I h f'"
  proof (rule for_loop_invariant)
    show "I 0 \<lparr>self = M, args = (),
         locals = \<lparr>height = h, width = w, rows = replicate h (replicate w 0)\<rparr>\<rparr>"
      by (simp add: I_def)
  next
    fix i f
    assume i: "i < h" and "I i f"
    then have f: "f = \<lparr>self = M, args = (),
      locals = \<lparr>height = h, width = w,
        rows = map (take w) (take i (rows M)) @ replicate (h - i) (replicate w 0)\<rparr>\<rparr>"
      by (simp add: I_def)
    let ?L = "\<lparr>height = h, width = w,
        rows = map (take w) (take i (rows M)) @ replicate (h - i) (replicate w 0)\<rparr>"
    have lenM: "length (rows M) = height M"
      using wf by (rule well_formed_rows)
    have "for_loop w (matrix_shrink_step i) \<lparr>self = M, args = (), locals = ?L\<rparr>
      = Inr \<lparr>self = M, args = (), locals = ?L\<lparr>rows := (rows ?L)[i := take w (rows M ! i)]\<rparr>\<rparr>"
      using wf i h w
      by (rule matrix_shrink_row) (use i h lenM in \<open>simp_all add: nth_append\<close>)
    moreover have "(map (take w) (take i (rows M)) @ replicate (h - i) (replicate w 0))
          [i := take w (rows M ! i)]
        = map (take w) (take (Suc i) (rows M)) @ replicate (h - Suc i) (replicate w 0)"
      using i h lenM by (simp add: write_next take_Suc_conv_app_nth)
    ultimately show "\<exists>f'. for_loop w (matrix_shrink_step i) f = Inr f' \<and> I (Suc i) f'"
      by (simp add: f I_def)
  qed
  then show ?thesis
    using h w strict
    by (auto simp add: I_def matrix_shrink_def matrix_shrink_exec_def for_loop2_def)
qed

text \<open>
  C8, as amended. For result dimensions that are both positive, with
  \<open>RESULT_HEIGHT \<le> H\<close>, \<open>RESULT_WIDTH \<le> W\<close> and at least one of them strictly smaller,
  \<^verbatim>\<open>shrink<RESULT_HEIGHT, RESULT_WIDTH>()\<close> and
  \<^verbatim>\<open>submatrix<RESULT_HEIGHT, RESULT_WIDTH>(0, 0)\<close> give the same result: the matrix of
  the first \<open>RESULT_WIDTH\<close> elements of the first \<open>RESULT_HEIGHT\<close> rows.
\<close>

theorem shrink_is_submatrix:
  fixes M :: "'a::zero matrix"
  shows "0 < RESULT_HEIGHT \<and> 0 < RESULT_WIDTH
     \<and> RESULT_HEIGHT \<le> height M \<and> RESULT_WIDTH \<le> width M
     \<and> (RESULT_WIDTH < width M \<or> RESULT_HEIGHT < height M) \<longrightarrow>
     matrix_shrink RESULT_HEIGHT RESULT_WIDTH M = submatrix RESULT_HEIGHT RESULT_WIDTH M 0 0
     \<and> (well_formed M \<longrightarrow>
          matrix_shrink RESULT_HEIGHT RESULT_WIDTH M
            = Inr \<lparr>height = RESULT_HEIGHT, width = RESULT_WIDTH,
                   rows = map (take RESULT_WIDTH) (take RESULT_HEIGHT (rows M))\<rparr>)"
proof (intro impI conjI)
  assume h: "0 < RESULT_HEIGHT \<and> 0 < RESULT_WIDTH
     \<and> RESULT_HEIGHT \<le> height M \<and> RESULT_WIDTH \<le> width M
     \<and> (RESULT_WIDTH < width M \<or> RESULT_HEIGHT < height M)"
  define R :: "('a matrix, unit, 'a matrix) frame \<Rightarrow> ('a matrix, int \<times> int, 'a matrix) frame \<Rightarrow> bool"
    where "R f g \<longleftrightarrow> self f = self g \<and> locals f = locals g \<and> args g = (0, 0)" for f g
  let ?sub = "\<lparr>height = RESULT_HEIGHT, width = RESULT_WIDTH,
      rows = replicate RESULT_HEIGHT (replicate RESULT_WIDTH 0)\<rparr>"
  have step: "rel_sum (=) R (matrix_shrink_step i j f) (submatrix_step i j g)" if "R f g" for i j f g
  proof -
    from that have "submatrix_step i j g =
        bindE (matrix_at (self f) (int i) (int j)) (\<lambda>x.
        bindE (matrix_assign (locals f) (int i) (int j) x) (\<lambda>sub.
        Inr (g\<lparr>locals := sub\<rparr>)))"
      by (simp add: submatrix_step_def R_def)
    with that show ?thesis
      by (cases "matrix_at (self f) (int i) (int j)";
          cases "matrix_assign (locals f) (int i) (int j) (projr (matrix_at (self f) (int i) (int j)))")
        (simp_all add: matrix_shrink_step_def R_def)
  qed
  have "rel_sum (=) R
      (for_loop2 RESULT_HEIGHT RESULT_WIDTH matrix_shrink_step \<lparr>self = M, args = (), locals = ?sub\<rparr>)
      (for_loop2 RESULT_HEIGHT RESULT_WIDTH submatrix_step \<lparr>self = M, args = (0, 0), locals = ?sub\<rparr>)"
    by (rule for_loop2_rel) (simp_all add: R_def step)
  then have "rel_sum (=) R (matrix_shrink_exec RESULT_HEIGHT RESULT_WIDTH M)
      (submatrix_exec RESULT_HEIGHT RESULT_WIDTH M 0 0)"
    using h by (simp add: matrix_shrink_exec_def submatrix_exec_def)
  then show "matrix_shrink RESULT_HEIGHT RESULT_WIDTH M = submatrix RESULT_HEIGHT RESULT_WIDTH M 0 0"
    by (cases "matrix_shrink_exec RESULT_HEIGHT RESULT_WIDTH M";
        cases "submatrix_exec RESULT_HEIGHT RESULT_WIDTH M 0 0")
      (simp_all add: matrix_shrink_def submatrix_def R_def)
next
  assume "0 < RESULT_HEIGHT \<and> 0 < RESULT_WIDTH
     \<and> RESULT_HEIGHT \<le> height M \<and> RESULT_WIDTH \<le> width M
     \<and> (RESULT_WIDTH < width M \<or> RESULT_HEIGHT < height M)"
    and "well_formed M"
  then show "matrix_shrink RESULT_HEIGHT RESULT_WIDTH M
      = Inr \<lparr>height = RESULT_HEIGHT, width = RESULT_WIDTH,
             rows = map (take RESULT_WIDTH) (take RESULT_HEIGHT (rows M))\<rparr>"
    by (intro matrix_shrink_value) simp_all
qed

theorem shrink_is_submatrix_witness:
  "(0::nat) < 2 \<and> (2::nat) \<le> 3
   \<and> well_formed \<lparr>height = 3, width = 3, rows = [[1, 2, 3], [4, 5, 6], [7, 8, 9::int]]\<rparr>
   \<and> submatrix 2 2 \<lparr>height = 3, width = 3, rows = [[1, 2, 3], [4, 5, 6], [7, 8, 9::int]]\<rparr> 0 0
       = Inr \<lparr>height = 2, width = 2, rows = [[1, 2], [4, 5]]\<rparr>
   \<and> matrix_shrink 2 2 \<lparr>height = 3, width = 3, rows = [[1, 2, 3], [4, 5, 6], [7, 8, 9::int]]\<rparr>
       = Inr \<lparr>height = 2, width = 2, rows = [[1, 2], [4, 5]]\<rparr>"
  using shrink_is_submatrix [of 2 2
      "\<lparr>height = 3, width = 3, rows = [[1, 2, 3], [4, 5, 6], [7, 8, 9::int]]\<rparr>"]
  by (auto simp add: well_formed_def dimension_def take_Suc_Cons numeral_2_eq_2)

text \<open>
  C8, as stated, fails where a result dimension is 0: \<^verbatim>\<open>shrink\<close> has no static
  assertion that the result dimensions are positive, \<^verbatim>\<open>submatrix\<close> has two. On a 1x1
  matrix \<^verbatim>\<open>shrink<0, 1>()\<close> is defined and returns the matrix without rows, and
  \<^verbatim>\<open>submatrix<0, 1>(0, 0)\<close> is rejected.
\<close>

theorem shrink_to_height_zero:
  "matrix_shrink 0 1 \<lparr>height = 1, width = 1, rows = [[5::int]]\<rparr>
     = Inr \<lparr>height = 0, width = 1, rows = []\<rparr>
   \<and> submatrix 0 1 \<lparr>height = 1, width = 1, rows = [[5::int]]\<rparr> 0 0
     = Inl StaticAssertionFailure"
  by (simp add: matrix_shrink_def matrix_shrink_exec_def submatrix_def submatrix_exec_def)

section \<open>Approximate equality\<close>

text \<open>
  What the rounded sum \<open>rhs[i] + delta\<close> and the rounded difference \<open>rhs[i] - delta\<close>
  keep of the exact ones: rounding to nearest is monotone and leaves a value of the
  format where it is, so a \<^verbatim>\<open>double\<close> that is at most the exact sum is at most the
  rounded one, and one that is at least the exact difference is at least the rounded one.
\<close>

lemma pow2_pos [simp]: "0 < pow2 e"
  by (simp add: pow2_def)

lemma pow2_add: "pow2 (a + b) = pow2 a * pow2 b"
  by (simp add: pow2_def power_int_add)

lemma pow2_nat: "0 \<le> e \<Longrightarrow> pow2 e = 2 ^ nat e"
  by (simp add: pow2_def power_int_nonneg_exp)

lemma pow2_mono: "a \<le> b \<Longrightarrow> pow2 a \<le> pow2 b"
  by (simp add: pow2_def power_int_increasing)

lemma pow2_strict_mono: "a < b \<Longrightarrow> pow2 a < pow2 b"
  by (simp add: pow2_def power_int_strict_increasing)

lemma pow2_split: "g \<le> e \<Longrightarrow> pow2 e = 2 ^ nat (e - g) * pow2 g"
  using pow2_add [of "e - g" g] by (simp add: pow2_nat)

lemma aligned_value:
  "real_of_int (m * 2 ^ nat (e - min e e')) * pow2 (min e e') = real_of_int m * pow2 e"
proof -
  have "real_of_int (m * 2 ^ nat (e - min e e')) * pow2 (min e e')
      = real_of_int m * (2 ^ nat (e - min e e') * pow2 (min e e'))"
    by simp
  also have "2 ^ nat (e - min e e') * pow2 (min e e') = pow2 e"
    by (rule pow2_split [symmetric]) simp
  finally show ?thesis .
qed

lemma finite_le_value:
  "finite_le m1 e1 m2 e2 \<longleftrightarrow> real_of_int m1 * pow2 e1 \<le> real_of_int m2 * pow2 e2"
proof -
  let ?E = "min e1 e2"
  let ?a = "m1 * 2 ^ nat (e1 - ?E)" and ?b = "m2 * 2 ^ nat (e2 - ?E)"
  have "real_of_int ?a * pow2 ?E = real_of_int m1 * pow2 e1"
    by (rule aligned_value)
  moreover have "real_of_int ?b * pow2 ?E = real_of_int m2 * pow2 e2"
    using aligned_value [of m2 e2 e1] by (simp add: min.commute)
  moreover have "real_of_int ?a * pow2 ?E \<le> real_of_int ?b * pow2 ?E \<longleftrightarrow> ?a \<le> ?b"
    by (simp only: mult_le_cancel_right_pos pow2_pos of_int_le_iff)
  ultimately show ?thesis
    by (simp only: finite_le_def Let_def)
qed

text \<open>The size of a significand in terms of its bit length.\<close>

lemma bitlen_upper: "0 < m \<Longrightarrow> real_of_int m < pow2 (bitlen m)"
proof -
  assume "0 < m"
  then have "m < 2 ^ nat (bitlen m)"
    using bitlen_bounds by blast
  then have "real_of_int m < 2 ^ nat (bitlen m)"
    by (metis of_int_less_iff of_int_numeral of_int_power)
  then show ?thesis
    by (simp add: pow2_nat bitlen_nonneg)
qed

lemma bitlen_lower: "0 < m \<Longrightarrow> pow2 (bitlen m - 1) \<le> real_of_int m"
proof -
  assume m: "0 < m"
  then have "2 ^ nat (bitlen m - 1) \<le> m"
    using bitlen_bounds by blast
  then have "2 ^ nat (bitlen m - 1) \<le> real_of_int m"
    by (metis of_int_le_iff of_int_numeral of_int_power)
  moreover have "1 \<le> bitlen m"
    using m by (simp add: bitlen_alt_def)
  ultimately show ?thesis
    by (simp add: pow2_nat)
qed

lemma finite_bound:
  assumes "is_finite (Finite m e)"
  shows "\<bar>real_of_int m * pow2 e\<bar> < pow2 1024"
proof (cases "m = 0")
  case True
  then show ?thesis by simp
next
  case False
  then have "0 < \<bar>m\<bar>" by simp
  then have "real_of_int \<bar>m\<bar> < pow2 (bitlen \<bar>m\<bar>)"
    by (rule bitlen_upper)
  then have "real_of_int \<bar>m\<bar> * pow2 e < pow2 (bitlen \<bar>m\<bar>) * pow2 e"
    by simp
  also have "\<dots> = pow2 (bitlen \<bar>m\<bar> + e)"
    by (simp add: pow2_add)
  also have "\<dots> \<le> pow2 1024"
    using assms by (intro pow2_mono) simp
  finally show ?thesis
    by (simp add: abs_mult abs_of_pos)
qed

lemma beyond_range:
  assumes "0 < m" "bitlen m + e > 1024"
  shows "pow2 1024 \<le> real_of_int m * pow2 e"
proof -
  have "pow2 1024 \<le> pow2 (bitlen m - 1 + e)"
    using assms by (intro pow2_mono) simp
  also have "\<dots> = pow2 (bitlen m - 1) * pow2 e"
    by (simp add: pow2_add)
  also have "\<dots> \<le> real_of_int m * pow2 e"
    using bitlen_lower [OF assms(1)] by simp
  finally show ?thesis .
qed

lemma overflow_upper:
  assumes "is_finite x" "double_value x \<le> real_of_int m * pow2 e"
  shows "double_le x (overflow m e)"
proof -
  obtain mx ex where x: "x = Finite mx ex"
    using assms(1) by (cases x) simp_all
  have "\<not> (m < 0 \<and> bitlen (- m) + e > 1024)"
  proof
    assume h: "m < 0 \<and> bitlen (- m) + e > 1024"
    then have "pow2 1024 \<le> real_of_int (- m) * pow2 e"
      by (intro beyond_range) simp_all
    moreover have "\<bar>real_of_int mx * pow2 ex\<bar> < pow2 1024"
      using assms(1) x finite_bound by blast
    ultimately show False
      using assms(2) x by simp
  qed
  then show ?thesis
    using assms(2) by (simp add: overflow_def x finite_le_value)
qed

lemma overflow_lower:
  assumes "is_finite x" "real_of_int m * pow2 e \<le> double_value x"
  shows "double_le (overflow m e) x"
proof -
  obtain mx ex where x: "x = Finite mx ex"
    using assms(1) by (cases x) simp_all
  have "\<not> (m > 0 \<and> bitlen m + e > 1024)"
  proof
    assume h: "m > 0 \<and> bitlen m + e > 1024"
    then have "pow2 1024 \<le> real_of_int m * pow2 e"
      by (intro beyond_range) simp_all
    moreover have "\<bar>real_of_int mx * pow2 ex\<bar> < pow2 1024"
      using assms(1) x finite_bound by blast
    ultimately show False
      using assms(2) x by simp
  qed
  then show ?thesis
    using assms(2) by (simp add: overflow_def x finite_le_value)
qed

text \<open>Doubles of a large enough magnitude are multiples of the spacing.\<close>

lemma multiple_of_spacing:
  assumes "\<bar>mx\<bar> < 2 ^ 53" "- 1074 \<le> ex"
    and "g = - 1074 \<or> pow2 (52 + g) \<le> \<bar>real_of_int mx * pow2 ex\<bar>"
  shows "\<exists>z::int. real_of_int mx * pow2 ex = real_of_int z * pow2 g"
proof (cases "g \<le> ex")
  case True
  then have "real_of_int (mx * 2 ^ nat (ex - g)) * pow2 g = real_of_int mx * pow2 ex"
    using pow2_split [of g ex] by simp
  then show ?thesis
    by metis
next
  case False
  with assms(2,3) have large: "pow2 (52 + g) \<le> \<bar>real_of_int mx * pow2 ex\<bar>"
    by auto
  have "real_of_int \<bar>mx\<bar> < 2 ^ 53"
    using assms(1) by (metis of_int_less_iff of_int_numeral of_int_power)
  then have "real_of_int \<bar>mx\<bar> < pow2 53"
    by (simp add: pow2_def)
  then have "real_of_int \<bar>mx\<bar> * pow2 ex < pow2 53 * pow2 ex"
    by simp
  also have "\<dots> = pow2 (53 + ex)"
    by (simp add: pow2_add)
  also have "\<dots> \<le> pow2 (52 + g)"
    using False by (intro pow2_mono) simp
  finally have "\<bar>real_of_int mx * pow2 ex\<bar> < pow2 (52 + g)"
    by (simp add: abs_mult abs_of_pos)
  with large show ?thesis
    by simp
qed

lemma not_between_multiples:
  assumes "real_of_int q * pow2 g < real_of_int z * pow2 g"
    and "real_of_int z * pow2 g < real_of_int (q + 1) * pow2 g"
  shows False
proof -
  from assms have "real_of_int q < real_of_int z" "real_of_int z < real_of_int (q + 1)"
    by (simp_all only: mult_less_cancel_right_pos pow2_pos)
  then have "q < z" "z < q + 1"
    by (simp_all only: of_int_less_iff)
  then show False
    by simp
qed

text \<open>The two multiples of the spacing around the exact value.\<close>

lemma rounding_interval:
  assumes "0 < k"
  shows "real_of_int M * pow2 E
      = real_of_int (M div 2 ^ nat k) * pow2 (E + k) + real_of_int (M mod 2 ^ nat k) * pow2 E"
    and "real_of_int (M div 2 ^ nat k) * pow2 (E + k) \<le> real_of_int M * pow2 E"
    and "real_of_int M * pow2 E < real_of_int (M div 2 ^ nat k + 1) * pow2 (E + k)"
proof -
  let ?q = "M div 2 ^ nat k" and ?r = "M mod 2 ^ nat k"
  have g: "pow2 (E + k) = 2 ^ nat k * pow2 E"
    using pow2_split [of E "E + k"] assms by simp
  have "M = ?q * 2 ^ nat k + ?r"
    by (rule div_mult_mod_eq [symmetric])
  then have "real_of_int M = real_of_int ?q * 2 ^ nat k + real_of_int ?r"
    by (metis of_int_add of_int_mult of_int_numeral of_int_power)
  then show eq: "real_of_int M * pow2 E
      = real_of_int ?q * pow2 (E + k) + real_of_int ?r * pow2 E"
    by (simp add: g algebra_simps)
  have "0 \<le> ?r" "?r < 2 ^ nat k"
    by simp_all
  then have r: "0 \<le> real_of_int ?r" "real_of_int ?r < 2 ^ nat k"
    by (simp, metis of_int_less_iff of_int_numeral of_int_power)
  have "0 \<le> real_of_int ?r * pow2 E"
    using r(1) by (intro mult_nonneg_nonneg) (simp_all add: less_imp_le)
  moreover have "real_of_int ?r * pow2 E < 2 ^ nat k * pow2 E"
    using r(2) by (simp only: mult_less_cancel_right_pos pow2_pos)
  ultimately show "real_of_int ?q * pow2 (E + k) \<le> real_of_int M * pow2 E"
    and "real_of_int M * pow2 E < real_of_int (?q + 1) * pow2 (E + k)"
    by (simp_all add: eq g algebra_simps)
qed

text \<open>No double lies strictly between the two candidates of a rounding.\<close>

lemma no_double_in_gap:
  assumes fin: "is_finite (Finite mx ex)"
    and k: "k = max (bitlen \<bar>M\<bar> - 53) (- 1074 - E)" "0 < k"
    and r: "M mod 2 ^ nat k \<noteq> 0"
    and lo: "real_of_int (M div 2 ^ nat k) * pow2 (E + k) < real_of_int mx * pow2 ex"
    and hi: "real_of_int mx * pow2 ex < real_of_int (M div 2 ^ nat k + 1) * pow2 (E + k)"
  shows False
proof -
  let ?q = "M div 2 ^ nat k" and ?g = "E + k" and ?x = "real_of_int mx * pow2 ex"
  have p52: "pow2 (52 + ?g) = 2 ^ 52 * pow2 ?g"
    using pow2_add [of 52 ?g] by (simp add: pow2_def)
  have "?g = - 1074 \<or> pow2 (52 + ?g) \<le> \<bar>?x\<bar>"
  proof (cases "k = - 1074 - E")
    case True
    then show ?thesis by simp
  next
    case False
    with k have kb: "k = bitlen \<bar>M\<bar> - 53"
      by simp
    with k(2) have M0: "0 < \<bar>M\<bar>"
      by (cases "M = 0") simp_all
    have "2 ^ nat (bitlen \<bar>M\<bar> - 1) \<le> \<bar>M\<bar>"
      using bitlen_bounds [OF M0] by simp
    moreover have "nat (bitlen \<bar>M\<bar> - 1) = 52 + nat k"
      using kb k(2) by simp
    ultimately have big: "2 ^ 52 * 2 ^ nat k \<le> \<bar>M\<bar>"
      by (simp add: power_add)
    show ?thesis
    proof (cases "0 < M")
      case True
      with big have "2 ^ 52 * 2 ^ nat k \<le> M"
        by simp
      then have "(2 ^ 52 * 2 ^ nat k) div 2 ^ nat k \<le> ?q"
        by (intro zdiv_mono1) simp_all
      then have "2 ^ 52 \<le> ?q"
        by simp
      then have "2 ^ 52 \<le> real_of_int ?q"
        by (metis of_int_le_iff of_int_numeral of_int_power)
      then have "2 ^ 52 * pow2 ?g \<le> real_of_int ?q * pow2 ?g"
        by (simp only: mult_le_cancel_right_pos pow2_pos)
      with lo have "pow2 (52 + ?g) \<le> ?x"
        by (simp only: p52)
      then have "pow2 (52 + ?g) \<le> \<bar>?x\<bar>"
        by linarith
      then show ?thesis
        by blast
    next
      case False
      with M0 big have neg: "M \<le> - (2 ^ 52 * 2 ^ nat k)"
        by simp
      have "?q * 2 ^ nat k + M mod 2 ^ nat k = M"
        by (rule div_mult_mod_eq)
      moreover have "0 < M mod 2 ^ nat k"
        using r by (simp add: less_le)
      ultimately have "?q * 2 ^ nat k < - (2 ^ 52) * 2 ^ nat k"
        using neg by simp
      then have "?q < - (2 ^ 52)"
        by (simp only: mult_less_cancel_right_pos zero_less_power zero_less_numeral)
      then have "?q + 1 \<le> - (2 ^ 52)"
        by simp
      then have "real_of_int (?q + 1) \<le> - (2 ^ 52)"
        by (metis of_int_le_iff of_int_minus of_int_numeral of_int_power)
      then have "real_of_int (?q + 1) * pow2 ?g \<le> - (2 ^ 52) * pow2 ?g"
        by (simp only: mult_le_cancel_right_pos pow2_pos)
      with hi have "?x \<le> - pow2 (52 + ?g)"
        by (simp only: p52 mult_minus_left)
      then have "pow2 (52 + ?g) \<le> \<bar>?x\<bar>"
        by linarith
      then show ?thesis
        by blast
    qed
  qed
  moreover have "\<bar>mx\<bar> < 2 ^ 53" "- 1074 \<le> ex"
    using fin by simp_all
  ultimately obtain z :: int where z: "?x = real_of_int z * pow2 ?g"
    using multiple_of_spacing [of mx ex ?g] by blast
  have "real_of_int ?q * pow2 ?g < real_of_int z * pow2 ?g"
    using lo by (simp only: z)
  moreover have "real_of_int z * pow2 ?g < real_of_int (?q + 1) * pow2 ?g"
    using hi by (simp only: z)
  ultimately show False
    by (rule not_between_multiples)
qed

lemma round_upper:
  assumes "is_finite x" "double_value x \<le> real_of_int M * pow2 E"
  shows "double_le x (round_to_double M E)"
proof -
  obtain mx ex where x: "x = Finite mx ex"
    using assms(1) by (cases x) simp_all
  have fin: "is_finite (Finite mx ex)"
    using assms(1) x by simp
  define k where "k = max (bitlen \<bar>M\<bar> - 53) (- 1074 - E)"
  show ?thesis
  proof (cases "k \<le> 0")
    case True
    then show ?thesis
      using assms by (simp add: round_to_double_def k_def [symmetric] overflow_upper)
  next
    case False
    then have k: "0 < k" by simp
    let ?q = "M div 2 ^ nat k" and ?r = "M mod 2 ^ nat k"
    note iv = rounding_interval [OF k, of M E]
    have up: "double_le x (overflow (?q + 1) (E + k))"
      using assms(1)
    proof (rule overflow_upper)
      show "double_value x \<le> real_of_int (?q + 1) * pow2 (E + k)"
        using assms(2) iv(3) by simp
    qed
    have down: "double_le x (overflow ?q (E + k))"
      using assms(1)
    proof (rule overflow_upper)
      show "double_value x \<le> real_of_int ?q * pow2 (E + k)"
      proof (cases "?r = 0")
        case True
        then show ?thesis
          using assms(2) iv(1) by simp
      next
        case False
        show ?thesis
        proof (rule ccontr)
          assume "\<not> double_value x \<le> real_of_int ?q * pow2 (E + k)"
          then have lo: "real_of_int ?q * pow2 (E + k) < real_of_int mx * pow2 ex"
            by (simp add: x)
          have hi: "real_of_int mx * pow2 ex < real_of_int (?q + 1) * pow2 (E + k)"
            using assms(2) iv(3) by (simp add: x)
          show False
            by (rule no_double_in_gap [OF fin k_def k False lo hi])
        qed
      qed
    qed
    from up down k show ?thesis
      by (simp add: round_to_double_def k_def [symmetric] Let_def)
  qed
qed

lemma round_lower:
  assumes "is_finite x" "real_of_int M * pow2 E \<le> double_value x"
  shows "double_le (round_to_double M E) x"
proof -
  obtain mx ex where x: "x = Finite mx ex"
    using assms(1) by (cases x) simp_all
  have fin: "is_finite (Finite mx ex)"
    using assms(1) x by simp
  define k where "k = max (bitlen \<bar>M\<bar> - 53) (- 1074 - E)"
  show ?thesis
  proof (cases "k \<le> 0")
    case True
    then show ?thesis
      using assms by (simp add: round_to_double_def k_def [symmetric] overflow_lower)
  next
    case False
    then have k: "0 < k" by simp
    let ?q = "M div 2 ^ nat k" and ?r = "M mod 2 ^ nat k"
    note iv = rounding_interval [OF k, of M E]
    have down: "double_le (overflow ?q (E + k)) x"
      using assms(1)
    proof (rule overflow_lower)
      show "real_of_int ?q * pow2 (E + k) \<le> double_value x"
        using assms(2) iv(2) by simp
    qed
    have up: "double_le (overflow (?q + 1) (E + k)) x" if "?r \<noteq> 0"
      using assms(1)
    proof (rule overflow_lower)
      show "real_of_int (?q + 1) * pow2 (E + k) \<le> double_value x"
      proof (rule ccontr)
        assume "\<not> real_of_int (?q + 1) * pow2 (E + k) \<le> double_value x"
        then have hi: "real_of_int mx * pow2 ex < real_of_int (?q + 1) * pow2 (E + k)"
          by (simp add: x)
        have "0 \<le> ?r"
          by (rule pos_mod_sign) simp
        with that have "0 < ?r"
          by linarith
        then have "0 < real_of_int ?r"
          by (simp only: of_int_0_less_iff)
        then have "0 < real_of_int ?r * pow2 E"
          by (intro mult_pos_pos) simp_all
        then have lo: "real_of_int ?q * pow2 (E + k) < real_of_int mx * pow2 ex"
          using assms(2) iv(1) by (simp add: x)
        show False
          by (rule no_double_in_gap [OF fin k_def k that lo hi])
      qed
    qed
    have "0 < (2::int) ^ nat (k - 1)"
      by simp
    then have "?r \<noteq> 0" if "?r > 2 ^ nat (k - 1) \<or> ?r = 2 ^ nat (k - 1) \<and> odd ?q"
      using that by auto
    with up down k show ?thesis
      by (auto simp add: round_to_double_def k_def [symmetric] Let_def)
  qed
qed


text \<open>A sum and a difference of finite values, against an exact bound.\<close>

lemma finite_add_value:
  "real_of_int (m1 * 2 ^ nat (e1 - min e1 e2) + m2 * 2 ^ nat (e2 - min e1 e2)) * pow2 (min e1 e2)
     = real_of_int m1 * pow2 e1 + real_of_int m2 * pow2 e2"
proof -
  have "real_of_int (m1 * 2 ^ nat (e1 - min e1 e2) + m2 * 2 ^ nat (e2 - min e1 e2))
        * pow2 (min e1 e2)
      = real_of_int (m1 * 2 ^ nat (e1 - min e1 e2)) * pow2 (min e1 e2)
        + real_of_int (m2 * 2 ^ nat (e2 - min e2 e1)) * pow2 (min e2 e1)"
    by (simp only: of_int_add distrib_right min.commute)
  then show ?thesis
    by (simp only: aligned_value)
qed

lemma double_add_upper:
  assumes "is_finite x"
    and "double_value x \<le> double_value (Finite m1 e1) + double_value (Finite m2 e2)"
  shows "double_le x (double_add (Finite m1 e1) (Finite m2 e2))"
  using assms
  by (simp only: double_add.simps finite_add_def Let_def double_value.simps
      round_upper finite_add_value)

lemma double_add_lower:
  assumes "is_finite x"
    and "double_value (Finite m1 e1) + double_value (Finite m2 e2) \<le> double_value x"
  shows "double_le (double_add (Finite m1 e1) (Finite m2 e2)) x"
  using assms
  by (simp only: double_add.simps finite_add_def Let_def double_value.simps
      round_lower finite_add_value)

lemma within_margin:
  assumes "is_finite x" "is_finite y" "is_finite d"
    and "\<bar>double_value x - double_value y\<bar> \<le> double_value d"
  shows "double_le x (double_add y d) \<and> double_ge x (double_sub y d)"
proof -
  obtain my ey md ed where y: "y = Finite my ey" and d: "d = Finite md ed"
    using assms(2,3) by (cases y; cases d) simp_all
  have "double_value x \<le> double_value (Finite my ey) + double_value (Finite md ed)"
    using assms(4) by (simp add: y d abs_le_iff)
  with assms(1) have "double_le x (double_add (Finite my ey) (Finite md ed))"
    by (rule double_add_upper)
  moreover have "double_value (Finite my ey) + double_value (Finite (- md) ed) \<le> double_value x"
    using assms(4) by (simp add: y d abs_le_iff)
  with assms(1) have "double_le (double_add (Finite my ey) (Finite (- md) ed)) x"
    by (rule double_add_lower)
  ultimately show ?thesis
    by (simp add: y d double_ge_def double_sub_def)
qed

lemma exact_margin:
  assumes "is_finite x"
    and "is_exactly (double_add y d) (double_value y + double_value d)"
    and "is_exactly (double_sub y d) (double_value y - double_value d)"
  shows "double_le x (double_add y d) \<and> double_ge x (double_sub y d)
     \<longleftrightarrow> \<bar>double_value x - double_value y\<bar> \<le> double_value d"
proof -
  obtain mx ex where x: "x = Finite mx ex"
    using assms(1) by (cases x) simp_all
  obtain ma ea where a: "double_add y d = Finite ma ea"
    and av: "real_of_int ma * pow2 ea = double_value y + double_value d"
    using assms(2) by (cases "double_add y d") simp_all
  obtain ms es where s: "double_sub y d = Finite ms es"
    and sv: "real_of_int ms * pow2 es = double_value y - double_value d"
    using assms(3) by (cases "double_sub y d") simp_all
  show ?thesis
    by (simp add: x a s double_ge_def finite_le_value av sv abs_le_iff) linarith
qed

text \<open>The loops of \<^verbatim>\<open>almost_equal\<close>.\<close>

lemma all_pass_value:
  assumes "\<And>i. i \<in> set ixs \<Longrightarrow> test i = Inr (P i)"
  shows "all_pass test ixs = Inr (\<forall>i \<in> set ixs. P i)"
  using assms by (induction ixs) auto

lemma all_below: "(\<forall>i \<in> set [0 ..< n]. P i) \<longleftrightarrow> (\<forall>i<n. P i)"
  by auto

lemma vector_almost_equal_value:
  assumes "dimension u = dimension v"
  shows "vector_almost_equal to_double u v delta
     = Inr (\<forall>i<dimension u.
              double_le (to_double (u ! i)) (double_add (to_double (v ! i)) delta)
              \<and> double_ge (to_double (u ! i)) (double_sub (to_double (v ! i)) delta))"
proof -
  have "all_pass (\<lambda>i.
       bindE (vector_at u (int i)) (\<lambda>x.
       bindE (vector_at v (int i)) (\<lambda>y.
       Inr ((double_le (to_double x) (double_add (to_double y) delta))
            \<and> (double_ge (to_double x) (double_sub (to_double y) delta))))))
     [0 ..< dimension v]
     = Inr (\<forall>i \<in> set [0 ..< dimension v].
              double_le (to_double (u ! i)) (double_add (to_double (v ! i)) delta)
              \<and> double_ge (to_double (u ! i)) (double_sub (to_double (v ! i)) delta))"
  proof (rule all_pass_value)
    fix i
    assume "i \<in> set [0 ..< dimension v]"
    then have "i < length u" "i < length v"
      using assms by (simp_all add: dimension_def)
    then show "bindE (vector_at u (int i)) (\<lambda>x.
       bindE (vector_at v (int i)) (\<lambda>y.
       Inr ((double_le (to_double x) (double_add (to_double y) delta))
            \<and> (double_ge (to_double x) (double_sub (to_double y) delta)))))
       = Inr (double_le (to_double (u ! i)) (double_add (to_double (v ! i)) delta)
              \<and> double_ge (to_double (u ! i)) (double_sub (to_double (v ! i)) delta))"
      by simp
  qed
  then show ?thesis
    using assms by (simp only: vector_almost_equal_def all_below)
qed

lemma matrix_almost_equal_value:
  assumes "well_formed A" "well_formed B" "height A = height B" "width A = width B"
  shows "matrix_almost_equal to_double A B delta
     = Inr (\<forall>i<height A. \<forall>j<width A.
              double_le (to_double (entry A i j)) (double_add (to_double (entry B i j)) delta)
              \<and> double_ge (to_double (entry A i j)) (double_sub (to_double (entry B i j)) delta))"
proof -
  have "all_pass (\<lambda>i.
       bindE (matrix_row B (int i)) (\<lambda>r.
       vector_almost_equal to_double (rows A ! i) r delta))
     [0 ..< height A]
     = Inr (\<forall>i \<in> set [0 ..< height A]. \<forall>j<width A.
              double_le (to_double (entry A i j)) (double_add (to_double (entry B i j)) delta)
              \<and> double_ge (to_double (entry A i j)) (double_sub (to_double (entry B i j)) delta))"
  proof (rule all_pass_value)
    fix i
    assume "i \<in> set [0 ..< height A]"
    then have i: "i < height A" "i < height B"
      using assms by simp_all
    then have "dimension (rows A ! i) = width A" "dimension (rows B ! i) = width A"
      using assms by (simp_all add: dimension_def well_formed_row)
    then have "vector_almost_equal to_double (rows A ! i) (rows B ! i) delta
       = Inr (\<forall>j<width A.
              double_le (to_double (entry A i j)) (double_add (to_double (entry B i j)) delta)
              \<and> double_ge (to_double (entry A i j)) (double_sub (to_double (entry B i j)) delta))"
      by (simp add: vector_almost_equal_value entry_def)
    then show "bindE (matrix_row B (int i)) (\<lambda>r.
       vector_almost_equal to_double (rows A ! i) r delta)
       = Inr (\<forall>j<width A.
              double_le (to_double (entry A i j)) (double_add (to_double (entry B i j)) delta)
              \<and> double_ge (to_double (entry A i j)) (double_sub (to_double (entry B i j)) delta))"
      using i by simp
  qed
  then show ?thesis
    by (simp only: matrix_almost_equal_def all_below)
qed

text \<open>The values of the unit tests, and two pairs of neighbours in the format.\<close>

lemma double_of_int_examples:
  "double_of_int 1 = Finite 1 0"
  "double_of_int 2 = Finite 2 0"
  "double_of_int 3 = Finite 3 0"
  "double_of_int 5 = Finite 5 0"
  by code_simp+

lemma finite_add_examples:
  "finite_add 1 0 1 0 = Finite 2 0"
  "finite_add 2 0 1 0 = Finite 3 0"
  "finite_add 3 0 1 0 = Finite 4 0"
  "finite_add 5 0 1 0 = Finite 6 0"
  "finite_add 1 0 (- 1) 0 = Finite 0 0"
  "finite_add 2 0 (- 1) 0 = Finite 1 0"
  "finite_add 3 0 (- 1) 0 = Finite 2 0"
  "finite_add 5 0 (- 1) 0 = Finite 4 0"
  "finite_add 4503599627370497 1 1 0 = Finite 4503599627370498 1"
  "finite_add 4503599627370497 1 (- 1) 0 = Finite 4503599627370496 1"
  by code_simp+

lemma finite_le_examples:
  "finite_le 4503599627370498 1 4503599627370498 1"
  "finite_le 4503599627370496 1 4503599627370498 1"
  by code_simp+

lemma is_finite_examples:
  "is_finite (Finite 1 0)"
  "is_finite (Finite 2 0)"
  "is_finite (Finite 3 0)"
  "is_finite (Finite 4 0)"
  "is_finite (Finite 5 0)"
  "is_finite (Finite 6 0)"
  "is_finite (Finite 4503644663366770 (- 52))"
  "is_finite (Finite 6755512031046428 (- 50))"
  "is_finite (Finite 4503599627370497 1)"
  "is_finite (Finite 4503599627370498 1)"
  "is_finite (Finite 5120000000000000 (- 9))"
  "is_finite (Finite 5120000000000001 (- 9))"
  "is_finite DEFAULT_DELTA"
  by code_simp+

lemma pow2_examples:
  "pow2 0 = 1"
  "pow2 1 = 2"
  "pow2 (- 9) = 1 / 2 ^ 9"
  "pow2 (- 50) = 1 / 2 ^ 50"
  "pow2 (- 52) = 1 / 2 ^ 52"
  "pow2 (- 62) = 1 / 2 ^ 62"
  unfolding pow2_def by (simp_all only: power_int_0_right power_int_1_right power_int_minus power_int_numeral inverse_eq_divide)

lemma close_examples:
  "double_le (Finite 1 0) (double_add (Finite 1 0) DEFAULT_DELTA)"
  "double_ge (Finite 1 0) (double_sub (Finite 1 0) DEFAULT_DELTA)"
  "double_le (Finite 1 0) (double_add (Finite 4503644663366770 (- 52)) DEFAULT_DELTA)"
  "double_ge (Finite 1 0) (double_sub (Finite 4503644663366770 (- 52)) DEFAULT_DELTA)"
  "double_le (Finite 2 0) (double_add (Finite 2 0) DEFAULT_DELTA)"
  "double_ge (Finite 2 0) (double_sub (Finite 2 0) DEFAULT_DELTA)"
  "double_le (Finite 3 0) (double_add (Finite 3 0) DEFAULT_DELTA)"
  "double_ge (Finite 3 0) (double_sub (Finite 3 0) DEFAULT_DELTA)"
  "double_le (Finite 4 0) (double_add (Finite 4 0) DEFAULT_DELTA)"
  "double_ge (Finite 4 0) (double_sub (Finite 4 0) DEFAULT_DELTA)"
  "double_le (Finite 5 0) (double_add (Finite 5 0) DEFAULT_DELTA)"
  "double_ge (Finite 5 0) (double_sub (Finite 5 0) DEFAULT_DELTA)"
  "double_le (Finite 6 0) (double_add (Finite 6 0) DEFAULT_DELTA)"
  "double_ge (Finite 6 0) (double_sub (Finite 6 0) DEFAULT_DELTA)"
  "double_le (Finite 6 0) (double_add (Finite 6755512031046428 (- 50)) DEFAULT_DELTA)"
  "double_ge (Finite 6 0) (double_sub (Finite 6755512031046428 (- 50)) DEFAULT_DELTA)"
  by code_simp+

lemma rounded_examples:
  "double_le (Finite 5120000000000001 (- 9))
     (double_add (Finite 5120000000000000 (- 9)) DEFAULT_DELTA)"
  "double_ge (Finite 5120000000000001 (- 9))
     (double_sub (Finite 5120000000000000 (- 9)) DEFAULT_DELTA)"
  by code_simp+

lemma double_sub_examples:
  "double_sub (Finite 1 0) (Finite 1 0) = Finite 0 0"
  "double_sub (Finite 2 0) (Finite 1 0) = Finite 1 0"
  "double_sub (Finite 3 0) (Finite 1 0) = Finite 2 0"
  "double_sub (Finite 5 0) (Finite 1 0) = Finite 4 0"
  "double_sub (Finite 4503599627370497 1) (Finite 1 0) = Finite 4503599627370496 1"
  by code_simp+

lemma compare_examples:
  "finite_le 3 0 4 0"
  "finite_le 3 0 3 0"
  "\<not> finite_le 3 0 2 0"
  "finite_le 3 0 6 0"
  "double_ge (Finite 3 0) (Finite 0 0)"
  "double_ge (Finite 3 0) (Finite 1 0)"
  "double_ge (Finite 3 0) (Finite 2 0)"
  "\<not> double_ge (Finite 3 0) (Finite 4 0)"
  by code_simp+

lemma double_value_examples:
  "double_value (Finite 0 0) = 0"
  "double_value (Finite 1 0) = 1"
  "double_value (Finite 2 0) = 2"
  "double_value (Finite 3 0) = 3"
  "double_value (Finite 4 0) = 4"
  "double_value (Finite 5 0) = 5"
  "double_value (Finite 6 0) = 6"
  "double_value (Finite 4503644663366770 (- 52)) = 4503644663366770 / 2 ^ 52"
  "double_value (Finite 6755512031046428 (- 50)) = 6755512031046428 / 2 ^ 50"
  "double_value (Finite 4503599627370497 1) = 9007199254740994"
  "double_value (Finite 4503599627370498 1) = 9007199254740996"
  "double_value (Finite 5120000000000000 (- 9)) = 5120000000000000 / 2 ^ 9"
  "double_value (Finite 5120000000000001 (- 9)) = 5120000000000001 / 2 ^ 9"
  "double_value DEFAULT_DELTA = 4611686018427388 / 2 ^ 62"
  by (simp_all add: DEFAULT_DELTA_def pow2_examples)

text \<open>
  C4. \<^verbatim>\<open>u.almost_equal(v, delta)\<close> on vectors of the same dimension is true exactly when,
  for every index \<open>i\<close>, \<open>u[i] \<le> v[i] + delta\<close> and \<open>u[i] \<ge> v[i] - delta\<close> with the sum and
  the difference computed in \<^verbatim>\<open>double\<close>, that is, rounded to nearest. On finite values
  it is true whenever \<open>|u[i] - v[i]| \<le> delta\<close> for every \<open>i\<close>, an absolute margin: so it
  is true of a vector and itself, and true when one element is replaced by a value at
  most \<open>delta\<close> away. Where every \<open>v[i] + delta\<close> and \<open>v[i] - delta\<close> is computed without
  rounding, it is true exactly when \<open>|u[i] - v[i]| \<le> delta\<close> for every \<open>i\<close>, and then it is
  false when one element is replaced by a value more than \<open>delta\<close> away. On matrices of
  the same height and width the test is the same over all entries.
\<close>

theorem almost_equal_in_double:
  "(dimension u = dimension v \<longrightarrow>
      vector_almost_equal to_double u v delta
        = Inr (\<forall>i<dimension u.
                 double_le (to_double (u ! i)) (double_add (to_double (v ! i)) delta)
                 \<and> double_ge (to_double (u ! i)) (double_sub (to_double (v ! i)) delta)))
   \<and> (dimension u = dimension v \<and> is_finite delta
        \<and> (\<forall>i<dimension u. is_finite (to_double (u ! i)) \<and> is_finite (to_double (v ! i))
              \<and> \<bar>double_value (to_double (u ! i)) - double_value (to_double (v ! i))\<bar>
                  \<le> double_value delta) \<longrightarrow>
        vector_almost_equal to_double u v delta = Inr True)
   \<and> (dimension u = dimension v
        \<and> (\<forall>i<dimension u. is_finite (to_double (u ! i))
              \<and> is_exactly (double_add (to_double (v ! i)) delta)
                   (double_value (to_double (v ! i)) + double_value delta)
              \<and> is_exactly (double_sub (to_double (v ! i)) delta)
                   (double_value (to_double (v ! i)) - double_value delta)) \<longrightarrow>
        vector_almost_equal to_double u v delta
          = Inr (\<forall>i<dimension u.
                   \<bar>double_value (to_double (u ! i)) - double_value (to_double (v ! i))\<bar>
                     \<le> double_value delta))
   \<and> (is_finite delta \<and> 0 < double_value delta
        \<and> (\<forall>i<dimension u. is_finite (to_double (u ! i))) \<longrightarrow>
        vector_almost_equal to_double u u delta = Inr True)
   \<and> (is_finite delta \<and> 0 < double_value delta
        \<and> (\<forall>i<dimension u. is_finite (to_double (u ! i)))
        \<and> k < dimension u \<and> is_finite (to_double x)
        \<and> \<bar>double_value (to_double x) - double_value (to_double (u ! k))\<bar>
            \<le> double_value delta \<longrightarrow>
        vector_almost_equal to_double u (u[k := x]) delta = Inr True)
   \<and> (k < dimension u \<and> is_finite (to_double (u ! k))
        \<and> is_exactly (double_add (to_double x) delta)
             (double_value (to_double x) + double_value delta)
        \<and> is_exactly (double_sub (to_double x) delta)
             (double_value (to_double x) - double_value delta)
        \<and> \<bar>double_value (to_double x) - double_value (to_double (u ! k))\<bar>
            > double_value delta \<longrightarrow>
        vector_almost_equal to_double u (u[k := x]) delta = Inr False)
   \<and> (well_formed A \<and> well_formed B \<and> height A = height B \<and> width A = width B \<longrightarrow>
        matrix_almost_equal to_double A B delta
          = Inr (\<forall>i<height A. \<forall>j<width A.
                   double_le (to_double (entry A i j))
                     (double_add (to_double (entry B i j)) delta)
                   \<and> double_ge (to_double (entry A i j))
                       (double_sub (to_double (entry B i j)) delta)))"
proof (intro conjI impI)
  assume "dimension u = dimension v"
  then show "vector_almost_equal to_double u v delta
        = Inr (\<forall>i<dimension u.
                 double_le (to_double (u ! i)) (double_add (to_double (v ! i)) delta)
                 \<and> double_ge (to_double (u ! i)) (double_sub (to_double (v ! i)) delta))"
    by (rule vector_almost_equal_value)
next
  assume h: "dimension u = dimension v \<and> is_finite delta
        \<and> (\<forall>i<dimension u. is_finite (to_double (u ! i)) \<and> is_finite (to_double (v ! i))
              \<and> \<bar>double_value (to_double (u ! i)) - double_value (to_double (v ! i))\<bar>
                  \<le> double_value delta)"
  then have "double_le (to_double (u ! i)) (double_add (to_double (v ! i)) delta)
      \<and> double_ge (to_double (u ! i)) (double_sub (to_double (v ! i)) delta)"
    if "i < dimension u" for i
    using that by (intro within_margin) simp_all
  with h show "vector_almost_equal to_double u v delta = Inr True"
    by (simp add: vector_almost_equal_value)
next
  assume h: "dimension u = dimension v
        \<and> (\<forall>i<dimension u. is_finite (to_double (u ! i))
              \<and> is_exactly (double_add (to_double (v ! i)) delta)
                   (double_value (to_double (v ! i)) + double_value delta)
              \<and> is_exactly (double_sub (to_double (v ! i)) delta)
                   (double_value (to_double (v ! i)) - double_value delta))"
  then have "double_le (to_double (u ! i)) (double_add (to_double (v ! i)) delta)
      \<and> double_ge (to_double (u ! i)) (double_sub (to_double (v ! i)) delta)
      \<longleftrightarrow> \<bar>double_value (to_double (u ! i)) - double_value (to_double (v ! i))\<bar>
            \<le> double_value delta"
    if "i < dimension u" for i
    using that by (intro exact_margin) simp_all
  with h show "vector_almost_equal to_double u v delta
          = Inr (\<forall>i<dimension u.
                   \<bar>double_value (to_double (u ! i)) - double_value (to_double (v ! i))\<bar>
                     \<le> double_value delta)"
    by (simp add: vector_almost_equal_value)
next
  assume h: "is_finite delta \<and> 0 < double_value delta
        \<and> (\<forall>i<dimension u. is_finite (to_double (u ! i)))"
  then have "double_le (to_double (u ! i)) (double_add (to_double (u ! i)) delta)
      \<and> double_ge (to_double (u ! i)) (double_sub (to_double (u ! i)) delta)"
    if "i < dimension u" for i
    using that by (intro within_margin) simp_all
  then show "vector_almost_equal to_double u u delta = Inr True"
    by (simp add: vector_almost_equal_value)
next
  assume h: "is_finite delta \<and> 0 < double_value delta
        \<and> (\<forall>i<dimension u. is_finite (to_double (u ! i)))
        \<and> k < dimension u \<and> is_finite (to_double x)
        \<and> \<bar>double_value (to_double x) - double_value (to_double (u ! k))\<bar>
            \<le> double_value delta"
  have "double_le (to_double (u ! i)) (double_add (to_double (u[k := x] ! i)) delta)
      \<and> double_ge (to_double (u ! i)) (double_sub (to_double (u[k := x] ! i)) delta)"
    if "i < dimension u" for i
  proof (rule within_margin)
    show "is_finite (to_double (u ! i))" "is_finite delta"
      using h that by simp_all
    show "is_finite (to_double (u[k := x] ! i))"
      using h that by (cases "i = k") (simp_all add: dimension_def)
    show "\<bar>double_value (to_double (u ! i)) - double_value (to_double (u[k := x] ! i))\<bar>
        \<le> double_value delta"
      using h that by (cases "i = k") (simp_all add: dimension_def abs_minus_commute)
  qed
  then show "vector_almost_equal to_double u (u[k := x]) delta = Inr True"
    by (simp add: vector_almost_equal_value dimension_def)
next
  assume h: "k < dimension u \<and> is_finite (to_double (u ! k))
        \<and> is_exactly (double_add (to_double x) delta)
             (double_value (to_double x) + double_value delta)
        \<and> is_exactly (double_sub (to_double x) delta)
             (double_value (to_double x) - double_value delta)
        \<and> \<bar>double_value (to_double x) - double_value (to_double (u ! k))\<bar>
            > double_value delta"
  then have "double_le (to_double (u ! k)) (double_add (to_double x) delta)
      \<and> double_ge (to_double (u ! k)) (double_sub (to_double x) delta)
      \<longleftrightarrow> \<bar>double_value (to_double (u ! k)) - double_value (to_double x)\<bar>
            \<le> double_value delta"
    by (intro exact_margin) simp_all
  with h have "\<not> (double_le (to_double (u ! k)) (double_add (to_double (u[k := x] ! k)) delta)
      \<and> double_ge (to_double (u ! k)) (double_sub (to_double (u[k := x] ! k)) delta))"
    by (simp add: dimension_def abs_minus_commute)
  with h have "\<not> (\<forall>i<dimension u.
      double_le (to_double (u ! i)) (double_add (to_double (u[k := x] ! i)) delta)
      \<and> double_ge (to_double (u ! i)) (double_sub (to_double (u[k := x] ! i)) delta))"
    by blast
  then show "vector_almost_equal to_double u (u[k := x]) delta = Inr False"
    by (simp add: vector_almost_equal_value dimension_def)
next
  assume "well_formed A \<and> well_formed B \<and> height A = height B \<and> width A = width B"
  then show "matrix_almost_equal to_double A B delta
          = Inr (\<forall>i<height A. \<forall>j<width A.
                   double_le (to_double (entry A i j))
                     (double_add (to_double (entry B i j)) delta)
                   \<and> double_ge (to_double (entry A i j))
                       (double_sub (to_double (entry B i j)) delta))"
    by (simp add: matrix_almost_equal_value)
qed

theorem almost_equal_in_double_witness:
  "dimension [Finite 1 0, Finite 1 0, Finite 1 0]
     = dimension [Finite 1 0, Finite 1 0, Finite 4503644663366770 (- 52)]
   \<and> is_finite DEFAULT_DELTA \<and> 0 < double_value DEFAULT_DELTA
   \<and> is_finite (Finite 1 0) \<and> is_finite (Finite 4503644663366770 (- 52))
   \<and> \<bar>double_value (Finite 4503644663366770 (- 52)) - double_value (Finite 1 0)\<bar>
        \<le> double_value DEFAULT_DELTA
   \<and> vector_almost_equal (\<lambda>x. x) [Finite 1 0, Finite 1 0, Finite 1 0]
        [Finite 1 0, Finite 1 0, Finite 4503644663366770 (- 52)] DEFAULT_DELTA = Inr True
   \<and> vector_almost_equal (\<lambda>x. x) [Finite 1 0, Finite 1 0, Finite 1 0]
        [Finite 1 0, Finite 1 0, Finite 1 0] DEFAULT_DELTA = Inr True
   \<and> dimension [3, 3, 3::int] = dimension [1, 2, 3::int]
   \<and> is_finite (double_of_int 3)
   \<and> is_exactly (double_add (double_of_int 1) (Finite 1 0))
        (double_value (double_of_int 1) + double_value (Finite 1 0))
   \<and> is_exactly (double_sub (double_of_int 1) (Finite 1 0))
        (double_value (double_of_int 1) - double_value (Finite 1 0))
   \<and> is_exactly (double_add (double_of_int 5) (Finite 1 0))
        (double_value (double_of_int 5) + double_value (Finite 1 0))
   \<and> is_exactly (double_sub (double_of_int 5) (Finite 1 0))
        (double_value (double_of_int 5) - double_value (Finite 1 0))
   \<and> \<bar>double_value (double_of_int 5) - double_value (double_of_int 3)\<bar>
        > double_value (Finite 1 0)
   \<and> vector_almost_equal double_of_int [3, 3, 3] [1, 2, 3] (Finite 1 0) = Inr False
   \<and> vector_almost_equal double_of_int [3, 3, 3] [3, 3, 5] (Finite 1 0) = Inr False
   \<and> well_formed \<lparr>height = 2, width = 3,
        rows = [[Finite 1 0, Finite 2 0, Finite 3 0], [Finite 4 0, Finite 5 0, Finite 6 0]]\<rparr>
   \<and> well_formed \<lparr>height = 2, width = 3,
        rows = [[Finite 1 0, Finite 2 0, Finite 3 0],
                [Finite 4 0, Finite 5 0, Finite 6755512031046428 (- 50)]]\<rparr>
   \<and> matrix_almost_equal (\<lambda>x. x)
        \<lparr>height = 2, width = 3,
         rows = [[Finite 1 0, Finite 2 0, Finite 3 0], [Finite 4 0, Finite 5 0, Finite 6 0]]\<rparr>
        \<lparr>height = 2, width = 3,
         rows = [[Finite 1 0, Finite 2 0, Finite 3 0],
                 [Finite 4 0, Finite 5 0, Finite 6755512031046428 (- 50)]]\<rparr>
        DEFAULT_DELTA = Inr True"
  using almost_equal_in_double [where u = "[Finite 1 0, Finite 1 0, Finite 1 0]"
      and v = "[Finite 1 0, Finite 1 0, Finite 4503644663366770 (- 52)]"
      and to_double = "\<lambda>x. x" and delta = DEFAULT_DELTA and k = 2
      and x = "Finite 4503644663366770 (- 52)"
      and A = "\<lparr>height = 2, width = 3,
         rows = [[Finite 1 0, Finite 2 0, Finite 3 0], [Finite 4 0, Finite 5 0, Finite 6 0]]\<rparr>"
      and B = "\<lparr>height = 2, width = 3,
         rows = [[Finite 1 0, Finite 2 0, Finite 3 0],
                 [Finite 4 0, Finite 5 0, Finite 6755512031046428 (- 50)]]\<rparr>"]
    almost_equal_in_double [where u = "[3, 3, 3::int]" and v = "[1, 2, 3]"
      and to_double = double_of_int and delta = "Finite 1 0" and k = 2 and x = 5
      and A = "\<lparr>height = 0, width = 0, rows = []\<rparr>"
      and B = "\<lparr>height = 0, width = 0, rows = []\<rparr>"]
  by (simp add: dimension_def well_formed_def entry_def All_less_Suc numeral_2_eq_2
      numeral_3_eq_3 double_of_int_examples finite_add_examples double_sub_examples
      is_finite_examples double_value_examples compare_examples close_examples
      pow2_examples del: is_finite.simps double_value.simps)

text \<open>
  Where the sum is rounded, a value more than \<open>delta\<close> away is accepted: with
  \<open>delta = 1\<close>, \<open>2\<^sup>5\<^sup>3 + 4\<close> against \<open>2\<^sup>5\<^sup>3 + 2\<close>, since \<open>2\<^sup>5\<^sup>3 + 3\<close> is rounded to \<open>2\<^sup>5\<^sup>3 + 4\<close>
  and \<open>2\<^sup>5\<^sup>3 + 1\<close> to \<open>2\<^sup>5\<^sup>3\<close>; and with the default \<open>delta = .001\<close>,
  \<open>10\<^sup>1\<^sup>3 + 2\<^sup>-\<^sup>9\<close> against \<open>10\<^sup>1\<^sup>3\<close>, since \<open>10\<^sup>1\<^sup>3 + .001\<close> is rounded to \<open>10\<^sup>1\<^sup>3 + 2\<^sup>-\<^sup>9\<close>.
\<close>

theorem almost_equal_accepts_rounded_margin:
  "is_finite (Finite 4503599627370498 1) \<and> is_finite (Finite 4503599627370497 1)
   \<and> is_finite (Finite 1 0)
   \<and> \<bar>double_value (Finite 4503599627370498 1) - double_value (Finite 4503599627370497 1)\<bar>
        > double_value (Finite 1 0)
   \<and> vector_almost_equal (\<lambda>x. x) [Finite 4503599627370498 1]
        ([Finite 4503599627370498 1] [0 := Finite 4503599627370497 1]) (Finite 1 0) = Inr True
   \<and> is_finite (Finite 5120000000000001 (- 9)) \<and> is_finite (Finite 5120000000000000 (- 9))
   \<and> is_finite DEFAULT_DELTA
   \<and> \<bar>double_value (Finite 5120000000000001 (- 9))
         - double_value (Finite 5120000000000000 (- 9))\<bar> > double_value DEFAULT_DELTA
   \<and> vector_almost_equal (\<lambda>x. x) [Finite 5120000000000001 (- 9)]
        ([Finite 5120000000000001 (- 9)] [0 := Finite 5120000000000000 (- 9)]) DEFAULT_DELTA
        = Inr True"
  using vector_almost_equal_value [of "[Finite 4503599627370498 1]"
      "[Finite 4503599627370497 1]" "\<lambda>x. x" "Finite 1 0"]
    vector_almost_equal_value [of "[Finite 5120000000000001 (- 9)]"
      "[Finite 5120000000000000 (- 9)]" "\<lambda>x. x" DEFAULT_DELTA]
  by (simp add: dimension_def double_ge_def finite_add_examples double_sub_examples
      finite_le_examples is_finite_examples double_value_examples
      rounded_examples [unfolded double_ge_def]
      del: is_finite.simps double_value.simps)

section \<open>Which calls write their operands\<close>

lemma keepsI:
  assumes "\<And>f g. body f = Inr g \<Longrightarrow> self g = self f \<and> args g = args f"
  shows "keeps body"
  using assms by (simp add: keeps_def)

lemma keeps_for_loop:
  assumes "\<And>i. i < n \<Longrightarrow> keeps (body i)"
  shows "keeps (for_loop n body)"
proof (rule keepsI)
  fix f g
  assume "for_loop n body f = Inr g"
  then show "self g = self f \<and> args g = args f"
  proof (rule for_loop_preserves)
    show "self f = self f \<and> args f = args f"
      by simp
  next
    fix i s s'
    assume "i < n" "self s = self f \<and> args s = args f" "body i s = Inr s'"
    then show "self s' = self f \<and> args s' = args f"
      using assms [of i] by (simp add: keeps_def)
  qed
qed

lemma keeps_for_loop2:
  assumes "\<And>i j. i < h \<Longrightarrow> j < w \<Longrightarrow> keeps (body i j)"
  shows "keeps (for_loop2 h w body)"
  unfolding for_loop2_def by (intro keeps_for_loop assms)

lemma keeps_bindE:
  assumes "keeps b1" "keeps b2"
  shows "keeps (\<lambda>f. bindE (b1 f) b2)"
  using assms by (auto simp add: keeps_def bindE_eq_Inr)

lemma keeps_leaves:
  assumes "keeps body"
  shows "leaves_operands this a (body \<lparr>self = this, args = a, locals = l\<rparr>)"
  using assms by (auto simp add: keeps_def leaves_operands_def split: sum.splits)

lemma leaves_bindE:
  assumes "\<And>x. leaves_operands this a (k x)"
  shows "leaves_operands this a (bindE m k)"
  using assms by (cases m) (simp_all add: leaves_operands_def)

lemma leaves_bindE_keeps:
  assumes "leaves_operands this a r" "keeps body"
  shows "leaves_operands this a (bindE r body)"
  using assms by (cases r) (auto simp add: leaves_operands_def keeps_def split: sum.splits)

text \<open>The steps of the vector operations.\<close>

lemma keeps_vector_steps:
  "keeps (vector_op_plus_step i)"
  "keeps (vector_op_minus_step i)"
  "keeps (vector_op_negate_step i)"
  "keeps (vector_op_times_scalar_step i)"
  "keeps (vector_op_divide_step quot i)"
  "keeps (dot_step i)"
  "keeps (magnitude_squared_step i)"
  "keeps (normalize_sum_step i)"
  "keeps (normalize_scale_step quot i)"
  "keeps (subvector_step i)"
  "keeps (vector_shrink_step i)"
  "keeps (vector_grow_step i)"
  by (auto simp add: keeps_def bindE_eq_Inr vector_op_plus_step_def vector_op_minus_step_def
      vector_op_negate_step_def vector_op_times_scalar_step_def vector_op_divide_step_def
      dot_step_def magnitude_squared_step_def normalize_sum_step_def normalize_scale_step_def
      subvector_step_def vector_shrink_step_def vector_grow_step_def)

lemma keeps_matrix_steps:
  "keeps (matrix_op_plus_step i j)"
  "keeps (matrix_op_minus_step i j)"
  "keeps (matrix_op_negate_step i j)"
  "keeps (matrix_op_divide_step quot i j)"
  "keeps (matrix_op_times_scalar_step i j)"
  "keeps (matrix_op_times_matrix_inner i j k)"
  "keeps (submatrix_step i j)"
  "keeps (matrix_shrink_step i j)"
  "keeps (matrix_grow_step i j)"
  "keeps (column_matrix_step i j)"
  "keeps (column_vector_step i j)"
  "keeps (row_matrix_step i j)"
  "keeps (row_vector_step i j)"
  "keeps (transpose_step i j)"
  by (auto simp add: keeps_def bindE_eq_Inr matrix_op_plus_step_def matrix_op_minus_step_def
      matrix_op_negate_step_def matrix_op_divide_step_def matrix_op_times_scalar_step_def
      matrix_op_times_matrix_inner_def submatrix_step_def matrix_shrink_step_def
      matrix_grow_step_def column_matrix_step_def column_vector_step_def row_matrix_step_def
      row_vector_step_def transpose_step_def split: prod.splits if_splits)

lemma keeps_set_locals: "keeps (\<lambda>f. Inr (f\<lparr>locals := upd f\<rparr>))"
  by (simp add: keeps_def)

lemma keeps_after_locals:
  assumes "keeps body"
  shows "keeps (\<lambda>f. body (f\<lparr>locals := upd f\<rparr>))"
  using assms by (fastforce simp add: keeps_def)

lemma keeps_matrix_op_times_matrix_step: "keeps (matrix_op_times_matrix_step i j)"
proof -
  have "keeps (for_loop n (matrix_op_times_matrix_inner i j))" for n
    by (intro keeps_for_loop keeps_matrix_steps)
  then show ?thesis
    by (fastforce simp add: keeps_def matrix_op_times_matrix_step_def bindE_eq_Inr)
qed

lemma keeps_determinant_parts:
  "keeps determinant_2x2"
  "keeps (determinant_add p q r)"
  "keeps (determinant_sub p q r)"
  by (auto simp add: keeps_def bindE_eq_Inr determinant_2x2_def determinant_add_def
      determinant_sub_def)

lemma keeps_determinant_3x3: "keeps determinant_3x3"
  unfolding determinant_3x3_def by (intro keeps_bindE keeps_determinant_parts)

lemma keeps_solve_parts:
  "keeps (solve_put i j k)"
  "keeps (solve_component quot i)"
  "keeps solve_reset"
  by (auto simp add: keeps_def bindE_eq_Inr solve_put_def solve_component_def solve_reset_def)

lemma keeps_solve_3x3_step: "keeps (solve_3x3_step quot i)"
  unfolding solve_3x3_step_def
  by (intro keeps_bindE keeps_for_loop keeps_solve_parts)

lemma leaves_solve_start: "leaves_operands this b (solve_start this b)"
  by (auto simp add: leaves_operands_def solve_start_def bindE_eq_Inr split: sum.splits)

text \<open>The operations of \<^verbatim>\<open>gfx::vector\<close>.\<close>

lemma leaves_vector_operations:
  "leaves_operands this rhs (vector_op_plus_exec this rhs)"
  "leaves_operands this rhs (vector_op_minus_exec this rhs)"
  "leaves_operands this () (vector_op_negate_exec this)"
  "leaves_operands this c (vector_op_times_scalar_exec this c)"
  "leaves_operands this c (vector_op_divide_exec quot this c)"
  "leaves_operands this rhs (vector_op_times_vector_exec this rhs)"
  "leaves_operands this () (magnitude_squared_exec this)"
  unfolding vector_op_plus_exec_def vector_op_minus_exec_def vector_op_negate_exec_def
    vector_op_times_scalar_exec_def vector_op_divide_exec_def vector_op_times_vector_exec_def
    magnitude_squared_exec_def
  by (intro keeps_leaves keeps_for_loop keeps_vector_steps)+

lemma leaves_magnitude: "leaves_operands this () (magnitude_exec sq_root this)"
  unfolding magnitude_exec_def
  by (intro leaves_bindE_keeps keeps_leaves keeps_for_loop keeps_vector_steps keeps_set_locals)

lemma leaves_normalize: "leaves_operands this () (normalize_exec quot sq_root this)"
  unfolding normalize_exec_def
  by (intro leaves_bindE_keeps keeps_leaves keeps_for_loop keeps_vector_steps keeps_after_locals)

lemma leaves_cross: "leaves_operands this rhs (cross_exec this rhs)"
proof -
  have "self f = this \<and> args f = rhs" if "cross_exec this rhs = Inr f" for f
    using that by (auto simp add: cross_exec_def Let_def bindE_eq_Inr)
  then show ?thesis
    by (cases "cross_exec this rhs") (simp_all add: leaves_operands_def)
qed

lemma leaves_vector_resizing:
  "leaves_operands this start_index (subvector_exec RESULT_DIMENSION this start_index)"
  "leaves_operands this () (vector_shrink_exec RESULT_DIMENSION this)"
  "leaves_operands this default_value (vector_grow_exec RESULT_DIMENSION this default_value)"
  unfolding subvector_exec_def vector_shrink_exec_def vector_grow_exec_def
  by (intro leaves_bindE keeps_leaves keeps_for_loop keeps_vector_steps)+

text \<open>The operations of \<^verbatim>\<open>gfx::matrix\<close>.\<close>

lemma leaves_matrix_arithmetic:
  "leaves_operands this rhs (matrix_op_plus_exec this rhs)"
  "leaves_operands this rhs (matrix_op_minus_exec this rhs)"
  "leaves_operands this () (matrix_op_negate_exec this)"
  "leaves_operands this c (matrix_op_divide_exec quot this c)"
  "leaves_operands this c (matrix_op_times_scalar_exec this c)"
  "leaves_operands this rhs (matrix_op_times_matrix_exec this rhs)"
  unfolding matrix_op_plus_exec_def matrix_op_minus_exec_def matrix_op_negate_exec_def
    matrix_op_divide_exec_def matrix_op_times_scalar_exec_def matrix_op_times_matrix_exec_def
  by (intro leaves_bindE keeps_leaves keeps_for_loop2 keeps_matrix_steps
      keeps_matrix_op_times_matrix_step)+

lemma leaves_matrix_resizing:
  "leaves_operands this (top_row, left_column)
     (submatrix_exec RESULT_HEIGHT RESULT_WIDTH this top_row left_column)"
  "leaves_operands this () (matrix_shrink_exec RESULT_HEIGHT RESULT_WIDTH this)"
  "leaves_operands this default_value
     (matrix_grow_exec RESULT_HEIGHT RESULT_WIDTH this default_value)"
  "leaves_operands this () (transpose_exec this)"
  unfolding submatrix_exec_def matrix_shrink_exec_def matrix_grow_exec_def transpose_exec_def
  by (intro leaves_bindE keeps_leaves keeps_for_loop2 keeps_matrix_steps)+

lemma leaves_matrix_extraction:
  "leaves_operands this column (column_matrix_exec this column)"
  "leaves_operands this column (column_vector_exec this column)"
  "leaves_operands this row (row_matrix_exec this row)"
  "leaves_operands this row (row_vector_exec this row)"
  unfolding column_matrix_exec_def column_vector_exec_def row_matrix_exec_def row_vector_exec_def
  by (intro leaves_bindE keeps_leaves keeps_for_loop2 keeps_matrix_steps)+

lemma leaves_determinant: "leaves_operands this () (determinant_exec this)"
proof -
  have "leaves_operands this ()
      (if width this = 2 then determinant_2x2 \<lparr>self = this, args = (), locals = 0\<rparr>
       else Inr \<lparr>self = this, args = (), locals = 0\<rparr>)"
    using keeps_leaves [OF keeps_determinant_parts(1), of this "()" 0]
    by (simp add: leaves_operands_def)
  moreover have "keeps (\<lambda>f. if width this = 3 then determinant_3x3 f else Inr f)"
    using keeps_determinant_3x3 by (auto simp add: keeps_def)
  ultimately show ?thesis
    unfolding determinant_exec_def by (intro leaves_bindE leaves_bindE_keeps)
qed

lemma leaves_solve: "leaves_operands this b (solve_exec quot this b)"
proof -
  have "leaves_operands this b (solve_2x2 quot this b)"
    unfolding solve_2x2_def
    by (intro leaves_bindE_keeps leaves_solve_start keeps_bindE keeps_solve_parts)
  moreover have "leaves_operands this b (solve_3x3 quot this b)"
    unfolding solve_3x3_def
    by (intro leaves_bindE_keeps leaves_solve_start keeps_for_loop keeps_solve_3x3_step)
  moreover have "leaves_operands this b (Inl StaticAssertionFailure)"
    by (simp add: leaves_operands_def)
  ultimately show ?thesis
    unfolding solve_exec_def by (intro leaves_bindE) auto
qed

text \<open>
  C9. Every operation that returns a new vector, matrix or scalar (addition,
  subtraction, negation, multiplication and division by a scalar, dot product,
  \<^verbatim>\<open>magnitude_squared\<close>, \<^verbatim>\<open>magnitude\<close>, \<^verbatim>\<open>normalize\<close>, \<^verbatim>\<open>cross\<close>, \<^verbatim>\<open>subvector\<close>,
  \<^verbatim>\<open>submatrix\<close>, \<^verbatim>\<open>shrink\<close>, \<^verbatim>\<open>grow\<close>, the matrix product, \<^verbatim>\<open>transpose\<close>, the
  extraction of a row or a column, \<^verbatim>\<open>determinant\<close>, \<^verbatim>\<open>solve\<close>) ends, whenever it
  returns, in a frame whose \<^verbatim>\<open>*this\<close> and arguments are the ones of the call: its writes
  go to local variables only. The entry points that do change \<^verbatim>\<open>*this\<close> are \<^verbatim>\<open>fill\<close>,
  \<^verbatim>\<open>operator=\<close> and an assignment through \<^verbatim>\<open>operator[]\<close>. (The comparisons
  \<^verbatim>\<open>operator==\<close> and \<^verbatim>\<open>almost_equal\<close> only read, and are functions of their operands.)
\<close>

theorem returning_operations_leave_operands:
  fixes v w :: "'a::{zero,plus,minus,times} vector" and A B :: "'a matrix"
  shows "leaves_operands v w (vector_op_plus_exec v w)
   \<and> leaves_operands v w (vector_op_minus_exec v w)
   \<and> leaves_operands v () (vector_op_negate_exec v)
   \<and> leaves_operands v c (vector_op_times_scalar_exec v c)
   \<and> leaves_operands v c (vector_op_divide_exec quot v c)
   \<and> leaves_operands v w (vector_op_times_vector_exec v w)
   \<and> leaves_operands v () (magnitude_squared_exec v)
   \<and> leaves_operands v () (magnitude_exec sq_root v)
   \<and> leaves_operands v () (normalize_exec quot sq_root v)
   \<and> leaves_operands v w (cross_exec v w)
   \<and> leaves_operands v start_index (subvector_exec RESULT_DIMENSION v start_index)
   \<and> leaves_operands v () (vector_shrink_exec RESULT_DIMENSION v)
   \<and> leaves_operands v c (vector_grow_exec RESULT_DIMENSION v c)
   \<and> leaves_operands A B (matrix_op_plus_exec A B)
   \<and> leaves_operands A B (matrix_op_minus_exec A B)
   \<and> leaves_operands A () (matrix_op_negate_exec A)
   \<and> leaves_operands A c (matrix_op_divide_exec quot A c)
   \<and> leaves_operands A c (matrix_op_times_scalar_exec A c)
   \<and> leaves_operands A B (matrix_op_times_matrix_exec A B)
   \<and> leaves_operands A (top_row, left_column)
         (submatrix_exec RESULT_HEIGHT RESULT_WIDTH A top_row left_column)
   \<and> leaves_operands A () (matrix_shrink_exec RESULT_HEIGHT RESULT_WIDTH A)
   \<and> leaves_operands A c (matrix_grow_exec RESULT_HEIGHT RESULT_WIDTH A c)
   \<and> leaves_operands A () (transpose_exec A)
   \<and> leaves_operands A column (column_matrix_exec A column)
   \<and> leaves_operands A column (column_vector_exec A column)
   \<and> leaves_operands A row (row_matrix_exec A row)
   \<and> leaves_operands A row (row_vector_exec A row)
   \<and> leaves_operands A () (determinant_exec A)
   \<and> leaves_operands A b (solve_exec quot A b)
   \<and> \<not> leaves_operands [1, 2] (7::int) (vector_fill_exec [1, 2] 7)
   \<and> \<not> leaves_operands \<lparr>height = 1, width = 2, rows = [[1, 2]]\<rparr> (7::int)
         (matrix_fill_exec \<lparr>height = 1, width = 2, rows = [[1, 2]]\<rparr> 7)
   \<and> \<not> leaves_operands [1, 2] [3, 4::int] (vector_op_assign_exec [1, 2] [3, 4])
   \<and> \<not> leaves_operands \<lparr>height = 1, width = 2, rows = [[1, 2]]\<rparr>
         \<lparr>height = 1, width = 2, rows = [[3, 4::int]]\<rparr>
         (matrix_op_assign_exec \<lparr>height = 1, width = 2, rows = [[1, 2]]\<rparr>
            \<lparr>height = 1, width = 2, rows = [[3, 4]]\<rparr>)
   \<and> vector_assign [1, 2::int] 0 7 = Inr [7, 2]
   \<and> matrix_assign \<lparr>height = 1, width = 2, rows = [[1, 2::int]]\<rparr> 0 1 7
       = Inr \<lparr>height = 1, width = 2, rows = [[1, 7]]\<rparr>"
proof -
  have "\<not> leaves_operands [1, 2] (7::int) (vector_fill_exec [1, 2] 7)"
    by (simp add: vector_fill_exec_value leaves_operands_def replicate_2)
  moreover have "\<not> leaves_operands \<lparr>height = 1, width = 2, rows = [[1, 2]]\<rparr> (7::int)
         (matrix_fill_exec \<lparr>height = 1, width = 2, rows = [[1, 2]]\<rparr> 7)"
    by (simp add: matrix_fill_exec_value leaves_operands_def well_formed_def dimension_def
        replicate_2)
  moreover have "\<not> leaves_operands [1, 2] [3, 4::int] (vector_op_assign_exec [1, 2] [3, 4])"
    by (simp add: vector_op_assign_exec_def leaves_operands_def)
  moreover have "\<not> leaves_operands \<lparr>height = 1, width = 2, rows = [[1, 2]]\<rparr>
         \<lparr>height = 1, width = 2, rows = [[3, 4::int]]\<rparr>
         (matrix_op_assign_exec \<lparr>height = 1, width = 2, rows = [[1, 2]]\<rparr>
            \<lparr>height = 1, width = 2, rows = [[3, 4]]\<rparr>)"
    by (simp add: matrix_op_assign_exec_def leaves_operands_def)
  moreover have "vector_assign [1, 2::int] 0 7 = Inr [7, 2]"
    by simp
  moreover have "matrix_assign \<lparr>height = 1, width = 2, rows = [[1, 2::int]]\<rparr> 0 1 7
       = Inr \<lparr>height = 1, width = 2, rows = [[1, 7]]\<rparr>"
    by simp
  ultimately show ?thesis
    by (intro conjI leaves_vector_operations leaves_magnitude leaves_normalize leaves_cross
        leaves_vector_resizing leaves_matrix_arithmetic leaves_matrix_resizing
        leaves_matrix_extraction leaves_determinant leaves_solve)
qed

lemma sqrt_25: "sqrt 25 = 5"
  by (rule real_sqrt_unique) simp_all

lemma vector_examples:
  "vector_op_plus [3, 4, 0] [1, 2, 2::real] = Inr [4, 6, 2]"
  "vector_op_minus [3, 4, 0] [1, 2, 2::real] = Inr [2, 2, - 2]"
  "vector_op_negate [3, 4, 0::real] = Inr [- 3, - 4, 0]"
  "vector_op_times_scalar [3, 4, 0] (2::real) = Inr [6, 8, 0]"
  "vector_op_divide (/) [3, 4, 0] (2::real) = Inr [3 / 2, 2, 0]"
  "vector_op_times_vector [3, 4, 0] [1, 2, 2::real] = Inr 11"
  "magnitude_squared [3, 4, 0::real] = Inr 25"
  "magnitude sqrt [3, 4, 0::real] = Inr 5"
  "normalize (/) sqrt [3, 4, 0::real] = Inr [3 / 5, 4 / 5, 0]"
  "cross [3, 4, 0] [1, 2, 2::real] = Inr [8, - 6, 2]"
  "subvector 2 [3, 4, 0::real] 1 = Inr [4, 0]"
  "vector_shrink 2 [3, 4, 0::real] = Inr [3, 4]"
  "vector_grow 4 [3, 4, 0] (2::real) = Inr [3, 4, 0, 2]"
  by (simp_all add: vector_op_plus_def vector_op_plus_exec_def vector_op_plus_step_def
      vector_op_minus_def vector_op_minus_exec_def vector_op_minus_step_def
      vector_op_negate_def vector_op_negate_exec_def vector_op_negate_step_def
      vector_op_times_scalar_def vector_op_times_scalar_exec_def vector_op_times_scalar_step_def
      vector_op_divide_def vector_op_divide_exec_def vector_op_divide_step_def scalar_divide_def
      vector_op_times_vector_def vector_op_times_vector_exec_def dot_step_def
      magnitude_squared_def magnitude_squared_exec_def magnitude_squared_step_def
      magnitude_def magnitude_exec_def normalize_def normalize_exec_def normalize_sum_step_def
      normalize_scale_step_def cross_value subvector_def subvector_exec_def subvector_step_def
      vector_shrink_def vector_shrink_exec_def vector_shrink_step_def
      vector_grow_def vector_grow_exec_def vector_grow_step_def
      dimension_def is_index_def sqrt_25 replicate_2 for_loop_numeral eval_nat_numeral)

lemma for_loop2_numeral:
  "for_loop2 (numeral k) w body s
     = bindE (for_loop2 (pred_numeral k) w body s) (for_loop w (body (pred_numeral k)))"
  by (simp add: for_loop2_def for_loop_numeral)

lemma for_loop2_Suc:
  "for_loop2 (Suc n) w body s = bindE (for_loop2 n w body s) (for_loop w (body n))"
  by (simp add: for_loop2_def)

lemma matrix_examples:
  "matrix_op_plus \<lparr>height = 2, width = 2, rows = [[1, 2], [3, 4::real]]\<rparr>
       \<lparr>height = 2, width = 2, rows = [[5, 6], [7, 8]]\<rparr>
     = Inr \<lparr>height = 2, width = 2, rows = [[6, 8], [10, 12]]\<rparr>"
  "matrix_op_minus \<lparr>height = 2, width = 2, rows = [[1, 2], [3, 4::real]]\<rparr>
       \<lparr>height = 2, width = 2, rows = [[5, 6], [7, 8]]\<rparr>
     = Inr \<lparr>height = 2, width = 2, rows = [[- 4, - 4], [- 4, - 4]]\<rparr>"
  "matrix_op_negate \<lparr>height = 2, width = 2, rows = [[1, 2], [3, 4::real]]\<rparr>
     = Inr \<lparr>height = 2, width = 2, rows = [[- 1, - 2], [- 3, - 4]]\<rparr>"
  "matrix_op_divide (/) \<lparr>height = 2, width = 2, rows = [[1, 2], [3, 4::real]]\<rparr> 2
     = Inr \<lparr>height = 2, width = 2, rows = [[1 / 2, 1], [3 / 2, 2]]\<rparr>"
  "matrix_op_times_scalar \<lparr>height = 2, width = 2, rows = [[1, 2], [3, 4::real]]\<rparr> 2
     = Inr \<lparr>height = 2, width = 2, rows = [[2, 4], [6, 8]]\<rparr>"
  "matrix_op_times_matrix \<lparr>height = 2, width = 2, rows = [[1, 2], [3, 4::real]]\<rparr>
       \<lparr>height = 2, width = 2, rows = [[5, 6], [7, 8]]\<rparr>
     = Inr \<lparr>height = 2, width = 2, rows = [[19, 22], [43, 50]]\<rparr>"
  by (simp_all add: matrix_op_plus_def matrix_op_plus_exec_def matrix_op_plus_step_def
      matrix_op_minus_def matrix_op_minus_exec_def matrix_op_minus_step_def
      matrix_op_negate_def matrix_op_negate_exec_def matrix_op_negate_step_def
      matrix_op_divide_def matrix_op_divide_exec_def matrix_op_divide_step_def scalar_divide_def
      matrix_op_times_scalar_def matrix_op_times_scalar_exec_def matrix_op_times_scalar_step_def
      matrix_op_times_matrix_def matrix_op_times_matrix_exec_def matrix_op_times_matrix_step_def
      matrix_op_times_matrix_inner_def
      replicate_2 for_loop_numeral for_loop2_numeral for_loop2_Suc)

lemma matrix_structure_examples:
  "submatrix 1 1 \<lparr>height = 2, width = 2, rows = [[1, 2], [3, 4::real]]\<rparr> 0 1
     = Inr \<lparr>height = 1, width = 1, rows = [[2]]\<rparr>"
  "matrix_shrink 1 2 \<lparr>height = 2, width = 2, rows = [[1, 2], [3, 4::real]]\<rparr>
     = Inr \<lparr>height = 1, width = 2, rows = [[1, 2]]\<rparr>"
  "matrix_grow 3 3 \<lparr>height = 2, width = 2, rows = [[1, 2], [3, 4::real]]\<rparr> 2
     = Inr \<lparr>height = 3, width = 3, rows = [[1, 2, 2], [3, 4, 2], [2, 2, 2]]\<rparr>"
  "matrix_transpose \<lparr>height = 2, width = 2, rows = [[1, 2], [3, 4::real]]\<rparr>
     = Inr \<lparr>height = 2, width = 2, rows = [[1, 3], [2, 4]]\<rparr>"
  "column_matrix \<lparr>height = 2, width = 2, rows = [[1, 2], [3, 4::real]]\<rparr> 0
     = Inr \<lparr>height = 2, width = 1, rows = [[1], [3]]\<rparr>"
  "column_vector \<lparr>height = 2, width = 2, rows = [[1, 2], [3, 4::real]]\<rparr> 1 = Inr [2, 4]"
  "row_matrix \<lparr>height = 2, width = 2, rows = [[1, 2], [3, 4::real]]\<rparr> 1
     = Inr \<lparr>height = 1, width = 2, rows = [[3, 4]]\<rparr>"
  "row_vector \<lparr>height = 2, width = 2, rows = [[1, 2], [3, 4::real]]\<rparr> 1 = Inr [3, 4]"
  "determinant \<lparr>height = 2, width = 2, rows = [[1, 2], [3, 4::real]]\<rparr> = Inr (- 2)"
  "solve (/) \<lparr>height = 2, width = 2, rows = [[1, 2], [3, 4::real]]\<rparr> [5, 6]
     = Inr [- 4, 9 / 2]"
  by (simp_all add: submatrix_def submatrix_exec_def submatrix_step_def
      matrix_shrink_def matrix_shrink_exec_def matrix_shrink_step_def
      matrix_grow_def matrix_grow_exec_def matrix_grow_step_def
      matrix_transpose_def transpose_exec_def transpose_step_def
      column_matrix_def column_matrix_exec_def column_matrix_step_def
      column_vector_def column_vector_exec_def column_vector_step_def
      row_matrix_def row_matrix_exec_def row_matrix_step_def is_row_def
      row_vector_def row_vector_exec_def row_vector_step_def
      determinant_2x2_value solve_2x2_value
      replicate_2 replicate_3 for_loop_numeral for_loop2_numeral for_loop2_Suc)

theorem returning_operations_leave_operands_witness:
  "leaves_operands [3, 4, 0::real] [1, 2, 2]
       (vector_op_plus_exec [3, 4, 0::real] [1, 2, 2])
   \<and> vector_op_plus [3, 4, 0::real] [1, 2, 2]
       = Inr [4, 6, 2]
   \<and> leaves_operands [3, 4, 0::real] [1, 2, 2]
       (vector_op_minus_exec [3, 4, 0::real] [1, 2, 2])
   \<and> vector_op_minus [3, 4, 0::real] [1, 2, 2]
       = Inr [2, 2, - 2]
   \<and> leaves_operands [3, 4, 0::real] ()
       (vector_op_negate_exec [3, 4, 0::real])
   \<and> vector_op_negate [3, 4, 0::real]
       = Inr [- 3, - 4, 0]
   \<and> leaves_operands [3, 4, 0::real] 2
       (vector_op_times_scalar_exec [3, 4, 0::real] 2)
   \<and> vector_op_times_scalar [3, 4, 0::real] 2
       = Inr [6, 8, 0]
   \<and> leaves_operands [3, 4, 0::real] 2
       (vector_op_divide_exec (/) [3, 4, 0::real] 2)
   \<and> vector_op_divide (/) [3, 4, 0::real] 2
       = Inr [3 / 2, 2, 0]
   \<and> leaves_operands [3, 4, 0::real] [1, 2, 2]
       (vector_op_times_vector_exec [3, 4, 0::real] [1, 2, 2])
   \<and> vector_op_times_vector [3, 4, 0::real] [1, 2, 2]
       = Inr 11
   \<and> leaves_operands [3, 4, 0::real] ()
       (magnitude_squared_exec [3, 4, 0::real])
   \<and> magnitude_squared [3, 4, 0::real]
       = Inr 25
   \<and> leaves_operands [3, 4, 0::real] ()
       (magnitude_exec sqrt [3, 4, 0::real])
   \<and> magnitude sqrt [3, 4, 0::real]
       = Inr 5
   \<and> leaves_operands [3, 4, 0::real] ()
       (normalize_exec (/) sqrt [3, 4, 0::real])
   \<and> normalize (/) sqrt [3, 4, 0::real]
       = Inr [3 / 5, 4 / 5, 0]
   \<and> leaves_operands [3, 4, 0::real] [1, 2, 2]
       (cross_exec [3, 4, 0::real] [1, 2, 2])
   \<and> cross [3, 4, 0::real] [1, 2, 2]
       = Inr [8, - 6, 2]
   \<and> leaves_operands [3, 4, 0::real] 1
       (subvector_exec 2 [3, 4, 0::real] 1)
   \<and> subvector 2 [3, 4, 0::real] 1
       = Inr [4, 0]
   \<and> leaves_operands [3, 4, 0::real] ()
       (vector_shrink_exec 2 [3, 4, 0::real])
   \<and> vector_shrink 2 [3, 4, 0::real]
       = Inr [3, 4]
   \<and> leaves_operands [3, 4, 0::real] 2
       (vector_grow_exec 4 [3, 4, 0::real] 2)
   \<and> vector_grow 4 [3, 4, 0::real] 2
       = Inr [3, 4, 0, 2]
   \<and> leaves_operands \<lparr>height = 2, width = 2, rows = [[1, 2], [3, 4::real]]\<rparr> \<lparr>height = 2, width = 2, rows = [[5, 6], [7, 8]]\<rparr>
       (matrix_op_plus_exec \<lparr>height = 2, width = 2, rows = [[1, 2], [3, 4::real]]\<rparr> \<lparr>height = 2, width = 2, rows = [[5, 6], [7, 8]]\<rparr>)
   \<and> matrix_op_plus \<lparr>height = 2, width = 2, rows = [[1, 2], [3, 4::real]]\<rparr> \<lparr>height = 2, width = 2, rows = [[5, 6], [7, 8]]\<rparr>
       = Inr \<lparr>height = 2, width = 2, rows = [[6, 8], [10, 12]]\<rparr>
   \<and> leaves_operands \<lparr>height = 2, width = 2, rows = [[1, 2], [3, 4::real]]\<rparr> \<lparr>height = 2, width = 2, rows = [[5, 6], [7, 8]]\<rparr>
       (matrix_op_minus_exec \<lparr>height = 2, width = 2, rows = [[1, 2], [3, 4::real]]\<rparr> \<lparr>height = 2, width = 2, rows = [[5, 6], [7, 8]]\<rparr>)
   \<and> matrix_op_minus \<lparr>height = 2, width = 2, rows = [[1, 2], [3, 4::real]]\<rparr> \<lparr>height = 2, width = 2, rows = [[5, 6], [7, 8]]\<rparr>
       = Inr \<lparr>height = 2, width = 2, rows = [[- 4, - 4], [- 4, - 4]]\<rparr>
   \<and> leaves_operands \<lparr>height = 2, width = 2, rows = [[1, 2], [3, 4::real]]\<rparr> ()
       (matrix_op_negate_exec \<lparr>height = 2, width = 2, rows = [[1, 2], [3, 4::real]]\<rparr>)
   \<and> matrix_op_negate \<lparr>height = 2, width = 2, rows = [[1, 2], [3, 4::real]]\<rparr>
       = Inr \<lparr>height = 2, width = 2, rows = [[- 1, - 2], [- 3, - 4]]\<rparr>
   \<and> leaves_operands \<lparr>height = 2, width = 2, rows = [[1, 2], [3, 4::real]]\<rparr> 2
       (matrix_op_divide_exec (/) \<lparr>height = 2, width = 2, rows = [[1, 2], [3, 4::real]]\<rparr> 2)
   \<and> matrix_op_divide (/) \<lparr>height = 2, width = 2, rows = [[1, 2], [3, 4::real]]\<rparr> 2
       = Inr \<lparr>height = 2, width = 2, rows = [[1 / 2, 1], [3 / 2, 2]]\<rparr>
   \<and> leaves_operands \<lparr>height = 2, width = 2, rows = [[1, 2], [3, 4::real]]\<rparr> 2
       (matrix_op_times_scalar_exec \<lparr>height = 2, width = 2, rows = [[1, 2], [3, 4::real]]\<rparr> 2)
   \<and> matrix_op_times_scalar \<lparr>height = 2, width = 2, rows = [[1, 2], [3, 4::real]]\<rparr> 2
       = Inr \<lparr>height = 2, width = 2, rows = [[2, 4], [6, 8]]\<rparr>
   \<and> leaves_operands \<lparr>height = 2, width = 2, rows = [[1, 2], [3, 4::real]]\<rparr> \<lparr>height = 2, width = 2, rows = [[5, 6], [7, 8]]\<rparr>
       (matrix_op_times_matrix_exec \<lparr>height = 2, width = 2, rows = [[1, 2], [3, 4::real]]\<rparr> \<lparr>height = 2, width = 2, rows = [[5, 6], [7, 8]]\<rparr>)
   \<and> matrix_op_times_matrix \<lparr>height = 2, width = 2, rows = [[1, 2], [3, 4::real]]\<rparr> \<lparr>height = 2, width = 2, rows = [[5, 6], [7, 8]]\<rparr>
       = Inr \<lparr>height = 2, width = 2, rows = [[19, 22], [43, 50]]\<rparr>
   \<and> leaves_operands \<lparr>height = 2, width = 2, rows = [[1, 2], [3, 4::real]]\<rparr> (0, 1)
       (submatrix_exec 1 1 \<lparr>height = 2, width = 2, rows = [[1, 2], [3, 4::real]]\<rparr> 0 1)
   \<and> submatrix 1 1 \<lparr>height = 2, width = 2, rows = [[1, 2], [3, 4::real]]\<rparr> 0 1
       = Inr \<lparr>height = 1, width = 1, rows = [[2]]\<rparr>
   \<and> leaves_operands \<lparr>height = 2, width = 2, rows = [[1, 2], [3, 4::real]]\<rparr> ()
       (matrix_shrink_exec 1 2 \<lparr>height = 2, width = 2, rows = [[1, 2], [3, 4::real]]\<rparr>)
   \<and> matrix_shrink 1 2 \<lparr>height = 2, width = 2, rows = [[1, 2], [3, 4::real]]\<rparr>
       = Inr \<lparr>height = 1, width = 2, rows = [[1, 2]]\<rparr>
   \<and> leaves_operands \<lparr>height = 2, width = 2, rows = [[1, 2], [3, 4::real]]\<rparr> 2
       (matrix_grow_exec 3 3 \<lparr>height = 2, width = 2, rows = [[1, 2], [3, 4::real]]\<rparr> 2)
   \<and> matrix_grow 3 3 \<lparr>height = 2, width = 2, rows = [[1, 2], [3, 4::real]]\<rparr> 2
       = Inr \<lparr>height = 3, width = 3, rows = [[1, 2, 2], [3, 4, 2], [2, 2, 2]]\<rparr>
   \<and> leaves_operands \<lparr>height = 2, width = 2, rows = [[1, 2], [3, 4::real]]\<rparr> ()
       (transpose_exec \<lparr>height = 2, width = 2, rows = [[1, 2], [3, 4::real]]\<rparr>)
   \<and> matrix_transpose \<lparr>height = 2, width = 2, rows = [[1, 2], [3, 4::real]]\<rparr>
       = Inr \<lparr>height = 2, width = 2, rows = [[1, 3], [2, 4]]\<rparr>
   \<and> leaves_operands \<lparr>height = 2, width = 2, rows = [[1, 2], [3, 4::real]]\<rparr> 0
       (column_matrix_exec \<lparr>height = 2, width = 2, rows = [[1, 2], [3, 4::real]]\<rparr> 0)
   \<and> column_matrix \<lparr>height = 2, width = 2, rows = [[1, 2], [3, 4::real]]\<rparr> 0
       = Inr \<lparr>height = 2, width = 1, rows = [[1], [3]]\<rparr>
   \<and> leaves_operands \<lparr>height = 2, width = 2, rows = [[1, 2], [3, 4::real]]\<rparr> 1
       (column_vector_exec \<lparr>height = 2, width = 2, rows = [[1, 2], [3, 4::real]]\<rparr> 1)
   \<and> column_vector \<lparr>height = 2, width = 2, rows = [[1, 2], [3, 4::real]]\<rparr> 1
       = Inr [2, 4]
   \<and> leaves_operands \<lparr>height = 2, width = 2, rows = [[1, 2], [3, 4::real]]\<rparr> 1
       (row_matrix_exec \<lparr>height = 2, width = 2, rows = [[1, 2], [3, 4::real]]\<rparr> 1)
   \<and> row_matrix \<lparr>height = 2, width = 2, rows = [[1, 2], [3, 4::real]]\<rparr> 1
       = Inr \<lparr>height = 1, width = 2, rows = [[3, 4]]\<rparr>
   \<and> leaves_operands \<lparr>height = 2, width = 2, rows = [[1, 2], [3, 4::real]]\<rparr> 1
       (row_vector_exec \<lparr>height = 2, width = 2, rows = [[1, 2], [3, 4::real]]\<rparr> 1)
   \<and> row_vector \<lparr>height = 2, width = 2, rows = [[1, 2], [3, 4::real]]\<rparr> 1
       = Inr [3, 4]
   \<and> leaves_operands \<lparr>height = 2, width = 2, rows = [[1, 2], [3, 4::real]]\<rparr> ()
       (determinant_exec \<lparr>height = 2, width = 2, rows = [[1, 2], [3, 4::real]]\<rparr>)
   \<and> determinant \<lparr>height = 2, width = 2, rows = [[1, 2], [3, 4::real]]\<rparr>
       = Inr (- 2)
   \<and> leaves_operands \<lparr>height = 2, width = 2, rows = [[1, 2], [3, 4::real]]\<rparr> [5, 6]
       (solve_exec (/) \<lparr>height = 2, width = 2, rows = [[1, 2], [3, 4::real]]\<rparr> [5, 6])
   \<and> solve (/) \<lparr>height = 2, width = 2, rows = [[1, 2], [3, 4::real]]\<rparr> [5, 6]
       = Inr [- 4, 9 / 2]"
  using returning_operations_leave_operands [where v = "[3, 4, 0::real]" and w = "[1, 2, 2]"
      and c = 2 and quot = "(/)" and sq_root = sqrt and start_index = 1
      and RESULT_DIMENSION = 2
      and A = "\<lparr>height = 2, width = 2, rows = [[1, 2], [3, 4::real]]\<rparr>"
      and B = "\<lparr>height = 2, width = 2, rows = [[5, 6], [7, 8]]\<rparr>"
      and top_row = 0 and left_column = 1 and RESULT_HEIGHT = 1 and RESULT_WIDTH = 1
      and column = 0 and row = 1 and b = "[5, 6]"]
    returning_operations_leave_operands [where v = "[3, 4, 0::real]" and c = 2
      and RESULT_DIMENSION = 4
      and A = "\<lparr>height = 2, width = 2, rows = [[1, 2], [3, 4::real]]\<rparr>"
      and RESULT_HEIGHT = 1 and RESULT_WIDTH = 2 and column = 1]
    returning_operations_leave_operands [where c = "2::real"
      and A = "\<lparr>height = 2, width = 2, rows = [[1, 2], [3, 4::real]]\<rparr>"
      and RESULT_HEIGHT = 3 and RESULT_WIDTH = 3]
  by (simp add: vector_examples matrix_examples matrix_structure_examples del: One_nat_def)

end
